theory Spec2Isabelle
  imports Main "HOL-Library.Sublist" "HOL-Library.Word"
begin

section \<open>JavaScript values and string helpers\<close>

text \<open>
  A string is a list of characters of the Latin-1 range: the character with code \<open>n\<close> is
  the UTF-16 code unit \<open>n < 256\<close>, so \<open>length\<close> is the \<open>length\<close> of the script, \<open>take\<close> is
  \<open>substring(0, n)\<close> and \<open>prefix\<close> is \<open>startsWith\<close>.  Text with characters beyond U+00FF is
  outside the model.  \<open>Date.now()\<close> is an input of every handler that reads the clock (a
  natural number of milliseconds), one input per reading.
\<close>

definition digit_char :: "nat \<Rightarrow> char" where
  "digit_char d = char_of (48 + d)"

function string_of_nat :: "nat \<Rightarrow> string" where
  "string_of_nat n =
     (if n < 10 then [digit_char n] else string_of_nat (n div 10) @ [digit_char (n mod 10)])"
  by pat_completeness auto
termination
  by (relation "measure (\<lambda>n. n)") auto

declare string_of_nat.simps [simp del]

text \<open>\<open>s.includes(sub)\<close>: \<open>sub\<close> occurs in \<open>s\<close> as a contiguous run.\<close>

fun includes_str :: "string \<Rightarrow> string \<Rightarrow> bool" where
  "includes_str [] sub = (sub = [])"
| "includes_str (c # cs) sub = (prefix sub (c # cs) \<or> includes_str cs sub)"

text \<open>\<open>s.toLowerCase()\<close>.  The cased characters of the range are \<open>A\<close> to \<open>Z\<close> and U+00C0 to
  U+00DE without the multiplication sign U+00D7; each is lowered by adding 32.\<close>

definition lower_char :: "char \<Rightarrow> char" where
  "lower_char c =
     (let n = (of_char c :: nat) in
      if (65 \<le> n \<and> n \<le> 90) \<or> (192 \<le> n \<and> n \<le> 222 \<and> n \<noteq> 215) then char_of (n + 32) else c)"

definition toLowerCase :: "string \<Rightarrow> string" where
  "toLowerCase s = map lower_char s"

text \<open>A parsed JSON value, with \<open>undefined\<close> for an absent property.  A number is an
  integer from \<open>-2^53\<close> to \<open>2^53 - 1\<close>, the range in which every integer is a value of the
  script and is printed digit by digit: a signed word of 54 bits.  Fractions, larger
  magnitudes, \<open>NaN\<close> and the infinities are outside the model.\<close>

datatype json =
    JUndefined
  | JNull
  | JBool bool
  | JNum "54 word"
  | JStr string
  | JArr "json list"
  | JObj "(string \<times> json) list"

text \<open>JavaScript truthiness (\<open>if (x)\<close>, \<open>x || y\<close>, \<open>!x\<close>).\<close>

fun truthy :: "json \<Rightarrow> bool" where
  "truthy JUndefined = False"
| "truthy JNull = False"
| "truthy (JBool b) = b"
| "truthy (JNum n) = (n \<noteq> 0)"
| "truthy (JStr s) = (s \<noteq> [])"
| "truthy (JArr xs) = True"
| "truthy (JObj kvs) = True"

text \<open>Property read \<open>v.k\<close> for the data keys the panel reads; the last duplicate of a key
  wins in \<open>JSON.parse\<close>.  A property of a primitive or of an array (other than \<open>length\<close>)
  is \<open>undefined\<close>; reading a property of \<open>null\<close> or \<open>undefined\<close> is guarded in the source.\<close>

fun js_get :: "json \<Rightarrow> string \<Rightarrow> json" where
  "js_get (JObj kvs) k = (case map_of (rev kvs) k of None \<Rightarrow> JUndefined | Some v \<Rightarrow> v)"
| "js_get v k = JUndefined"

fun js_length :: "json \<Rightarrow> json" where
  "js_length (JArr xs) = JNum (of_nat (length xs))"
| "js_length (JStr s) = JNum (of_nat (length s))"
| "js_length v = js_get v ''length''"

fun isArray :: "json \<Rightarrow> bool" where
  "isArray (JArr xs) = True"
| "isArray v = False"

fun string_of_int :: "int \<Rightarrow> string" where
  "string_of_int i = (if i < 0 then CHR ''-'' # string_of_nat (nat (- i)) else string_of_nat (nat i))"

fun join_comma :: "string list \<Rightarrow> string" where
  "join_comma [] = []"
| "join_comma [s] = s"
| "join_comma (s # t # ss) = s @ '','' @ join_comma (t # ss)"

text \<open>String conversion of a template literal \<open>`${v}`\<close>.\<close>

fun js_to_string :: "json \<Rightarrow> string" where
  "js_to_string JUndefined = ''undefined''"
| "js_to_string JNull = ''null''"
| "js_to_string (JBool b) = (if b then ''true'' else ''false'')"
| "js_to_string (JNum n) = string_of_int (sint n)"
| "js_to_string (JStr s) = s"
| "js_to_string (JArr xs) =
     join_comma (map (\<lambda>x. if x = JNull \<or> x = JUndefined then [] else js_to_string x) xs)"
| "js_to_string (JObj kvs) = ''[object Object]''"

text \<open>\<open>a || b\<close> on values.\<close>

definition js_or :: "json \<Rightarrow> json \<Rightarrow> json" where
  "js_or a b = (if truthy a then a else b)"

section \<open>Side panel: state, message display and persistence (sidepanel.js)\<close>

text \<open>\<open>CONFIG\<close>.\<close>

definition reconnectDelay :: nat where "reconnectDelay = 3000"
definition maxReconnectAttempts :: nat where "maxReconnectAttempts = 5"

text \<open>\<open>TOOL_DISPLAY\<close>: display name and loading text per tool key (the icon glyphs are
  left out).\<close>

definition TOOL_DISPLAY :: "(string \<times> string \<times> string) list" where
  "TOOL_DISPLAY =
    [(''search_leads'', ''Close CRM Search'', ''Searching Close CRM...''),
     (''get_lead'', ''Close CRM Lookup'', ''Fetching lead details...''),
     (''get_lead_activities'', ''Close CRM Activities'', ''Loading activities...''),
     (''search_insured'', ''NowCerts Search'', ''Searching NowCerts...''),
     (''get_insured'', ''NowCerts Lookup'', ''Fetching insured details...''),
     (''get_policies'', ''NowCerts Policies'', ''Loading policies...''),
     (''get_certificates'', ''NowCerts Certificates'', ''Loading certificates...''),
     (''get_dot_info'', ''FMCSA DOT Lookup'', ''Looking up DOT number...''),
     (''search_by_name'', ''FMCSA Name Search'', ''Searching FMCSA...''),
     (''navigate'', ''Navigate'', ''Navigating...''),
     (''click'', ''Click Element'', ''Clicking...''),
     (''fill_form'', ''Fill Form'', ''Filling form...''),
     (''screenshot'', ''Screenshot'', ''Taking screenshot...''),
     (''default'', ''Tool'', ''Working...'')]"

text \<open>\<open>TOOL_DISPLAY[key] || TOOL_DISPLAY['default']\<close>, as the name and the loading text that
  the templates print.  The table is an object literal, so a key that names a property of
  \<open>Object.prototype\<close> finds that property, which is truthy: a function, whose \<open>name\<close> is
  the key (\<open>Object\<close> for \<open>constructor\<close>) and whose \<open>loadingText\<close> is \<open>undefined\<close>, or the
  prototype itself for \<open>__proto__\<close>.\<close>

definition prototype_functions :: "string list" where
  "prototype_functions =
     [''__defineGetter__'', ''__defineSetter__'', ''hasOwnProperty'', ''__lookupGetter__'',
      ''__lookupSetter__'', ''isPrototypeOf'', ''propertyIsEnumerable'', ''toString'', ''valueOf'',
      ''toLocaleString'']"

definition toolInfo :: "string \<Rightarrow> string \<times> string" where
  "toolInfo k =
     (case map_of TOOL_DISPLAY k of
        Some i \<Rightarrow> i
      | None \<Rightarrow>
          (if k = ''constructor'' then (''Object'', ''undefined'')
           else if k = ''__proto__'' then (''undefined'', ''undefined'')
           else if k \<in> set prototype_functions then (k, ''undefined'')
           else (''Tool'', ''Working...'')))"

text \<open>A Message object; optional properties are options.\<close>

record message =
  role :: string
  content :: string
  timestamp :: nat
  msg_id :: "string option"
  streaming :: bool
  msg_type :: "string option"
  toolId :: "string option"
  toolKey :: "string option"
  toolStatus :: "string option"
  toolArgs :: "json option"
  toolSummary :: "string option"

text \<open>A child of the messages container: its id, its class list and what its inner HTML
  shows (the argument of \<open>formatMessage\<close> for a chat message, the fields of a tool card).\<close>

datatype inner =
    Formatted string
  | ToolLoading string
  | ToolDone bool string string
  | ThinkingDots
  | DataCard string json
  | TaskSuggestion string

record child =
  div_id :: string
  classes :: "string list"
  inner_html :: inner

datatype readyState = CONNECTING | OPEN | CLOSING | CLOSED

record tab =
  tab_id :: nat
  tab_url :: string
  tab_title :: string

record attachment =
  att_name :: string
  att_mimeType :: string
  att_base64 :: string
  att_size :: nat

record browser_action_frame =
  actionId :: string
  action_tag :: string
  p_url :: string
  p_tab_id :: nat
  p_script :: string
  p_selector :: string
  p_value :: string
  p_label_contains :: string
  p_select_first :: "bool option"

text \<open>The uniform result envelope \<open>{success, error?, ...payload}\<close>; \<open>r_success\<close> is
  \<open>None\<close> when the object has no \<open>success\<close> property.\<close>

datatype payload =
    NoPayload
  | TabIdPayload nat
  | ScreenshotPayload string
  | TabPayload tab
  | ScriptResult json
  | PageStatePayload json
  | ClickedPayload string
  | SelectedPayload string
  | ElementPayload string string "string option" string

record action_result =
  r_success :: "bool option"
  r_error :: "string option"
  r_payload :: payload

text \<open>Outbound frames handed to \<open>ws.send\<close>.\<close>

datatype out_frame =
    MessageFrame string "tab option" "attachment list option"
  | ActionResponse string bool
  | TabStateFrame tab
  | BrowserActionResult string action_result

text \<open>The module state \<open>state\<close> together with what the panel acts on: the children of the
  messages container, \<open>chrome.storage.local\<close> under the history key, the frames accepted by
  the socket, the alerts shown and the reconnect timers set.\<close>

record panel =
  ws :: "readyState option"
  connected :: bool
  reconnectAttempts :: nat
  messages :: "message list"
  currentTab :: "tab option"
  pendingAction :: "(string \<times> string \<times> string) option"
  isStreaming :: bool
  pendingFiles :: "attachment list"
  currentStreamId :: "string option"
  currentToolId :: "string option"
  dom :: "child list"
  storage :: "message list option"
  outbox :: "out_frame list"
  alerts :: "string list"
  timers :: "nat list"

text \<open>The state literal at script load, over the persisted storage.\<close>

definition initial_panel :: "message list option \<Rightarrow> panel" where
  "initial_panel st =
     \<lparr>ws = None, connected = False, reconnectAttempts = 0, messages = [], currentTab = None,
      pendingAction = None, isStreaming = False, pendingFiles = [], currentStreamId = None, currentToolId = None,
      dom = [], storage = st, outbox = [], alerts = [], timers = []\<rparr>"

text \<open>\<open>renderMessage\<close>: appends one child to the container.  The welcome banner that the
  first rendering removes has no id and is left out, as is scrolling.\<close>

definition renderMessage :: "message \<Rightarrow> panel \<Rightarrow> panel" where
  "renderMessage m p =
     (let d =
        (if msg_type m = Some ''tool'' then
           (let info = toolInfo (case toolKey m of Some k \<Rightarrow> k | None \<Rightarrow> ''default'') in
            if toolStatus m = Some ''complete'' then
              \<lparr>div_id = (case toolId m of Some i \<Rightarrow> i | None \<Rightarrow> []),
               classes = [''tool-card'', ''complete''],
               inner_html = ToolDone False (fst info)
                 (case toolSummary m of Some s \<Rightarrow> (if s = [] then ''Done'' else s) | None \<Rightarrow> ''Done'')\<rparr>
            else if toolStatus m = Some ''error'' then
              \<lparr>div_id = (case toolId m of Some i \<Rightarrow> i | None \<Rightarrow> []),
               classes = [''tool-card'', ''error''],
               inner_html = ToolDone True (fst info)
                 (case toolSummary m of Some s \<Rightarrow> (if s = [] then ''Error'' else s) | None \<Rightarrow> ''Error'')\<rparr>
            else
              \<lparr>div_id = (case toolId m of Some i \<Rightarrow> i | None \<Rightarrow> []),
               classes = [''tool-card'', ''loading''],
               inner_html = ToolLoading (snd info)\<rparr>)
         else
           \<lparr>div_id = (case msg_id m of Some i \<Rightarrow> i | None \<Rightarrow> []),
            classes = [''message'', role m] @ (if streaming m then [''streaming''] else []),
            inner_html = Formatted (content m)\<rparr>)
      in p\<lparr>dom := dom p @ [d]\<rparr>)"

text \<open>\<open>saveMessages\<close>: \<open>state.messages.slice(-100)\<close> written under the history key.\<close>

definition saveMessages :: "panel \<Rightarrow> panel" where
  "saveMessages p = p\<lparr>storage := Some (drop (length (messages p) - 100) (messages p))\<rparr>"

text \<open>\<open>addMessage(role, content, options)\<close>; the options are the tool properties.\<close>

definition addMessage :: "nat \<Rightarrow> message \<Rightarrow> panel \<Rightarrow> panel" where
  "addMessage now m p =
     (let msg = m\<lparr>timestamp := now\<rparr> in
      saveMessages (renderMessage msg (p\<lparr>messages := messages p @ [msg]\<rparr>)))"

definition plain_message :: "string \<Rightarrow> string \<Rightarrow> message" where
  "plain_message r c =
     \<lparr>role = r, content = c, timestamp = 0, msg_id = None, streaming = False, msg_type = None,
      toolId = None, toolKey = None, toolStatus = None, toolArgs = None, toolSummary = None\<rparr>"

text \<open>\<open>loadMessages\<close>: \<open>result[key] || []\<close>, each pushed and rendered.\<close>

definition loadMessages :: "panel \<Rightarrow> panel" where
  "loadMessages p =
     (let msgs = (case storage p of Some ms \<Rightarrow> ms | None \<Rightarrow> []) in
      fold (\<lambda>msg q. renderMessage msg (q\<lparr>messages := messages q @ [msg]\<rparr>)) msgs p)"

section \<open>Side panel: the protocol dispatcher (sidepanel.js, handleServerMessage)\<close>

text \<open>\<open>document.getElementById(id)\<close> over the children of the messages container, the only
  elements whose ids start with \<open>stream-\<close>, \<open>tool-\<close>, \<open>task-\<close> or are \<open>thinking\<close>: the first
  child with that id, and nothing for the empty id.\<close>

definition getElementById :: "string \<Rightarrow> child list \<Rightarrow> child option" where
  "getElementById i ds = (if i = [] then None else find (\<lambda>d. div_id d = i) ds)"

text \<open>\<open>const x = xs.find(P); if (x) { mutate x }\<close>: the first element satisfying \<open>P\<close> is
  updated in place.\<close>

fun update_first :: "('a \<Rightarrow> bool) \<Rightarrow> ('a \<Rightarrow> 'a) \<Rightarrow> 'a list \<Rightarrow> 'a list" where
  "update_first P f [] = []"
| "update_first P f (x # xs) = (if P x then f x # xs else x # update_first P f xs)"

fun remove_first :: "('a \<Rightarrow> bool) \<Rightarrow> 'a list \<Rightarrow> 'a list" where
  "remove_first P [] = []"
| "remove_first P (x # xs) = (if P x then xs else x # remove_first P xs)"

definition update_element :: "string \<Rightarrow> (child \<Rightarrow> child) \<Rightarrow> child list \<Rightarrow> child list" where
  "update_element i f ds = (if i = [] then ds else update_first (\<lambda>d. div_id d = i) f ds)"

definition updateStreamingMessage :: "string \<Rightarrow> string \<Rightarrow> panel \<Rightarrow> panel" where
  "updateStreamingMessage i c p =
     p\<lparr>dom := update_element i (\<lambda>d. d\<lparr>inner_html := Formatted c\<rparr>) (dom p)\<rparr>"

definition finishStreamingMessage :: "string \<Rightarrow> panel \<Rightarrow> panel" where
  "finishStreamingMessage i p =
     p\<lparr>dom := update_element i (\<lambda>d. d\<lparr>classes := removeAll ''streaming'' (classes d)\<rparr>) (dom p),
       isStreaming := False\<rparr>"

definition showThinkingIndicator :: "panel \<Rightarrow> panel" where
  "showThinkingIndicator p =
     p\<lparr>dom := dom p @ [\<lparr>div_id = ''thinking'', classes = [''thinking-indicator''],
                          inner_html = ThinkingDots\<rparr>]\<rparr>"

definition hideThinkingIndicator :: "panel \<Rightarrow> panel" where
  "hideThinkingIndicator p = p\<lparr>dom := remove_first (\<lambda>d. div_id d = ''thinking'') (dom p)\<rparr>"

text \<open>\<open>if (state.currentStreamId)\<close>: a string is truthy when it is not empty.\<close>

fun truthy_id :: "string option \<Rightarrow> bool" where
  "truthy_id None = False"
| "truthy_id (Some i) = (i \<noteq> [])"

text \<open>\<open>`Found ${x.length} lead${x.length !== 1 ? 's' : ''}`\<close> and its siblings.\<close>

definition found_count :: "json \<Rightarrow> string \<Rightarrow> string \<Rightarrow> string \<Rightarrow> string" where
  "found_count x noun plural singular =
     ''Found '' @ js_to_string (js_length x) @ '' '' @ noun
       @ (if js_length x \<noteq> JNum 1 then plural else singular)"

fun is_string :: "json \<Rightarrow> bool" where
  "is_string (JStr s) = True"
| "is_string v = False"

fun is_object :: "json \<Rightarrow> bool" where
  "is_object (JObj kvs) = True"
| "is_object (JArr xs) = True"
| "is_object JNull = True"
| "is_object v = False"

text \<open>The \<open>switch (toolKey)\<close> of \<open>summarizeToolResult\<close>: \<open>None\<close> when the case breaks or no
  case matches.\<close>

definition summarize_switch :: "string option \<Rightarrow> json \<Rightarrow> string option" where
  "summarize_switch key result =
     (if key = Some ''search_leads'' then
        (if truthy (js_get result ''leads'') then Some (found_count (js_get result ''leads'') ''lead'' ''s'' [])
         else if isArray result then Some (found_count result ''lead'' ''s'' [])
         else None)
      else if key = Some ''get_lead'' then
        (if truthy (js_get result ''name'') \<or> truthy (js_get result ''display_name'') then
           Some (''Loaded: '' @ js_to_string (js_or (js_get result ''name'') (js_get result ''display_name'')))
         else None)
      else if key = Some ''search_insured'' then
        (if truthy (js_get result ''value'') then Some (found_count (js_get result ''value'') ''insured'' ''s'' [])
         else if isArray result then Some (found_count result ''insured'' ''s'' [])
         else None)
      else if key = Some ''get_dot_info'' then
        (if truthy (js_get result ''carrier'') then
           Some (''Found: '' @ js_to_string
             (js_or (js_get (js_get result ''carrier'') ''legalName'')
                (js_or (js_get (js_get result ''carrier'') ''dbaName'') (JStr ''Carrier''))))
         else if truthy (js_get result ''legalName'') then
           Some (''Found: '' @ js_to_string (js_get result ''legalName''))
         else None)
      else if key = Some ''get_policies'' then
        (if isArray result then Some (found_count result ''polic'' ''ies'' ''y'') else None)
      else if key = Some ''navigate'' then Some ''Navigation complete''
      else if key = Some ''click'' then Some ''Click complete''
      else if key = Some ''fill_form'' then Some ''Form filled''
      else if key = Some ''screenshot'' then Some ''Screenshot captured''
      else None)"

definition summarizeToolResult :: "string option \<Rightarrow> json \<Rightarrow> string" where
  "summarizeToolResult key result =
     (if \<not> truthy result then ''No results''
      else case result of
        JStr s \<Rightarrow>
          (if prefix ''Error'' s then take 100 s
           else if length s > 80 then take 77 s @ ''...''
           else s)
      | _ \<Rightarrow>
          (case summarize_switch key result of
             Some s \<Rightarrow> s
           | None \<Rightarrow>
               (if isArray result then
                  ''Returned '' @ js_to_string (js_length result) @ '' item''
                    @ (if js_length result \<noteq> JNum 1 then ''s'' else [])
                else if is_object result then ''Data retrieved''
                else ''Done'')))"

text \<open>\<open>data.result && (data.result.error || (typeof data.result === 'string' &&
  data.result.startsWith('Error')))\<close>, as a condition.\<close>

definition isError :: "json \<Rightarrow> bool" where
  "isError result =
     (truthy result \<and>
       (truthy (js_get result ''error'') \<or>
        (case result of JStr s \<Rightarrow> prefix ''Error'' s | _ \<Rightarrow> False)))"

text \<open>Inbound frames, by their \<open>type\<close> tag.\<close>

datatype in_frame =
    ResponseStart
  | ResponseChunk string
  | ResponseEnd
  | ToolCall string json
  | ToolResult json
  | ActionRequest string string string
  | ErrorFrame string
  | StructuredData string json
  | SuggestedTask string string
  | TaskCreated string
  | BrowserAction browser_action_frame
  | AgentMessage string
  | CarrierQuoteProgress string string nat
  | OtherFrame string

definition stream_id :: "nat \<Rightarrow> string" where
  "stream_id now = ''stream-'' @ string_of_nat now"

definition tool_id :: "nat \<Rightarrow> string" where
  "tool_id now = ''tool-'' @ string_of_nat now"

text \<open>The \<open>response_start\<close> and \<open>tool_call\<close> branches read \<open>Date.now()\<close> twice, first for the
  id and then for the timestamp (the second reading of \<open>tool_call\<close> is the one inside
  \<open>addMessage\<close>); every other branch reads it at most once, and that is the first reading.\<close>

type_synonym readings = "nat \<times> nat"

definition streamMsg :: "readings \<Rightarrow> message" where
  "streamMsg now =
     \<lparr>role = ''assistant'', content = [], timestamp = snd now, msg_id = Some (stream_id (fst now)),
      streaming = True, msg_type = None, toolId = None, toolKey = None, toolStatus = None,
      toolArgs = None, toolSummary = None\<rparr>"

definition toolMsg :: "readings \<Rightarrow> string \<Rightarrow> json \<Rightarrow> message" where
  "toolMsg now tool args =
     \<lparr>role = ''assistant'', content = [], timestamp = snd now, msg_id = None,
      streaming = False, msg_type = Some ''tool'', toolId = Some (tool_id (fst now)),
      toolKey = Some tool, toolStatus = Some ''loading'', toolArgs = Some args,
      toolSummary = None\<rparr>"

text \<open>The tool-result branch once \<open>state.currentToolId\<close> is known to be \<open>i\<close>.\<close>

definition resolve_tool :: "string \<Rightarrow> json \<Rightarrow> panel \<Rightarrow> panel" where
  "resolve_tool i result p =
     (case (getElementById i (dom p), find (\<lambda>m. toolId m = Some i) (messages p)) of
        (Some toolCard, Some tm) \<Rightarrow>
          (let info = toolInfo (case toolKey tm of Some k \<Rightarrow> k | None \<Rightarrow> ''default'');
               summary = summarizeToolResult (toolKey tm) result;
               err = isError result;
               st = (if err then ''error'' else ''complete'')
           in p\<lparr>messages := update_first (\<lambda>m. toolId m = Some i)
                    (\<lambda>m. m\<lparr>toolStatus := Some st, toolSummary := Some summary\<rparr>) (messages p),
                 dom := update_element i
                    (\<lambda>d. d\<lparr>classes := [''tool-card'', st],
                           inner_html := ToolDone err (fst info) summary\<rparr>) (dom p)\<rparr>)
      | _ \<Rightarrow> p)"

text \<open>\<open>handleServerMessage(data)\<close>, run with the clock readings \<open>now\<close>.  The \<open>browser_action\<close>
  branch only hands the frame to the service worker; its callback is
  \<open>browser_action_callback\<close> below.  \<open>carrier_quote_progress\<close> writes a status line outside
  the messages container.\<close>

fun handleServerMessage :: "readings \<Rightarrow> in_frame \<Rightarrow> panel \<Rightarrow> panel" where
  "handleServerMessage now ResponseStart p =
     (let p1 = (hideThinkingIndicator p)\<lparr>isStreaming := True\<rparr>;
          p2 = renderMessage (streamMsg now) (p1\<lparr>messages := messages p1 @ [streamMsg now]\<rparr>)
      in p2\<lparr>currentStreamId := Some (stream_id (fst now))\<rparr>)"
| "handleServerMessage now (ResponseChunk c) p =
     (if truthy_id (currentStreamId p) then
        (let i = the (currentStreamId p) in
         case find (\<lambda>m. msg_id m = Some i) (messages p) of
           Some msg \<Rightarrow>
             updateStreamingMessage i (content msg @ c)
               (p\<lparr>messages := update_first (\<lambda>m. msg_id m = Some i)
                      (\<lambda>m. m\<lparr>content := content m @ c\<rparr>) (messages p)\<rparr>)
         | None \<Rightarrow> p)
      else p)"
| "handleServerMessage now ResponseEnd p =
     (if truthy_id (currentStreamId p) then
        saveMessages ((finishStreamingMessage (the (currentStreamId p)) p)\<lparr>currentStreamId := None\<rparr>)
      else p)"
| "handleServerMessage now (ToolCall tool args) p =
     (addMessage (snd now) (toolMsg now tool args) p)\<lparr>currentToolId := Some (tool_id (fst now))\<rparr>"
| "handleServerMessage now (ToolResult result) p =
     (if truthy_id (currentToolId p) then
        (resolve_tool (the (currentToolId p)) result p)\<lparr>currentToolId := None\<rparr>
      else p)"
| "handleServerMessage now (ActionRequest aid act target) p =
     p\<lparr>pendingAction := Some (aid, act, target)\<rparr>"
| "handleServerMessage now (ErrorFrame msg) p =
     addMessage (fst now) (plain_message ''assistant'' (''Error: '' @ msg)) (hideThinkingIndicator p)"
| "handleServerMessage now (StructuredData dataType d) p =
     p\<lparr>dom := dom p @ [\<lparr>div_id = [], classes = [''data-card'', dataType @ ''-card''],
                          inner_html = DataCard dataType d\<rparr>]\<rparr>"
| "handleServerMessage now (SuggestedTask taskId description) p =
     p\<lparr>dom := dom p @ [\<lparr>div_id = ''task-'' @ taskId, classes = [''task-suggestion''],
                          inner_html = TaskSuggestion description\<rparr>]\<rparr>"
| "handleServerMessage now (TaskCreated taskId) p =
     p\<lparr>dom := update_element (''task-'' @ taskId)
              (\<lambda>d. d\<lparr>classes := classes d @ [''created'']\<rparr>) (dom p)\<rparr>"
| "handleServerMessage now (BrowserAction a) p = p"
| "handleServerMessage now (AgentMessage msg) p =
     saveMessages (addMessage (fst now) (plain_message ''assistant'' msg) (hideThinkingIndicator p))"
| "handleServerMessage now (CarrierQuoteProgress carrier status tid) p = p"
| "handleServerMessage now (OtherFrame t) p = p"

text \<open>Frames handled in order, each with its own clock readings.\<close>

fun handle_all :: "(readings \<times> in_frame) list \<Rightarrow> panel \<Rightarrow> panel" where
  "handle_all [] p = p"
| "handle_all ((now, f) # fs) p = handle_all fs (handleServerMessage now f p)"

section \<open>Side panel: transport, input and attachments (sidepanel.js)\<close>

text \<open>A handler either returns or throws; both leave a state behind.\<close>

datatype 'a outcome = Returned 'a | Threw string 'a

text \<open>\<open>ws.send(frame)\<close>: an open socket accepts the frame, a connecting one throws
  \<open>InvalidStateError\<close>, a closing or closed one drops it silently; \<open>state.ws\<close> is checked
  for \<open>null\<close> by every caller.\<close>

definition ws_send :: "out_frame \<Rightarrow> panel \<Rightarrow> panel outcome" where
  "ws_send f p =
     (case ws p of
        Some OPEN \<Rightarrow> Returned (p\<lparr>outbox := outbox p @ [f]\<rparr>)
      | Some CONNECTING \<Rightarrow> Threw ''InvalidStateError'' p
      | _ \<Rightarrow> Returned p)"

definition sendTabState :: "panel \<Rightarrow> panel outcome" where
  "sendTabState p =
     (case (ws p, currentTab p) of
        (Some w, Some t) \<Rightarrow> ws_send (TabStateFrame t) p
      | _ \<Rightarrow> Returned p)"

text \<open>\<open>connectWebSocket\<close>: a new socket unless the current one is open.\<close>

definition connectWebSocket :: "panel \<Rightarrow> panel" where
  "connectWebSocket p = (if ws p = Some OPEN then p else p\<lparr>ws := Some CONNECTING\<rparr>)"

text \<open>\<open>state.ws.onopen\<close>; the socket is open when the event fires.\<close>

definition ws_onopen :: "panel \<Rightarrow> panel outcome" where
  "ws_onopen p = sendTabState (p\<lparr>ws := Some OPEN, connected := True, reconnectAttempts := 0\<rparr>)"

text \<open>\<open>state.ws.onclose\<close>; the socket is closed when the event fires.  \<open>setTimeout\<close> is
  recorded as the delay of the timer set.\<close>

definition ws_onclose :: "panel \<Rightarrow> panel" where
  "ws_onclose p =
     (let p1 = p\<lparr>ws := Some CLOSED, connected := False\<rparr> in
      if reconnectAttempts p1 < maxReconnectAttempts then
        p1\<lparr>reconnectAttempts := reconnectAttempts p1 + 1, timers := timers p1 @ [reconnectDelay]\<rparr>
      else p1)"

text \<open>A file of a drop or of the file input, with what \<open>FileReader.readAsDataURL\<close> gives
  for it (\<open>None\<close> when the reader fails).\<close>

record js_file =
  f_name :: string
  f_size :: nat
  f_type :: string
  f_dataUrl :: "string option"

definition maxSize :: nat where "maxSize = 10 * 1024 * 1024"

definition allowedTypes :: "string list" where
  "allowedTypes = [''application/pdf'', ''image/png'', ''image/jpeg'', ''image/jpg'']"

definition too_large_alert :: "js_file \<Rightarrow> string" where
  "too_large_alert f = ''File \"'' @ f_name f @ ''\" is too large. Max size is 10MB.''"

definition unsupported_alert :: "js_file \<Rightarrow> string" where
  "unsupported_alert f = ''File \"'' @ f_name f @ ''\" is not supported. Use PDF, PNG, or JPG.''"

text \<open>\<open>handleFiles(fileList)\<close>: the loop over the files.  A failing reader rejects the
  awaited promise, which ends the loop with the files pushed so far.  The reads are
  awaited one after the other; the loop is taken as one step, no other handler running
  between two files.\<close>

fun handleFiles :: "js_file list \<Rightarrow> panel \<Rightarrow> panel outcome" where
  "handleFiles [] p = Returned p"
| "handleFiles (f # fs) p =
     (if f_size f > maxSize then handleFiles fs (p\<lparr>alerts := alerts p @ [too_large_alert f]\<rparr>)
      else if f_type f \<notin> set allowedTypes then
        handleFiles fs (p\<lparr>alerts := alerts p @ [unsupported_alert f]\<rparr>)
      else case f_dataUrl f of
        None \<Rightarrow> Threw ''FileReader error'' p
      | Some b \<Rightarrow>
          handleFiles fs (p\<lparr>pendingFiles := pendingFiles p @
            [\<lparr>att_name = f_name f, att_mimeType = f_type f, att_base64 = b, att_size = f_size f\<rparr>]\<rparr>))"

text \<open>The remove button of the file preview: \<open>state.pendingFiles.splice(idx, 1)\<close>.\<close>

definition removePendingFile :: "nat \<Rightarrow> panel \<Rightarrow> panel" where
  "removePendingFile idx p = p\<lparr>pendingFiles := take idx (pendingFiles p) @ drop (Suc idx) (pendingFiles p)\<rparr>"

definition clearPendingFiles :: "panel \<Rightarrow> panel" where
  "clearPendingFiles p = p\<lparr>pendingFiles := []\<rparr>"

text \<open>The white space and line terminators that \<open>trim\<close> strips, within the range: tab,
  line feed, vertical tab, form feed, carriage return, space and the no-break space
  U+00A0.\<close>

definition is_space :: "char \<Rightarrow> bool" where
  "is_space c = (of_char c \<in> {9, 10, 11, 12, 13, 32, 160 :: nat})"

text \<open>\<open>!content.trim()\<close>.\<close>

definition trim_is_empty :: "string \<Rightarrow> bool" where
  "trim_is_empty s = list_all is_space s"

fun join_names :: "string list \<Rightarrow> string" where
  "join_names [] = []"
| "join_names [s] = s"
| "join_names (s # t # ss) = s @ '', '' @ join_names (t # ss)"

text \<open>\<open>sendMessage(content)\<close> at clock reading \<open>now\<close>.  Without a connection the source
  starts a mock reply after 500 ms, which touches the message list only; it is not part
  of this model.\<close>

definition sendMessage :: "nat \<Rightarrow> string \<Rightarrow> panel \<Rightarrow> panel outcome" where
  "sendMessage now c p =
     (let hasFiles = (pendingFiles p \<noteq> []) in
      if trim_is_empty c \<and> \<not> hasFiles then Returned p
      else
        (let fileNames = join_names (map att_name (pendingFiles p));
             displayContent =
               (if hasFiles then
                  (if c \<noteq> [] then c @ [CHR 0x0A] @ ''[Attached: '' @ fileNames @ '']''
                   else ''[Attached: '' @ fileNames @ '']'')
                else c);
             p1 = addMessage now (plain_message ''user'' displayContent) p;
             filesToSend = pendingFiles p1;
             p2 = showThinkingIndicator (clearPendingFiles p1)
         in if connected p2 \<and> ws p2 \<noteq> None then
              ws_send (MessageFrame (if c \<noteq> [] then c else ''Please analyze this file.'')
                         (currentTab p2)
                         (if filesToSend \<noteq> [] then Some filesToSend else None)) p2
            else Returned p2))"

text \<open>The callback the \<open>browser_action\<close> branch of \<open>handleServerMessage\<close> passes to
  \<open>chrome.runtime.sendMessage\<close>; \<open>response\<close> is \<open>None\<close> when no response arrives from the
  service worker.\<close>

definition browser_action_callback ::
    "browser_action_frame \<Rightarrow> action_result option \<Rightarrow> panel \<Rightarrow> panel" where
  "browser_action_callback a response p =
     (if ws p = Some OPEN then
        p\<lparr>outbox := outbox p @
          [BrowserActionResult (actionId a)
             (case response of
                Some r \<Rightarrow> r
              | None \<Rightarrow> \<lparr>r_success = None, r_error = Some ''No response from service worker'',
                          r_payload = NoPayload\<rparr>)]\<rparr>
      else p)"

text \<open>What happens to the panel: socket events, a call of \<open>connectWebSocket\<close> (by
  \<open>init\<close> or by the reconnect timer), inbound frames and the user's input.  A throwing handler leaves its state behind and the next
  event is handled from there.\<close>

datatype panel_event =
    WsOpen
  | WsClose
  | Connect
  | Frame readings in_frame
  | Attach "js_file list"
  | RemoveFile nat
  | Send nat string
  | ActionDone browser_action_frame "action_result option"

fun state_of :: "'a outcome \<Rightarrow> 'a" where
  "state_of (Returned p) = p"
| "state_of (Threw e p) = p"

fun panel_step :: "panel \<Rightarrow> panel_event \<Rightarrow> panel" where
  "panel_step p WsOpen = state_of (ws_onopen p)"
| "panel_step p WsClose = ws_onclose p"
| "panel_step p Connect = connectWebSocket p"
| "panel_step p (Frame now f) = handleServerMessage now f p"
| "panel_step p (Attach fs) = state_of (handleFiles fs p)"
| "panel_step p (RemoveFile idx) = removePendingFile idx p"
| "panel_step p (Send now c) = state_of (sendMessage now c p)"
| "panel_step p (ActionDone a r) = browser_action_callback a r p"

definition panel_run :: "panel \<Rightarrow> panel_event list \<Rightarrow> panel" where
  "panel_run p evs = foldl panel_step p evs"

section \<open>Legacy service worker transport (part_002, second file)\<close>

text \<open>The older service worker owns the socket itself: its \<open>onclose\<close> sets a reconnect
  timer after every close, and its \<open>onopen\<close> only broadcasts the connection status.\<close>

record sw_transport =
  sw_ws :: "readyState option"
  sw_timers :: "nat list"
  sw_broadcasts :: "bool list"
  sw_outbox :: "out_frame list"

definition sw_reconnectDelay :: nat where "sw_reconnectDelay = 3000"

definition sw_connectWebSocket :: "sw_transport \<Rightarrow> sw_transport" where
  "sw_connectWebSocket s = (if sw_ws s = Some OPEN then s else s\<lparr>sw_ws := Some CONNECTING\<rparr>)"

definition sw_onopen :: "sw_transport \<Rightarrow> sw_transport" where
  "sw_onopen s = s\<lparr>sw_ws := Some OPEN, sw_broadcasts := sw_broadcasts s @ [True]\<rparr>"

definition sw_onclose :: "sw_transport \<Rightarrow> sw_transport" where
  "sw_onclose s =
     s\<lparr>sw_ws := None, sw_broadcasts := sw_broadcasts s @ [False],
       sw_timers := sw_timers s @ [sw_reconnectDelay]\<rparr>"

section \<open>Page context watcher (page-watcher.js)\<close>

text \<open>A context object: its properties in insertion order.  Every value the extractors
  store is a primitive (a string, the timestamp, or \<open>null\<close>), so \<open>!==\<close> is inequality of
  values; an absent property reads as \<open>undefined\<close>, here \<open>None\<close>.\<close>

datatype prim = PStr string | PNum nat | PNull

type_synonym page_context = "(string \<times> prim) list"

definition ctx_get :: "page_context \<Rightarrow> string \<Rightarrow> prim option" where
  "ctx_get c k = map_of c k"

text \<open>The \<open>PAGE_CONTEXT_UPDATE\<close> message: the context's properties and the \<open>changed\<close>
  list (\<open>undefined\<close> when empty).\<close>

record context_update =
  u_context :: page_context
  u_changed :: "string list option"

text \<open>The module state \<open>currentContext\<close> and the messages handed to
  \<open>chrome.runtime.sendMessage\<close>, whose rejection the source ignores.\<close>

record watcher =
  currentContext :: "page_context option"
  emitted :: "context_update list"

definition hasContextChanged :: "watcher \<Rightarrow> page_context \<Rightarrow> bool" where
  "hasContextChanged w newContext =
     (case currentContext w of
        None \<Rightarrow> True
      | Some cur \<Rightarrow>
          (if ctx_get cur ''site'' \<noteq> ctx_get newContext ''site'' then True
           else if ctx_get cur ''url'' \<noteq> ctx_get newContext ''url'' then True
           else if ctx_get newContext ''site'' = Some (PStr ''close_lead'') then
             (if ctx_get cur ''leadId'' \<noteq> ctx_get newContext ''leadId'' then True
              else if ctx_get cur ''companyName'' \<noteq> ctx_get newContext ''companyName'' then True
              else False)
           else False))"

definition sendContextUpdate :: "page_context \<Rightarrow> bool \<Rightarrow> watcher \<Rightarrow> watcher" where
  "sendContextUpdate c force w =
     (if \<not> force \<and> \<not> hasContextChanged w c then w
      else
        (let changed =
               (case currentContext w of
                  None \<Rightarrow> []
                | Some cur \<Rightarrow> filter (\<lambda>k. ctx_get c k \<noteq> ctx_get cur k) (map fst c));
             message = \<lparr>u_context = c, u_changed = (if changed \<noteq> [] then Some changed else None)\<rparr>
         in w\<lparr>emitted := emitted w @ [message], currentContext := Some c\<rparr>))"

text \<open>\<open>startWatching\<close> forces the first update; afterwards the debounced check sends the
  freshly extracted context unforced, and a \<open>REFRESH_CONTEXT\<close> request sends it forced.\<close>

definition startWatching :: "page_context \<Rightarrow> watcher \<Rightarrow> watcher" where
  "startWatching c w = sendContextUpdate c True w"

datatype watch_event = Check page_context | Refresh page_context

fun watcher_step :: "watcher \<Rightarrow> watch_event \<Rightarrow> watcher" where
  "watcher_step w (Check c) = sendContextUpdate c False w"
| "watcher_step w (Refresh c) = sendContextUpdate c True w"

definition watcher_run :: "watcher \<Rightarrow> watch_event list \<Rightarrow> watcher" where
  "watcher_run w evs = foldl watcher_step w evs"

text \<open>The properties \<open>hasContextChanged\<close> compares.\<close>

definition same_identity :: "page_context \<Rightarrow> page_context \<Rightarrow> bool" where
  "same_identity a b =
     (ctx_get a ''site'' = ctx_get b ''site'' \<and> ctx_get a ''url'' = ctx_get b ''url''
      \<and> ctx_get a ''leadId'' = ctx_get b ''leadId''
      \<and> ctx_get a ''companyName'' = ctx_get b ''companyName'')"

text \<open>Contexts of two lead pages, the first extracted twice.\<close>

definition lead_a :: "nat \<Rightarrow> page_context" where
  "lead_a now =
     [(''site'', PStr ''close_lead''), (''url'', PStr ''https://app.close.com/lead/lead_abc/''),
      (''timestamp'', PNum now), (''leadId'', PStr ''lead_abc''),
      (''companyName'', PStr ''LDJ IN & OUT TRANSPORT LLC'')]"

definition lead_b :: "nat \<Rightarrow> page_context" where
  "lead_b now =
     [(''site'', PStr ''close_lead''), (''url'', PStr ''https://app.close.com/lead/lead_xyz/''),
      (''timestamp'', PNum now), (''leadId'', PStr ''lead_xyz'')]"

section \<open>Page context watcher: site detection and extraction (page-watcher.js)\<close>

text \<open>
  \<open>SITE_PATTERNS\<close>, each regular expression as a search over the URL.  A literal is
  searched as a substring; under the \<open>i\<close> flag the URL is compared in lower case; \<open>.*\<close>
  runs over any characters but line terminators; the group of the lead pattern is the
  longest run of characters other than \<open>/\<close> and \<open>?\<close>, and must not be empty.
\<close>

definition lead_id_char :: "char \<Rightarrow> bool" where
  "lead_id_char c = (c \<noteq> CHR ''/'' \<and> c \<noteq> CHR ''?'')"

text \<open>\<open>/app\.close\.com\/lead\/([^\/\?]+)/\<close>: the group of the leftmost match.\<close>

fun match_close_lead :: "string \<Rightarrow> string option" where
  "match_close_lead [] = None"
| "match_close_lead (c # cs) =
     (if prefix ''app.close.com/lead/'' (c # cs)
         \<and> takeWhile lead_id_char (drop 19 (c # cs)) \<noteq> []
      then Some (takeWhile lead_id_char (drop 19 (c # cs)))
      else match_close_lead cs)"

definition line_terminator :: "char \<Rightarrow> bool" where
  "line_terminator c = (c = CHR 0x0A \<or> c = CHR 0x0D)"

text \<open>\<open>.*lit\<close> matched at the start of a string.\<close>

fun any_then :: "string \<Rightarrow> string \<Rightarrow> bool" where
  "any_then lit [] = (lit = [])"
| "any_then lit (c # cs) = (prefix lit (c # cs) \<or> (\<not> line_terminator c \<and> any_then lit cs))"

text \<open>\<open>/app\.close\.com.*lit/\<close> searched in a string.\<close>

fun match_close_then :: "string \<Rightarrow> string \<Rightarrow> bool" where
  "match_close_then lit [] = False"
| "match_close_then lit (c # cs) =
     ((prefix ''app.close.com'' (c # cs) \<and> any_then lit (drop 13 (c # cs)))
      \<or> match_close_then lit cs)"

text \<open>\<open>detectSite\<close>: the first pattern of the table, in its order, that the URL matches,
  with the lead id for the lead pattern.\<close>

definition detectSite :: "string \<Rightarrow> string \<times> string option" where
  "detectSite url =
     (case match_close_lead url of
        Some lead \<Rightarrow> (''close_lead'', Some lead)
      | None \<Rightarrow>
          if match_close_then ''dialer'' url then (''close_dialer'', None)
          else if match_close_then ''smart_view'' url then (''close_smartview'', None)
          else if includes_str (toLowerCase url) ''foragentsonly.progressive.com''
                  \<or> includes_str (toLowerCase url) ''progressive.com/agent''
          then (''progressive'', None)
          else if includes_str (toLowerCase url) ''geico.com'' then (''geico'', None)
          else if includes_str (toLowerCase url) ''bfrms.bhhc.com''
                  \<or> includes_str (toLowerCase url) ''bhhc.com''
          then (''bhhc'', None)
          else if includes_str (toLowerCase url) ''jmwilson.com'' then (''jmwilson'', None)
          else if includes_str (toLowerCase url) ''safer.fmcsa.dot.gov'' then (''fmcsa'', None)
          else (''unknown'', None))"

text \<open>What the selectors and the text searches of the extractors find on the page; a
  field is \<open>None\<close> when its element or pattern is not found.\<close>

record scraped =
  sc_companyName :: "string option"
  sc_contactName :: "string option"
  sc_phone :: "string option"
  sc_email :: "string option"
  sc_dotNumber :: "string option"
  sc_mcNumber :: "string option"
  sc_status :: "string option"
  sc_currentCaller :: "string option"
  sc_dialerStatus :: "string option"
  sc_title :: string
  sc_pageType :: "string option"

text \<open>A property that is set only when its value was found.\<close>

definition opt_prop :: "string \<Rightarrow> string option \<Rightarrow> page_context" where
  "opt_prop k v = (case v of None \<Rightarrow> [] | Some x \<Rightarrow> [(k, PStr x)])"

definition extractCloseLeadContext :: "string option \<Rightarrow> scraped \<Rightarrow> page_context" where
  "extractCloseLeadContext m sc =
     [(''leadId'', (case m of Some lead \<Rightarrow> PStr lead | None \<Rightarrow> PNull))]
     @ opt_prop ''companyName'' (sc_companyName sc)
     @ opt_prop ''contactName'' (sc_contactName sc)
     @ opt_prop ''phone'' (sc_phone sc)
     @ opt_prop ''email'' (sc_email sc)
     @ opt_prop ''dotNumber'' (sc_dotNumber sc)
     @ opt_prop ''mcNumber'' (sc_mcNumber sc)
     @ opt_prop ''status'' (sc_status sc)"

definition extractCloseDialerContext :: "scraped \<Rightarrow> page_context" where
  "extractCloseDialerContext sc =
     opt_prop ''currentCaller'' (sc_currentCaller sc) @ opt_prop ''dialerStatus'' (sc_dialerStatus sc)"

definition extractCarrierContext :: "string \<Rightarrow> scraped \<Rightarrow> page_context" where
  "extractCarrierContext site sc =
     [(''carrierSite'', PStr site), (''pageTitle'', PStr (sc_title sc))]
     @ opt_prop ''pageType'' (sc_pageType sc)
     @ opt_prop ''dotNumber'' (sc_dotNumber sc)"

text \<open>\<open>extractContext\<close> at clock reading \<open>now\<close>.  \<open>extractFMCSAContext\<close> starts with
  \<open>document.querySelector('td:contains("Legal Name")')\<close>, which is not a valid selector and
  throws.\<close>

definition extractContext :: "string \<Rightarrow> nat \<Rightarrow> scraped \<Rightarrow> string + page_context" where
  "extractContext url now sc =
     (let site = fst (detectSite url);
          base = [(''site'', PStr site), (''url'', PStr url), (''timestamp'', PNum now)]
      in if site = ''close_lead'' then Inr (base @ extractCloseLeadContext (snd (detectSite url)) sc)
         else if site = ''close_dialer'' then Inr (base @ extractCloseDialerContext sc)
         else if site = ''fmcsa'' then Inl ''SyntaxError''
         else if site = ''progressive'' \<or> site = ''geico'' \<or> site = ''bhhc'' \<or> site = ''jmwilson''
         then Inr (base @ extractCarrierContext site sc)
         else Inr (base @ [(''title'', PStr (sc_title sc))]))"

section \<open>The page: elements and queries\<close>

text \<open>
  A page element is a handle into a store of element states.  The state records the
  properties the scripts read, and a log of what was done to the element in order:
  method calls (\<open>focus\<close>, \<open>scrollIntoView\<close>, \<open>click\<close>) and dispatched events (\<open>input\<close>,
  \<open>change\<close>, \<open>blur\<close>, \<open>keyup\<close>).  The page's own listeners are not part of the model.
  \<open>e_sanitize\<close> is what the native \<open>value\<close> setter of the element makes of a string: the
  value it stores, which depends on the element's type (a text input strips line breaks,
  a number input stores the empty string for what is not a number), or the message of
  the exception it throws (a file input given a non-empty string).
\<close>

type_synonym node = nat

record element =
  tagName :: string
  e_id :: string
  e_name :: "string option"
  e_value :: "string option"
  e_sanitize :: "string \<Rightarrow> string + string"
  textContent :: string
  htmlFor :: string
  for_attr :: "string option"
  parentText :: "string option"
  e_log :: "string list"

text \<open>
  The document answers the queries of the scripts.  \<open>querySelector\<close> and
  \<open>querySelectorAll\<close> take the selector string the source builds and throw a
  \<open>SyntaxError\<close> (\<open>Inl\<close>) on a malformed one; \<open>nested_control\<close> is
  \<open>label.querySelector('input, select, textarea')\<close>, \<open>nested_radio\<close> is
  \<open>label.querySelector('input[type="radio"]')\<close>, \<open>xpath_first\<close> is the \<open>singleNodeValue\<close> of
  \<open>document.evaluate\<close>, and \<open>select_options\<close> is \<open>select.options\<close> (\<open>None\<close> for an element
  that is not a select).
\<close>

record document =
  elems :: "node \<Rightarrow> element"
  querySelector :: "string \<Rightarrow> string + node option"
  querySelectorAll :: "string \<Rightarrow> string + node list"
  doc_getElementById :: "string \<Rightarrow> node option"
  nested_control :: "node \<Rightarrow> node option"
  nested_radio :: "node \<Rightarrow> node option"
  xpath_first :: "string \<Rightarrow> string + node option"
  select_options :: "node \<Rightarrow> node list option"

definition log_call :: "node \<Rightarrow> string \<Rightarrow> document \<Rightarrow> document" where
  "log_call n ev d = d\<lparr>elems := (elems d)(n := (elems d n)\<lparr>e_log := e_log (elems d n) @ [ev]\<rparr>)\<rparr>"

definition set_value :: "node \<Rightarrow> string \<Rightarrow> document \<Rightarrow> document" where
  "set_value n v d = d\<lparr>elems := (elems d)(n := (elems d n)\<lparr>e_value := Some v\<rparr>)\<rparr>"

text \<open>The native \<open>value\<close> setter of a prototype, called on an element: it throws a
  \<open>TypeError\<close> unless the element is an instance of that prototype's class, and stores
  what the element's type makes of the string.\<close>

datatype prototype = HTMLInputElement | HTMLTextAreaElement

definition nativeSetter :: "prototype \<Rightarrow> node \<Rightarrow> string \<Rightarrow> document \<Rightarrow> string + document" where
  "nativeSetter proto n v d =
     (if (proto = HTMLInputElement \<and> tagName (elems d n) = ''INPUT'')
         \<or> (proto = HTMLTextAreaElement \<and> tagName (elems d n) = ''TEXTAREA'')
      then (case e_sanitize (elems d n) v of Inl e \<Rightarrow> Inl e | Inr s \<Rightarrow> Inr (set_value n s d))
      else Inl ''Illegal invocation'')"

text \<open>What a function run in the page leaves behind: its return value or the message of
  what it threw, and the page.\<close>

datatype 'r page_outcome = PReturned 'r document | PThrew string document

text \<open>\<open>if (target.selector)\<close>: a string hint counts when present and not empty.\<close>

fun hint :: "string option \<Rightarrow> bool" where
  "hint None = False"
| "hint (Some h) = (h \<noteq> [])"

section \<open>Content script: element targeting (browser-tools.js)\<close>

record element_target =
  t_selector :: "string option"
  t_id :: "string option"
  t_name :: "string option"
  t_fieldref :: "string option"
  t_label :: "string option"
  t_placeholder :: "string option"
  t_buttonText :: "string option"

text \<open>The first loop of \<open>findByLabel\<close>, over \<open>document.querySelectorAll('label')\<close>.\<close>

fun label_loop :: "document \<Rightarrow> string \<Rightarrow> node list \<Rightarrow> node option" where
  "label_loop d searchText [] = None"
| "label_loop d searchText (l # ls) =
     (if includes_str (toLowerCase (textContent (elems d l))) searchText then
        (case (if htmlFor (elems d l) \<noteq> [] then doc_getElementById d (htmlFor (elems d l)) else None) of
           Some inp \<Rightarrow> Some inp
         | None \<Rightarrow>
             (case nested_control d l of
                Some nestedInput \<Rightarrow> Some nestedInput
              | None \<Rightarrow> label_loop d searchText ls))
      else label_loop d searchText ls)"

text \<open>The quoted search text of the XPath: \<open>searchText.replace(/'/g, "',\"'\",'")\<close> inside
  \<open>concat('...')\<close>, lower-cased, when the text holds an apostrophe.\<close>

definition xpathSearchText :: "string \<Rightarrow> string" where
  "xpathSearchText searchText =
     (if CHR 0x27 \<in> set searchText then
        toLowerCase (''concat('' @ [CHR 0x27]
          @ concat (map (\<lambda>c. if c = CHR 0x27 then [CHR 0x27] @ '',\"'' @ [CHR 0x27] @ ''\",'' @ [CHR 0x27]
                               else [c]) searchText)
          @ [CHR 0x27] @ '')'')
      else [CHR 0x27] @ searchText @ [CHR 0x27])"

definition label_xpath :: "string \<Rightarrow> string" where
  "label_xpath searchText =
     ''//label[contains(translate(text(), '' @ [CHR 0x27] @ ''ABCDEFGHIJKLMNOPQRSTUVWXYZ''
       @ [CHR 0x27] @ '', '' @ [CHR 0x27] @ ''abcdefghijklmnopqrstuvwxyz'' @ [CHR 0x27] @ ''), ''
       @ xpathSearchText searchText @ '')]/following::input[1]''"

text \<open>\<open>findByLabel(labelText)\<close>; the labels come from \<open>querySelectorAll('label')\<close>, and a
  throwing XPath evaluation is caught.\<close>

definition findByLabel :: "document \<Rightarrow> string \<Rightarrow> string + node option" where
  "findByLabel d labelText =
     (let searchText = toLowerCase labelText in
      case querySelectorAll d ''label'' of
        Inl e \<Rightarrow> Inl e
      | Inr labels \<Rightarrow>
          (case label_loop d searchText labels of
             Some n \<Rightarrow> Inr (Some n)
           | None \<Rightarrow>
               (case xpath_first d (label_xpath searchText) of
                  Inr (Some n) \<Rightarrow> Inr (Some n)
                | _ \<Rightarrow> Inr None)))"

text \<open>The loop of the button-text strategy.\<close>

fun button_loop :: "document \<Rightarrow> string \<Rightarrow> node list \<Rightarrow> node option" where
  "button_loop d buttonText [] = None"
| "button_loop d buttonText (b # bs) =
     (if includes_str (toLowerCase (textContent (elems d b))) (toLowerCase buttonText)
         \<or> (case e_value (elems d b) of
               Some v \<Rightarrow> includes_str (toLowerCase v) (toLowerCase buttonText)
             | None \<Rightarrow> False)
      then Some b else button_loop d buttonText bs)"

text \<open>The strategies of \<open>findElement\<close>, each as the source writes it: the query made for a
  hint, with \<open>Inr None\<close> for a hint that is absent or matches nothing and \<open>Inl\<close> for a query
  that throws.\<close>

definition by_id :: "document \<Rightarrow> element_target \<Rightarrow> string + node option" where
  "by_id d t = (if hint (t_id t) then Inr (doc_getElementById d (the (t_id t))) else Inr None)"

definition by_name :: "document \<Rightarrow> element_target \<Rightarrow> string + node option" where
  "by_name d t =
     (if hint (t_name t) then querySelector d (''[name=\"'' @ the (t_name t) @ ''\"]'') else Inr None)"

definition by_fieldref :: "document \<Rightarrow> element_target \<Rightarrow> string + node option" where
  "by_fieldref d t =
     (if hint (t_fieldref t) then querySelector d (''[fieldref=\"'' @ the (t_fieldref t) @ ''\"]'')
      else Inr None)"

definition by_label :: "document \<Rightarrow> element_target \<Rightarrow> string + node option" where
  "by_label d t = (if hint (t_label t) then findByLabel d (the (t_label t)) else Inr None)"

definition by_placeholder :: "document \<Rightarrow> element_target \<Rightarrow> string + node option" where
  "by_placeholder d t =
     (if hint (t_placeholder t) then
        querySelector d (''[placeholder*=\"'' @ the (t_placeholder t) @ ''\" i]'')
      else Inr None)"

definition by_buttonText :: "document \<Rightarrow> element_target \<Rightarrow> string + node option" where
  "by_buttonText d t =
     (if hint (t_buttonText t) then
        (case querySelectorAll d ''button, input[type=\"button\"], input[type=\"submit\"]'' of
           Inl e \<Rightarrow> Inl e
         | Inr buttons \<Rightarrow> Inr (button_loop d (the (t_buttonText t)) buttons))
      else Inr None)"

text \<open>\<open>const el = ...; if (el) return el;\<close> followed by the rest of the function.\<close>

definition or_else :: "(string + node option) \<Rightarrow> (string + node option) \<Rightarrow> string + node option" where
  "or_else first rest =
     (case first of Inl e \<Rightarrow> Inl e | Inr (Some n) \<Rightarrow> Inr (Some n) | Inr None \<Rightarrow> rest)"

text \<open>\<open>findElement(target)\<close>.  The selector branch returns the query's result as it is.\<close>

definition findElement :: "document \<Rightarrow> element_target \<Rightarrow> string + node option" where
  "findElement d t =
     (if hint (t_selector t) then querySelector d (the (t_selector t))
      else
        or_else (by_id d t)
       (or_else (by_name d t)
       (or_else (by_fieldref d t)
       (or_else (by_label d t)
       (or_else (by_placeholder d t)
       (or_else (by_buttonText d t) (Inr None)))))))"

text \<open>The resolver as the specification words it: every strategy in the fixed order,
  selector first, the first one that yields an element wins.\<close>

definition by_selector :: "document \<Rightarrow> element_target \<Rightarrow> string + node option" where
  "by_selector d t = (if hint (t_selector t) then querySelector d (the (t_selector t)) else Inr None)"

definition fallback_strategies :: "document \<Rightarrow> element_target \<Rightarrow> (string + node option) list" where
  "fallback_strategies d t =
     [by_id d t, by_name d t, by_fieldref d t, by_label d t, by_placeholder d t, by_buttonText d t]"

definition resolve_first_match :: "document \<Rightarrow> element_target \<Rightarrow> string + node option" where
  "resolve_first_match d t = foldr or_else (by_selector d t # fallback_strategies d t) (Inr None)"

section \<open>Content script: element interaction (browser-tools.js)\<close>

definition describeElement :: "document \<Rightarrow> node \<Rightarrow> payload" where
  "describeElement d n =
     ElementPayload (toLowerCase (tagName (elems d n))) (e_id (elems d n)) (e_name (elems d n))
       (take 50 (textContent (elems d n)))"

definition failure :: "string \<Rightarrow> action_result" where
  "failure msg = \<lparr>r_success = Some False, r_error = Some msg, r_payload = NoPayload\<rparr>"

definition success :: "payload \<Rightarrow> action_result" where
  "success pl = \<lparr>r_success = Some True, r_error = None, r_payload = pl\<rparr>"

text \<open>\<open>fillField(target, value)\<close>.  \<open>findElement\<close> is called outside the \<open>try\<close>; the native
  setter is taken from the textarea prototype for a \<open>TEXTAREA\<close> and from the input
  prototype for anything else, and what it throws is caught.\<close>

definition fillField :: "element_target \<Rightarrow> string \<Rightarrow> document \<Rightarrow> action_result page_outcome" where
  "fillField t v d =
     (case findElement d t of
        Inl e \<Rightarrow> PThrew e d
      | Inr None \<Rightarrow> PReturned (failure ''Element not found'') d
      | Inr (Some el) \<Rightarrow>
          (let d1 = log_call el ''focus'' d;
               proto = (if tagName (elems d1 el) = ''TEXTAREA'' then HTMLTextAreaElement
                        else HTMLInputElement)
           in case nativeSetter proto el v d1 of
                Inl e \<Rightarrow> PReturned (failure e) d1
              | Inr d2 \<Rightarrow>
                  (let d3 = log_call el ''blur'' (log_call el ''change'' (log_call el ''input'' d2))
                   in PReturned (success (describeElement d3 el)) d3)))"

definition clickElement :: "element_target \<Rightarrow> document \<Rightarrow> action_result page_outcome" where
  "clickElement t d =
     (case findElement d t of
        Inl e \<Rightarrow> PThrew e d
      | Inr None \<Rightarrow> PReturned (failure ''Element not found'') d
      | Inr (Some el) \<Rightarrow>
          (let d1 = log_call el ''click'' (log_call el ''scrollIntoView'' d)
           in PReturned (success (describeElement d1 el)) d1))"

text \<open>\<open>selectRadio(target, value)\<close>.  The target is a label substring or an object with a
  \<open>label\<close>; \<open>target.label?.toLowerCase() || target.toLowerCase()\<close> throws a \<open>TypeError\<close> for
  an object without a usable label.\<close>

datatype radio_target = RStr string | RObj "string option"

fun radio_searchText :: "radio_target \<Rightarrow> string + string" where
  "radio_searchText (RStr s) = Inr (toLowerCase s)"
| "radio_searchText (RObj l) =
     (if hint (map_option toLowerCase l) then Inr (toLowerCase (the l))
      else Inl ''target.toLowerCase is not a function'')"

definition isYes :: "json \<Rightarrow> bool" where
  "isYes v = (v = JBool True \<or> v = JStr ''yes'' \<or> v = JStr ''true'')"

text \<open>\<open>document.querySelector(`label[for="${radio.id}"]`)?.textContent?.toLowerCase() || ''\<close>
  and \<open>radio.parentElement?.textContent?.toLowerCase() || ''\<close>.\<close>

definition radio_label_text :: "document \<Rightarrow> node \<Rightarrow> string + string" where
  "radio_label_text d r =
     (case querySelector d (''label[for=\"'' @ e_id (elems d r) @ ''\"]'') of
        Inl e \<Rightarrow> Inl e
      | Inr None \<Rightarrow> Inr []
      | Inr (Some l) \<Rightarrow> Inr (toLowerCase (textContent (elems d l))))"

definition radio_parent_text :: "document \<Rightarrow> node \<Rightarrow> string" where
  "radio_parent_text d r = (case parentText (elems d r) of None \<Rightarrow> [] | Some t \<Rightarrow> toLowerCase t)"

definition matchesYes :: "string \<Rightarrow> string \<Rightarrow> bool" where
  "matchesYes rLabel rParent = (includes_str rLabel ''yes'' \<or> includes_str rParent ''yes'')"

definition matchesNo :: "string \<Rightarrow> string \<Rightarrow> bool" where
  "matchesNo rLabel rParent = (includes_str rLabel ''no'' \<or> includes_str rParent ''no'')"

text \<open>The inner loop, over the radios of the group.\<close>

fun group_loop :: "document \<Rightarrow> json \<Rightarrow> node list \<Rightarrow> string + node option" where
  "group_loop d v [] = Inr None"
| "group_loop d v (r # rs) =
     (case radio_label_text d r of
        Inl e \<Rightarrow> Inl e
      | Inr rLabel \<Rightarrow>
          (let rParent = radio_parent_text d r in
           if (isYes v \<and> matchesYes rLabel rParent) \<or> (\<not> isYes v \<and> matchesNo rLabel rParent)
           then Inr (Some r)
           else group_loop d v rs))"

text \<open>The outer loop, over \<open>document.querySelectorAll('input[type="radio"]')\<close>.\<close>

fun radio_loop :: "document \<Rightarrow> string \<Rightarrow> json \<Rightarrow> node list \<Rightarrow> string + node option" where
  "radio_loop d searchText v [] = Inr None"
| "radio_loop d searchText v (radio # rest) =
     (case radio_label_text d radio of
        Inl e \<Rightarrow> Inl e
      | Inr labelText \<Rightarrow>
          (if includes_str labelText searchText
              \<or> includes_str (radio_parent_text d radio) searchText then
             (case querySelectorAll d
                     (''input[name=\"'' @ (case e_name (elems d radio) of Some n \<Rightarrow> n
                                           | None \<Rightarrow> ''undefined'') @ ''\"]'') of
                Inl e \<Rightarrow> Inl e
              | Inr groupRadios \<Rightarrow>
                  (case group_loop d v groupRadios of
                     Inl e \<Rightarrow> Inl e
                   | Inr (Some r) \<Rightarrow> Inr (Some r)
                   | Inr None \<Rightarrow> radio_loop d searchText v rest))
           else radio_loop d searchText v rest))"

definition selectRadio :: "radio_target \<Rightarrow> json \<Rightarrow> document \<Rightarrow> action_result page_outcome" where
  "selectRadio t v d =
     (case radio_searchText t of
        Inl e \<Rightarrow> PThrew e d
      | Inr searchText \<Rightarrow>
          (case querySelectorAll d ''input[type=\"radio\"]'' of
             Inl e \<Rightarrow> PThrew e d
           | Inr radios \<Rightarrow>
               (case radio_loop d searchText v radios of
                  Inl e \<Rightarrow> PThrew e d
                | Inr (Some r) \<Rightarrow>
                    PReturned (success (SelectedPayload (if isYes v then ''Yes'' else ''No'')))
                      (log_call r ''change'' (log_call r ''click'' d))
                | Inr None \<Rightarrow> PReturned (failure ''Radio button not found'') d)))"

section \<open>Service worker: browser actions (part_002, first file)\<close>

text \<open>
  What the service worker sees of Chrome.  \<open>tabs_query\<close> is the first tab of
  \<open>chrome.tabs.query({active: true, currentWindow: true})\<close>; an \<open>Inl\<close> or \<open>Some\<close> error is the
  message of a rejected promise.  \<open>run_script\<close> stands for \<open>new Function(script)\<close> and its
  injection.  \<open>chrome.scripting.executeScript\<close> rejects when \<open>inject_error\<close> is set and
  resolves without a result for the frame when \<open>inject_empty\<close> holds; otherwise the function
  runs in \<open>page\<close>, and if it throws there the promise rejects when \<open>throw_rejects\<close> holds and
  resolves without a result otherwise.  \<open>snapshot\<close> is the object the page-state function
  returns.
\<close>

record chrome_env =
  tabs_query :: "string + tab option"
  tabs_update_error :: "string option"
  capture :: "string + string"
  tabs_get :: "nat \<Rightarrow> string + tab"
  run_script :: "string \<Rightarrow> string + json"
  inject_error :: "string option"
  inject_empty :: bool
  throw_rejects :: bool
  snapshot :: json
  page :: document

text \<open>A promise of the service worker settles like a call returns or throws:
  \<open>PReturned\<close> is a resolved promise, \<open>PThrew\<close> a rejected one.\<close>

definition executeScript ::
    "chrome_env \<Rightarrow> (document \<Rightarrow> 'r page_outcome) \<Rightarrow> ('r option) page_outcome" where
  "executeScript env func =
     (case inject_error env of
        Some e \<Rightarrow> PThrew e (page env)
      | None \<Rightarrow>
          (if inject_empty env then PReturned None (page env)
           else case func (page env) of
                  PThrew e d \<Rightarrow> (if throw_rejects env then PThrew e d else PReturned None d)
                | PReturned r d \<Rightarrow> PReturned (Some r) d))"

definition navigateToUrl :: "chrome_env \<Rightarrow> string \<Rightarrow> action_result page_outcome" where
  "navigateToUrl env url =
     (case tabs_query env of
        Inl e \<Rightarrow> PThrew e (page env)
      | Inr (Some t) \<Rightarrow>
          (case tabs_update_error env of
             Some e \<Rightarrow> PThrew e (page env)
           | None \<Rightarrow> PReturned (success (TabIdPayload (tab_id t))) (page env))
      | Inr None \<Rightarrow> PReturned (failure ''No active tab'') (page env))"

definition captureScreenshot :: "chrome_env \<Rightarrow> action_result page_outcome" where
  "captureScreenshot env =
     (case capture env of
        Inr dataUrl \<Rightarrow> PReturned (success (ScreenshotPayload dataUrl)) (page env)
      | Inl e \<Rightarrow> PReturned (failure e) (page env))"

definition getTabState :: "chrome_env \<Rightarrow> action_result page_outcome" where
  "getTabState env =
     (case tabs_query env of
        Inl e \<Rightarrow> PThrew e (page env)
      | Inr (Some t) \<Rightarrow> PReturned (success (TabPayload t)) (page env)
      | Inr None \<Rightarrow> PReturned (failure ''No active tab'') (page env))"

definition getSpecificTabState :: "chrome_env \<Rightarrow> nat \<Rightarrow> action_result page_outcome" where
  "getSpecificTabState env tabId =
     (case tabs_get env tabId of
        Inr t \<Rightarrow> PReturned (success (TabPayload t)) (page env)
      | Inl e \<Rightarrow>
          PReturned (failure (''Tab '' @ string_of_nat tabId @ '' not found: '' @ e)) (page env))"

definition executeInTab :: "chrome_env \<Rightarrow> string \<Rightarrow> action_result page_outcome" where
  "executeInTab env script =
     (case tabs_query env of
        Inl e \<Rightarrow> PThrew e (page env)
      | Inr (Some t) \<Rightarrow>
          (case run_script env script of
             Inl e \<Rightarrow> PThrew e (page env)
           | Inr r \<Rightarrow> PReturned (success (ScriptResult r)) (page env))
      | Inr None \<Rightarrow> PReturned (failure ''No active tab'') (page env))"

text \<open>The body shared by \<open>clickElement\<close>, \<open>fillField\<close>, \<open>selectOption\<close>, \<open>clickRadio\<close> and
  \<open>fillSearch\<close>: query the active tab, inject the function, and return
  \<open>results[0]?.result || {success: false, error: 'Script execution failed'}\<close>.\<close>

definition inject_in_active_tab ::
    "chrome_env \<Rightarrow> (document \<Rightarrow> action_result page_outcome) \<Rightarrow> action_result page_outcome" where
  "inject_in_active_tab env func =
     (case tabs_query env of
        Inl e \<Rightarrow> PThrew e (page env)
      | Inr (Some t) \<Rightarrow>
          (case executeScript env func of
             PThrew e d \<Rightarrow> PThrew e d
           | PReturned None d \<Rightarrow> PReturned (failure ''Script execution failed'') d
           | PReturned (Some r) d \<Rightarrow> PReturned r d)
      | Inr None \<Rightarrow> PReturned (failure ''No active tab'') (page env))"

text \<open>The functions injected into the page.\<close>

definition sw_click_func :: "string \<Rightarrow> document \<Rightarrow> action_result page_outcome" where
  "sw_click_func sel d =
     (case querySelector d sel of
        Inl e \<Rightarrow> PThrew e d
      | Inr (Some el) \<Rightarrow> PReturned (success NoPayload) (log_call el ''click'' d)
      | Inr None \<Rightarrow> PReturned (failure ''Element not found'') d)"

definition sw_fill_func :: "string \<Rightarrow> string \<Rightarrow> document \<Rightarrow> action_result page_outcome" where
  "sw_fill_func sel val d =
     (case querySelector d sel of
        Inl e \<Rightarrow> PThrew e d
      | Inr (Some el) \<Rightarrow>
          (case nativeSetter HTMLInputElement el val d of
             Inl e \<Rightarrow> PThrew e d
           | Inr d1 \<Rightarrow>
               PReturned (success NoPayload) (log_call el ''change'' (log_call el ''input'' d1)))
      | Inr None \<Rightarrow> PReturned (failure ''Element not found'') d)"

text \<open>\<open>sel.split(',').map(s => s.trim())\<close>.\<close>

fun split_comma :: "string \<Rightarrow> string list" where
  "split_comma [] = [[]]"
| "split_comma (c # cs) =
     (if c = CHR '','' then [] # split_comma cs
      else (case split_comma cs of [] \<Rightarrow> [[c]] | w # tl_ws \<Rightarrow> (c # w) # tl_ws))"

definition trim :: "string \<Rightarrow> string" where
  "trim s = rev (dropWhile is_space (rev (dropWhile is_space s)))"

text \<open>\<open>for (const s of selectors) { x = document.querySelector(s); if (x) break; }\<close>.\<close>

fun first_match :: "document \<Rightarrow> string list \<Rightarrow> string + node option" where
  "first_match d [] = Inr None"
| "first_match d (s # ss) =
     (case querySelector d s of
        Inl e \<Rightarrow> Inl e
      | Inr (Some n) \<Rightarrow> Inr (Some n)
      | Inr None \<Rightarrow> first_match d ss)"

text \<open>\<open>s.toUpperCase()\<close>.  \<open>a\<close> to \<open>z\<close> and U+00E0 to U+00FE without the division sign
  U+00F7 are raised by subtracting 32, and the sharp s U+00DF becomes \<open>SS\<close>.  The capitals
  of the micro sign U+00B5 and of U+00FF lie beyond the range; the two characters stand
  for their own capitals here, which no other character of the range shares, so the
  \<open>includes\<close> tests the upper-cased strings are used for come out as in the script.\<close>

definition upper_char :: "char \<Rightarrow> string" where
  "upper_char c =
     (let n = (of_char c :: nat) in
      if (97 \<le> n \<and> n \<le> 122) \<or> (224 \<le> n \<and> n \<le> 254 \<and> n \<noteq> 247) then [char_of (n - 32)]
      else if n = 223 then ''SS''
      else [c])"

definition toUpperCase :: "string \<Rightarrow> string" where
  "toUpperCase s = concat (map upper_char s)"

definition option_value :: "document \<Rightarrow> node \<Rightarrow> string" where
  "option_value d opt = (case e_value (elems d opt) of Some v \<Rightarrow> v | None \<Rightarrow> textContent (elems d opt))"

definition sw_select_func :: "string \<Rightarrow> string \<Rightarrow> document \<Rightarrow> action_result page_outcome" where
  "sw_select_func sel val d =
     (case first_match d (map trim (split_comma sel)) of
        Inl e \<Rightarrow> PThrew e d
      | Inr None \<Rightarrow> PReturned (failure ''Select element not found'') d
      | Inr (Some sl) \<Rightarrow>
          (case select_options d sl of
             None \<Rightarrow> PThrew ''select.options is not iterable'' d
           | Some opts \<Rightarrow>
               (case find (\<lambda>opt. option_value d opt = val
                              \<or> includes_str (toUpperCase (textContent (elems d opt))) (toUpperCase val))
                       opts of
                  Some opt \<Rightarrow>
                    PReturned (success NoPayload)
                      (log_call sl ''change'' (set_value sl (option_value d opt) d))
                | None \<Rightarrow>
                    PReturned (failure (''Option '' @ [CHR 0x27] @ val @ [CHR 0x27]
                                 @ '' not found in select'')) d)))"

text \<open>The two loops of the click-radio function: over the labels, then over the radios.\<close>

fun radio_by_label :: "document \<Rightarrow> string \<Rightarrow> node list \<Rightarrow> (node \<times> string) option" where
  "radio_by_label d searchText [] = None"
| "radio_by_label d searchText (l # ls) =
     (if includes_str (toLowerCase (textContent (elems d l))) searchText then
        (case nested_radio d l of
           Some r \<Rightarrow> Some (r, trim (textContent (elems d l)))
         | None \<Rightarrow>
             (case doc_getElementById d
                     (case for_attr (elems d l) of Some f \<Rightarrow> f | None \<Rightarrow> ''null'') of
                Some r \<Rightarrow> Some (r, trim (textContent (elems d l)))
              | None \<Rightarrow> Some (l, trim (textContent (elems d l)))))
      else radio_by_label d searchText ls)"

fun radio_by_parent :: "document \<Rightarrow> string \<Rightarrow> node list \<Rightarrow> (node \<times> string) option" where
  "radio_by_parent d searchText [] = None"
| "radio_by_parent d searchText (r # rs) =
     (case parentText (elems d r) of
        Some t \<Rightarrow>
          (if includes_str (toLowerCase t) searchText then Some (r, trim t)
           else radio_by_parent d searchText rs)
      | None \<Rightarrow> radio_by_parent d searchText rs)"

definition sw_radio_func :: "string \<Rightarrow> document \<Rightarrow> action_result page_outcome" where
  "sw_radio_func labelText d =
     (case querySelectorAll d ''label'' of
        Inl e \<Rightarrow> PThrew e d
      | Inr labels \<Rightarrow>
          (case radio_by_label d (toLowerCase labelText) labels of
             Some (n, clicked) \<Rightarrow> PReturned (success (ClickedPayload clicked)) (log_call n ''click'' d)
           | None \<Rightarrow>
               (case querySelectorAll d ''input[type=\"radio\"]'' of
                  Inl e \<Rightarrow> PThrew e d
                | Inr radios \<Rightarrow>
                    (case radio_by_parent d (toLowerCase labelText) radios of
                       Some (n, clicked) \<Rightarrow>
                         PReturned (success (ClickedPayload clicked)) (log_call n ''click'' d)
                     | None \<Rightarrow>
                         PReturned (failure (''Radio with label containing '' @ [CHR 0x27]
                           @ labelText @ [CHR 0x27] @ '' not found'')) d))))"

text \<open>The fill-search function; the click on the first suggestion happens in a timer
  500 ms after the function has returned and is not part of its result.\<close>

definition sw_fillSearch_func ::
    "string \<Rightarrow> string \<Rightarrow> bool \<Rightarrow> document \<Rightarrow> action_result page_outcome" where
  "sw_fillSearch_func sel val autoSelect d =
     (case first_match d (map trim (split_comma sel)) of
        Inl e \<Rightarrow> PThrew e d
      | Inr None \<Rightarrow> PReturned (failure ''Search input not found'') d
      | Inr (Some inp) \<Rightarrow>
          (let d1 = log_call inp ''focus'' d in
           case nativeSetter HTMLInputElement inp val d1 of
             Inl e \<Rightarrow> PThrew e d1
           | Inr d2 \<Rightarrow>
               PReturned (success NoPayload) (log_call inp ''keyup'' (log_call inp ''input'' d2))))"

definition sw_clickElement :: "chrome_env \<Rightarrow> string \<Rightarrow> action_result page_outcome" where
  "sw_clickElement env sel = inject_in_active_tab env (sw_click_func sel)"

definition sw_fillField :: "chrome_env \<Rightarrow> string \<Rightarrow> string \<Rightarrow> action_result page_outcome" where
  "sw_fillField env sel val = inject_in_active_tab env (sw_fill_func sel val)"

definition sw_selectOption :: "chrome_env \<Rightarrow> string \<Rightarrow> string \<Rightarrow> action_result page_outcome" where
  "sw_selectOption env sel val = inject_in_active_tab env (sw_select_func sel val)"

definition clickRadio :: "chrome_env \<Rightarrow> string \<Rightarrow> action_result page_outcome" where
  "clickRadio env labelContains = inject_in_active_tab env (sw_radio_func labelContains)"

definition fillSearch ::
    "chrome_env \<Rightarrow> string \<Rightarrow> string \<Rightarrow> bool option \<Rightarrow> action_result page_outcome" where
  "fillSearch env sel val selectFirst =
     inject_in_active_tab env
       (sw_fillSearch_func sel val (case selectFirst of None \<Rightarrow> True | Some b \<Rightarrow> b))"

text \<open>\<open>getPageState\<close> of the service worker: \<open>{success: true, pageState:
  results[0]?.result}\<close>, whatever the injection returned.\<close>

definition sw_getPageState :: "chrome_env \<Rightarrow> action_result page_outcome" where
  "sw_getPageState env =
     (case tabs_query env of
        Inl e \<Rightarrow> PThrew e (page env)
      | Inr (Some t) \<Rightarrow>
          (case executeScript env (\<lambda>d. PReturned (snapshot env) d) of
             PThrew e d \<Rightarrow> PThrew e d
           | PReturned None d \<Rightarrow> PReturned (success (PageStatePayload JUndefined)) d
           | PReturned (Some st) d \<Rightarrow> PReturned (success (PageStatePayload st)) d)
      | Inr None \<Rightarrow> PReturned (failure ''No active tab'') (page env))"

text \<open>The \<open>switch\<close> of \<open>executeBrowserAction\<close>, inside its \<open>try\<close>.\<close>

definition action_switch :: "chrome_env \<Rightarrow> browser_action_frame \<Rightarrow> action_result page_outcome" where
  "action_switch env a =
     (if action_tag a = ''navigate'' then navigateToUrl env (p_url a)
      else if action_tag a = ''screenshot'' then captureScreenshot env
      else if action_tag a = ''get_tab_state'' then getTabState env
      else if action_tag a = ''get_specific_tab_state'' then getSpecificTabState env (p_tab_id a)
      else if action_tag a = ''execute_script'' then executeInTab env (p_script a)
      else if action_tag a = ''click'' then sw_clickElement env (p_selector a)
      else if action_tag a = ''fill'' then sw_fillField env (p_selector a) (p_value a)
      else if action_tag a = ''get_page_state'' then sw_getPageState env
      else if action_tag a = ''select_option'' then sw_selectOption env (p_selector a) (p_value a)
      else if action_tag a = ''click_radio'' then clickRadio env (p_label_contains a)
      else if action_tag a = ''fill_search'' then
        fillSearch env (p_selector a) (p_value a) (p_select_first a)
      else PReturned (failure (''Unknown action: '' @ action_tag a)) (page env))"

text \<open>\<open>executeBrowserAction(action)\<close>: the \<open>catch\<close> turns whatever the switch throws into
  \<open>{success: false, error: error.message}\<close>.  The result comes with the page as the action
  left it.\<close>

definition executeBrowserAction :: "chrome_env \<Rightarrow> browser_action_frame \<Rightarrow> action_result \<times> document" where
  "executeBrowserAction env a =
     (case action_switch env a of
        PReturned r d \<Rightarrow> (r, d)
      | PThrew e d \<Rightarrow> (failure e, d))"

text \<open>A \<open>browser_action\<close> frame from the backend to the frame sent back: the side panel
  forwards it, the service worker answers with the result of \<open>executeBrowserAction\<close>
  (\<open>delivered\<close>: the answer reaches the panel's callback), and the callback sends.\<close>

definition browser_action_roundtrip ::
    "chrome_env \<Rightarrow> bool \<Rightarrow> browser_action_frame \<Rightarrow> panel \<Rightarrow> panel" where
  "browser_action_roundtrip env delivered a p =
     browser_action_callback a
       (if delivered then Some (fst (executeBrowserAction env a)) else None) p"

section \<open>Measures and predicates used in the statements\<close>

text \<open>Reconnect timers set so far plus the attempts still allowed by the cap.\<close>

definition budget :: "panel \<Rightarrow> nat" where
  "budget p = length (timers p) + (maxReconnectAttempts - reconnectAttempts p)"

text \<open>The two checks of \<open>handleFiles\<close>, on a file and on a pending attachment, and the
  attachments an outbound frame carries.\<close>

definition accepted :: "js_file \<Rightarrow> bool" where
  "accepted f = (f_size f \<le> maxSize \<and> f_type f \<in> set allowedTypes)"

definition valid_attachment :: "attachment \<Rightarrow> bool" where
  "valid_attachment a = (att_size a \<le> maxSize \<and> att_mimeType a \<in> set allowedTypes)"

definition reject_alert :: "js_file \<Rightarrow> string" where
  "reject_alert f = (if f_size f > maxSize then too_large_alert f else unsupported_alert f)"

definition to_attachment :: "js_file \<Rightarrow> attachment" where
  "to_attachment f =
     \<lparr>att_name = f_name f, att_mimeType = f_type f,
      att_base64 = (case f_dataUrl f of Some b \<Rightarrow> b | None \<Rightarrow> []), att_size = f_size f\<rparr>"

definition readable :: "js_file \<Rightarrow> bool" where
  "readable f = (f_dataUrl f \<noteq> None)"

text \<open>The files of a batch that \<open>handleFiles\<close> gets to: those before the first accepted
  file that the reader fails on, all of them when there is no such file.\<close>

definition reached :: "js_file list \<Rightarrow> js_file list" where
  "reached fs = takeWhile (\<lambda>f. if accepted f then readable f else True) fs"

fun frame_files :: "out_frame \<Rightarrow> attachment list" where
  "frame_files (MessageFrame c t (Some fs)) = fs"
| "frame_files fr = []"

definition files_ok :: "panel \<Rightarrow> bool" where
  "files_ok p =
     (list_all valid_attachment (pendingFiles p)
      \<and> list_all (\<lambda>fr. list_all valid_attachment (frame_files fr)) (outbox p))"

text \<open>Two files of the specification's scenario, a 2 MB PNG and a 12 MB PDF, and a JPEG of
  512 KB that the reader fails on.\<close>

definition scan_unreadable :: js_file where
  "scan_unreadable = \<lparr>f_name = ''scan.jpg'', f_size = 524288, f_type = ''image/jpeg'',
           f_dataUrl = None\<rparr>"

definition png2 :: js_file where
  "png2 = \<lparr>f_name = ''dec-page.png'', f_size = 2097152, f_type = ''image/png'',
           f_dataUrl = Some ''data:image/png;base64,iVBORw0KGgo=''\<rparr>"

definition pdf12 :: js_file where
  "pdf12 = \<lparr>f_name = ''loss-runs.pdf'', f_size = 12582912, f_type = ''application/pdf'',
            f_dataUrl = Some ''data:application/pdf;base64,JVBERi0=''\<rparr>"

text \<open>A quote form: a label \<open>Email address\<close> for the input \<open>#email\<close>, and two radios named
  \<open>hazmat\<close>, each inside its own label (\<open>Hazmat: Yes\<close>, \<open>Hazmat: No\<close>).\<close>

definition blank_element :: element where
  "blank_element =
     \<lparr>tagName = ''DIV'', e_id = [], e_name = None, e_value = None, e_sanitize = Inr,
      textContent = [], htmlFor = [], for_attr = None, parentText = None, e_log = []\<rparr>"

text \<open>The value sanitization of a text input: line breaks are stripped.\<close>

definition text_input :: "string \<Rightarrow> string + string" where
  "text_input v = Inr (filter (\<lambda>c. c \<noteq> CHR 0x0A \<and> c \<noteq> CHR 0x0D) v)"

definition quote_page :: document where
  "quote_page =
     \<lparr>elems = (\<lambda>n.
        if n = 1 then blank_element\<lparr>tagName := ''LABEL'', textContent := ''Email address'',
                        htmlFor := ''email'', for_attr := Some ''email''\<rparr>
        else if n = 2 then blank_element\<lparr>tagName := ''INPUT'', e_id := ''email'',
                        e_name := Some ''email'', e_value := Some [],
                        e_sanitize := text_input\<rparr>
        else if n = 11 then blank_element\<lparr>tagName := ''INPUT'', e_id := ''hz_y'',
                        e_name := Some ''hazmat'', e_value := Some ''on'',
                        parentText := Some ''Hazmat: Yes''\<rparr>
        else if n = 13 then blank_element\<lparr>tagName := ''INPUT'', e_id := ''hz_n'',
                        e_name := Some ''hazmat'', e_value := Some ''on'',
                        parentText := Some ''Hazmat: No''\<rparr>
        else blank_element),
      querySelector = (\<lambda>sel.
        if sel = ''#email'' \<or> sel = ''[name=\"email\"]'' then Inr (Some 2) else Inr None),
      querySelectorAll = (\<lambda>sel.
        if sel = ''label'' then Inr [1]
        else if sel = ''input[type=\"radio\"]'' \<or> sel = ''input[name=\"hazmat\"]'' then Inr [11, 13]
        else Inr []),
      doc_getElementById = (\<lambda>i.
        if i = ''email'' then Some 2 else if i = ''hz_y'' then Some 11
        else if i = ''hz_n'' then Some 13 else None),
      nested_control = (\<lambda>n. None),
      nested_radio = (\<lambda>n. None),
      xpath_first = (\<lambda>x. Inr None),
      select_options = (\<lambda>n. None)\<rparr>"

definition no_target :: element_target where
  "no_target =
     \<lparr>t_selector = None, t_id = None, t_name = None, t_fieldref = None, t_label = None,
      t_placeholder = None, t_buttonText = None\<rparr>"

text \<open>A service worker whose active tab shows the quote form and accepts injections.\<close>

definition quote_env :: chrome_env where
  "quote_env =
     \<lparr>tabs_query = Inr (Some \<lparr>tab_id = 4, tab_url = ''https://quotes.example/new'',
                               tab_title = ''New quote''\<rparr>),
      tabs_update_error = None, capture = Inr ''data:image/png;base64,AAAA'',
      tabs_get = (\<lambda>i. Inl ''No tab with id''), run_script = (\<lambda>sc. Inl ''EvalError''),
      inject_error = None, inject_empty = False, throw_rejects = True, snapshot = JObj [],
      page = quote_page\<rparr>"

definition fill_action :: browser_action_frame where
  "fill_action =
     \<lparr>actionId = ''act-17'', action_tag = ''fill'', p_url = [], p_tab_id = 0, p_script = [],
      p_selector = ''#email'', p_value = ''ops@ldj.example'', p_label_contains = [],
      p_select_first = None\<rparr>"

text \<open>The group a radio belongs to: the elements that carry the radio's name.\<close>

definition group_of :: "document \<Rightarrow> node \<Rightarrow> string + node list" where
  "group_of d radio =
     querySelectorAll d (''input[name=\"'' @ (case e_name (elems d radio) of Some n \<Rightarrow> n
                                           | None \<Rightarrow> ''undefined'') @ ''\"]'')"

text \<open>What the texts of a radio say, read off the page: the label of a radio is the element
  that the query \<open>label[for="<id of the radio>"]\<close> finds, its label text is the text content
  of that element in lower case (empty when there is no such element), and its parent text
  is the text content of its parent element in lower case (empty when it has no parent).
  The texts hold \<open>s\<close> when one of the two contains \<open>s\<close>, and lack \<open>s\<close> when neither does; a
  radio whose label query throws neither holds nor lacks anything.\<close>

definition text_holds :: "document \<Rightarrow> node \<Rightarrow> string \<Rightarrow> bool" where
  "text_holds d r s =
     (case querySelector d (''label[for=\"'' @ e_id (elems d r) @ ''\"]'') of
        Inl e \<Rightarrow> False
      | Inr lab \<Rightarrow>
          includes_str (case lab of None \<Rightarrow> [] | Some l \<Rightarrow> toLowerCase (textContent (elems d l))) s
          \<or> includes_str (case parentText (elems d r) of None \<Rightarrow> [] | Some t \<Rightarrow> toLowerCase t) s)"

definition text_lacks :: "document \<Rightarrow> node \<Rightarrow> string \<Rightarrow> bool" where
  "text_lacks d r s =
     (case querySelector d (''label[for=\"'' @ e_id (elems d r) @ ''\"]'') of
        Inl e \<Rightarrow> False
      | Inr lab \<Rightarrow>
          \<not> (includes_str (case lab of None \<Rightarrow> [] | Some l \<Rightarrow> toLowerCase (textContent (elems d l))) s
             \<or> includes_str (case parentText (elems d r) of None \<Rightarrow> [] | Some t \<Rightarrow> toLowerCase t) s))"

text \<open>A radio names the group asked for when its texts hold the search text, and says no
  when its texts hold \<open>no\<close>.\<close>

definition names_group :: "document \<Rightarrow> string \<Rightarrow> node \<Rightarrow> bool" where
  "names_group d searchText r = text_holds d r searchText"

definition names_other :: "document \<Rightarrow> string \<Rightarrow> node \<Rightarrow> bool" where
  "names_other d searchText r = text_lacks d r searchText"

definition says_no :: "document \<Rightarrow> node \<Rightarrow> bool" where
  "says_no d r = text_holds d r ''no''"

definition says_other :: "document \<Rightarrow> node \<Rightarrow> bool" where
  "says_other d r = text_lacks d r ''no''"

text \<open>The same question on a form whose radios are told apart by their labels alone: each
  radio sits in a wrapper of its own with no text, and is followed by a label element
  with a \<open>for\<close> attribute, \<open>Hazmat: Yes\<close> for \<open>#hz_y\<close> and \<open>Hazmat: No\<close> for \<open>#hz_n\<close>.\<close>

definition labelled_page :: document where
  "labelled_page =
     \<lparr>elems = (\<lambda>n.
        if n = 10 then blank_element\<lparr>tagName := ''LABEL'', textContent := ''Hazmat: Yes'',
                        htmlFor := ''hz_y'', for_attr := Some ''hz_y''\<rparr>
        else if n = 11 then blank_element\<lparr>tagName := ''INPUT'', e_id := ''hz_y'',
                        e_name := Some ''hazmat'', e_value := Some ''on'',
                        parentText := Some []\<rparr>
        else if n = 12 then blank_element\<lparr>tagName := ''LABEL'', textContent := ''Hazmat: No'',
                        htmlFor := ''hz_n'', for_attr := Some ''hz_n''\<rparr>
        else if n = 13 then blank_element\<lparr>tagName := ''INPUT'', e_id := ''hz_n'',
                        e_name := Some ''hazmat'', e_value := Some ''on'',
                        parentText := Some []\<rparr>
        else blank_element),
      querySelector = (\<lambda>sel.
        if sel = ''label[for=\"hz_y\"]'' then Inr (Some 10)
        else if sel = ''label[for=\"hz_n\"]'' then Inr (Some 12)
        else Inr None),
      querySelectorAll = (\<lambda>sel.
        if sel = ''label'' then Inr [10, 12]
        else if sel = ''input[type=\"radio\"]'' \<or> sel = ''input[name=\"hazmat\"]'' then Inr [11, 13]
        else Inr []),
      doc_getElementById = (\<lambda>i.
        if i = ''hz_y'' then Some 11 else if i = ''hz_n'' then Some 13 else None),
      nested_control = (\<lambda>n. None),
      nested_radio = (\<lambda>n. None),
      xpath_first = (\<lambda>x. Inr None),
      select_options = (\<lambda>n. None)\<rparr>"

text \<open>The action tags of \<open>executeBrowserAction\<close>: all of them, those that start by
  querying the active tab, and those that inject a function into the page; the function
  injected for an action; and the shape of a failure envelope.\<close>

definition known_actions :: "string list" where
  "known_actions =
     [''navigate'', ''screenshot'', ''get_tab_state'', ''get_specific_tab_state'',
      ''execute_script'', ''click'', ''fill'', ''get_page_state'', ''select_option'',
      ''click_radio'', ''fill_search'']"

definition tab_actions :: "string list" where
  "tab_actions =
     [''navigate'', ''get_tab_state'', ''execute_script'', ''click'', ''fill'',
      ''get_page_state'', ''select_option'', ''click_radio'', ''fill_search'']"

definition injecting_actions :: "string list" where
  "injecting_actions = [''click'', ''fill'', ''select_option'', ''click_radio'', ''fill_search'']"

definition injected_func :: "browser_action_frame \<Rightarrow> document \<Rightarrow> action_result page_outcome" where
  "injected_func a =
     (if action_tag a = ''click'' then sw_click_func (p_selector a)
      else if action_tag a = ''fill'' then sw_fill_func (p_selector a) (p_value a)
      else if action_tag a = ''select_option'' then sw_select_func (p_selector a) (p_value a)
      else if action_tag a = ''click_radio'' then sw_radio_func (p_label_contains a)
      else sw_fillSearch_func (p_selector a) (p_value a)
             (case p_select_first a of None \<Rightarrow> True | Some b \<Rightarrow> b))"

definition is_failure :: "action_result \<Rightarrow> bool" where
  "is_failure r = (r_success r = Some False \<and> r_error r \<noteq> None)"

definition no_response :: action_result where
  "no_response =
     \<lparr>r_success = None, r_error = Some ''No response from service worker'', r_payload = NoPayload\<rparr>"

text \<open>The persisted history is within the cap; a session loads the history into the state
  literal, handles its events, and leaves the storage to the next session.\<close>

definition within_cap :: "message list option \<Rightarrow> bool" where
  "within_cap st = (case st of None \<Rightarrow> True | Some ms \<Rightarrow> length ms \<le> 100)"

definition session :: "message list option \<Rightarrow> panel_event list \<Rightarrow> message list option" where
  "session st evs = storage (panel_run (loadMessages (initial_panel st)) evs)"

text \<open>The three properties every extracted context starts with.\<close>

definition base_context :: "string \<Rightarrow> nat \<Rightarrow> page_context" where
  "base_context url now =
     [(''site'', PStr (fst (detectSite url))), (''url'', PStr url), (''timestamp'', PNum now)]"

text \<open>A lead page as the extractors see it.\<close>

definition lead_scrape :: scraped where
  "lead_scrape =
     \<lparr>sc_companyName = Some ''LDJ IN & OUT TRANSPORT LLC'', sc_contactName = None,
      sc_phone = Some ''555-0100'', sc_email = None, sc_dotNumber = None, sc_mcNumber = None,
      sc_status = None, sc_currentCaller = None, sc_dialerStatus = None,
      sc_title = ''LDJ - Close'', sc_pageType = None\<rparr>"

definition lead_extracted :: "nat \<Rightarrow> page_context" where
  "lead_extracted now =
     [(''site'', PStr ''close_lead''), (''url'', PStr ''https://app.close.com/lead/lead_abc/''),
      (''timestamp'', PNum now), (''leadId'', PStr ''lead_abc''),
      (''companyName'', PStr ''LDJ IN & OUT TRANSPORT LLC''), (''phone'', PStr ''555-0100'')]"

section \<open>Persistence keeps the last 100 messages\<close>

lemma messages_renderMessage: "messages (renderMessage m p) = messages p"
  by (simp add: renderMessage_def Let_def)

lemma storage_renderMessage: "storage (renderMessage m p) = storage p"
  by (simp add: renderMessage_def Let_def)

lemma messages_fold_push:
  "messages (fold (\<lambda>msg q. renderMessage msg (q\<lparr>messages := messages q @ [msg]\<rparr>)) ms p)
     = messages p @ ms"
  by (induction ms arbitrary: p) (simp_all add: messages_renderMessage)

lemma messages_loadMessages:
  "messages (loadMessages p) = messages p @ (case storage p of Some ms \<Rightarrow> ms | None \<Rightarrow> [])"
  by (simp add: loadMessages_def messages_fold_push)

lemma messages_addMessage:
  "messages (addMessage now m p) = messages p @ [m\<lparr>timestamp := now\<rparr>]"
  by (simp add: addMessage_def Let_def saveMessages_def messages_renderMessage)

section \<open>Streaming: chunks append to the open stream\<close>

lemma find_append_last:
  "\<forall>x\<in>set pre. \<not> P x \<Longrightarrow> P m \<Longrightarrow> find P (pre @ [m]) = Some m"
  by (induction pre) auto

lemma update_first_append_last:
  "\<forall>x\<in>set pre. \<not> P x \<Longrightarrow> P m \<Longrightarrow> update_first P f (pre @ [m]) = pre @ [f m]"
  by (induction pre) auto

lemma handle_all_append: "handle_all (xs @ ys) p = handle_all ys (handle_all xs p)"
  by (induction xs arbitrary: p) auto

lemma stream_id_nonempty: "stream_id t \<noteq> []"
  by (simp add: stream_id_def)

lemma tool_id_nonempty: "tool_id t \<noteq> []"
  by (simp add: tool_id_def)

lemma chunk_appends_to_open_stream:
  assumes "currentStreamId p = Some i" "i \<noteq> []" "messages p = pre @ [m]"
    "msg_id m = Some i" "\<forall>x\<in>set pre. msg_id x \<noteq> Some i"
  shows "messages (handleServerMessage t (ResponseChunk c) p) = pre @ [m\<lparr>content := content m @ c\<rparr>]
     \<and> currentStreamId (handleServerMessage t (ResponseChunk c) p) = Some i"
  using assms
  by (simp add: find_append_last update_first_append_last updateStreamingMessage_def)

lemma chunks_append_in_order:
  assumes "currentStreamId p = Some i" "i \<noteq> []" "messages p = pre @ [m]"
    "msg_id m = Some i" "\<forall>x\<in>set pre. msg_id x \<noteq> Some i"
  shows "messages (handle_all (map (\<lambda>(t, c). (t, ResponseChunk c)) cs) p)
           = pre @ [m\<lparr>content := content m @ concat (map snd cs)\<rparr>]
     \<and> currentStreamId (handle_all (map (\<lambda>(t, c). (t, ResponseChunk c)) cs) p) = Some i"
  using assms
proof (induction cs arbitrary: p m)
  case Nil
  then show ?case by simp
next
  case (Cons tc cs)
  obtain t c where tc: "tc = (t, c)" by (cases tc)
  let ?p = "handleServerMessage t (ResponseChunk c) p"
  let ?m = "m\<lparr>content := content m @ c\<rparr>"
  have step: "messages ?p = pre @ [?m] \<and> currentStreamId ?p = Some i"
    using chunk_appends_to_open_stream[OF Cons.prems] .
  have "messages (handle_all (map (\<lambda>(t, c). (t, ResponseChunk c)) cs) ?p)
           = pre @ [?m\<lparr>content := content ?m @ concat (map snd cs)\<rparr>]
     \<and> currentStreamId (handle_all (map (\<lambda>(t, c). (t, ResponseChunk c)) cs) ?p) = Some i"
    using Cons.IH[of ?p ?m] step Cons.prems by simp
  then show ?case by (simp add: tc)
qed

text \<open>
  When the id \<open>'stream-' + Date.now()\<close> made at \<open>response_start\<close> is not already the id of
  a message of the history, the message opened by the start holds, after the end, exactly
  the chunks' contents concatenated in arrival order.
\<close>

lemma stream_content_is_concatenation_when_id_fresh:
  assumes fresh: "\<forall>x\<in>set (messages p). msg_id x \<noteq> Some (stream_id (fst t))"
  shows "messages (handle_all ((t, ResponseStart) # map (\<lambda>(t, c). (t, ResponseChunk c)) cs
            @ [(te, ResponseEnd)]) p)
      = messages p @ [(streamMsg t)\<lparr>content := concat (map snd cs)\<rparr>]"
proof -
  let ?i = "stream_id (fst t)"
  let ?p1 = "handleServerMessage t ResponseStart p"
  let ?p2 = "handle_all (map (\<lambda>(t, c). (t, ResponseChunk c)) cs) ?p1"
  have m1: "messages ?p1 = messages p @ [streamMsg t]"
    by (simp add: Let_def messages_renderMessage hideThinkingIndicator_def)
  have c1: "currentStreamId ?p1 = Some ?i"
    by (simp add: Let_def)
  have idm: "msg_id (streamMsg t) = Some ?i"
    by (simp add: streamMsg_def)
  have after: "messages ?p2
        = messages p @ [(streamMsg t)\<lparr>content := content (streamMsg t) @ concat (map snd cs)\<rparr>]
      \<and> currentStreamId ?p2 = Some ?i"
    using chunks_append_in_order[OF c1 stream_id_nonempty m1 idm fresh] .
  have empty: "content (streamMsg t) = []"
    by (simp add: streamMsg_def)
  have fin: "messages (handleServerMessage te ResponseEnd ?p2) = messages ?p2"
    by (simp add: saveMessages_def finishStreamingMessage_def)
  show ?thesis
    using after empty fin by (simp add: handle_all_append del: handleServerMessage.simps)
qed

text \<open>
  C1.  The claim asks that the message streamed between a \<open>response_start\<close> and its
  \<open>response_end\<close> ends up holding the ordered concatenation of the chunks.  The stream is
  found again by its id \<open>'stream-' + Date.now()\<close>, and \<open>find\<close> returns the first message
  with that id.  Two streams opened within the same millisecond share the id: here an
  empty response is followed at once by a second response with the chunk \<open>Hi\<close>.  The
  chunk is appended to the first, already finished message, and the message of the
  second stream stays empty.
\<close>

theorem stream_id_collision_misroutes_chunk:
  "messages (handle_all
       [((1733356800000, 1733356800000), ResponseStart), ((1733356800000, 1733356800000), ResponseEnd),
        ((1733356800000, 1733356800000), ResponseStart), ((1733356800000, 1733356800000), ResponseChunk ''Hi''),
        ((1733356800000, 1733356800000), ResponseEnd)] (initial_panel None))
     = [(streamMsg (1733356800000, 1733356800000))\<lparr>content := ''Hi''\<rparr>, streamMsg (1733356800000, 1733356800000)]
   \<and> content (streamMsg (1733356800000, 1733356800000)) = []"
  by (simp add: initial_panel_def hideThinkingIndicator_def renderMessage_def Let_def streamMsg_def
     stream_id_nonempty saveMessages_def finishStreamingMessage_def updateStreamingMessage_def)

section \<open>Tool lifecycle\<close>

lemma string_of_nat_1: "string_of_nat (Suc 0) = ''1''"
  by code_simp

lemma summarize_one_lead:
  "summarizeToolResult (Some ''search_leads'') (JObj [(''leads'', JArr [l])]) = ''Found 1 lead''"
  by (simp add: summarizeToolResult_def summarize_switch_def found_count_def string_of_nat_1)

lemma one_lead_not_error: "\<not> isError (JObj [(''leads'', JArr [l])])"
  by (simp add: isError_def)

lemma toolInfo_search_leads:
  "toolInfo ''search_leads'' = (''Close CRM Search'', ''Searching Close CRM...'')"
  by (simp add: toolInfo_def TOOL_DISPLAY_def)

text \<open>
  From the state at script load, a \<open>tool_call\<close> for \<open>search_leads\<close> yields exactly one
  tool-status entry (one message, one card), in the loading state; the following
  \<open>tool_result\<close> carrying \<open>{leads: [l]}\<close> turns that same entry to complete with the summary
  \<open>Found 1 lead\<close>.  A \<open>tool_result\<close> carries no id: a \<open>tool_call\<close> marks its own invocation
  as the current one, a \<open>tool_result\<close> clears the mark, and a \<open>tool_result\<close> arriving when
  no invocation is current leaves the whole state unchanged.
\<close>

lemma tool_call_then_result:
  "messages (handleServerMessage t1 (ToolCall ''search_leads'' args) (initial_panel st))
      = [toolMsg t1 ''search_leads'' args]
   \<and> dom (handleServerMessage t1 (ToolCall ''search_leads'' args) (initial_panel st))
      = [\<lparr>div_id = tool_id (fst t1), classes = [''tool-card'', ''loading''],
          inner_html = ToolLoading ''Searching Close CRM...''\<rparr>]
   \<and> messages (handle_all [(t1, ToolCall ''search_leads'' args),
          (t2, ToolResult (JObj [(''leads'', JArr [l])]))] (initial_panel st))
      = [(toolMsg t1 ''search_leads'' args)\<lparr>toolStatus := Some ''complete'',
            toolSummary := Some ''Found 1 lead''\<rparr>]
   \<and> dom (handle_all [(t1, ToolCall ''search_leads'' args),
          (t2, ToolResult (JObj [(''leads'', JArr [l])]))] (initial_panel st))
      = [\<lparr>div_id = tool_id (fst t1), classes = [''tool-card'', ''complete''],
          inner_html = ToolDone False ''Close CRM Search'' ''Found 1 lead''\<rparr>]
   \<and> (\<not> truthy_id (currentToolId p) \<longrightarrow> handleServerMessage t (ToolResult r) p = p)
   \<and> currentToolId (handleServerMessage t (ToolCall tool a) p) = Some (tool_id (fst t))
   \<and> currentToolId (handleServerMessage t' (ToolResult r) (handleServerMessage t (ToolCall tool a) p))
      = None"
  by (simp add: initial_panel_def addMessage_def renderMessage_def Let_def toolMsg_def
      saveMessages_def tool_id_nonempty resolve_tool_def getElementById_def update_element_def
      summarize_one_lead one_lead_not_error toolInfo_search_leads)

lemma tool_call_then_result_at_script_load:
  "\<not> truthy_id (currentToolId (initial_panel None))
   \<and> handleServerMessage (1733356800500, 1733356800500) (ToolResult (JObj [(''leads'', JArr [])])) (initial_panel None)
      = initial_panel None
   \<and> messages (handle_all [((1733356800000, 1733356800001), ToolCall ''search_leads'' (JObj [(''query'', JStr ''LDJ'')])),
          ((1733356800250, 1733356800250), ToolResult (JObj [(''leads'', JArr [JObj [(''name'', JStr ''LDJ'')]])]))]
        (initial_panel None))
      = [(toolMsg (1733356800000, 1733356800001) ''search_leads'' (JObj [(''query'', JStr ''LDJ'')]))
           \<lparr>toolStatus := Some ''complete'', toolSummary := Some ''Found 1 lead''\<rparr>]"
  using tool_call_then_result [where ?t1.0 = "(1733356800000, 1733356800001)" and ?t2.0 = "(1733356800250, 1733356800250)"
      and args = "JObj [(''query'', JStr ''LDJ'')]" and l = "JObj [(''name'', JStr ''LDJ'')]"
      and st = None and p = "initial_panel None" and t = "(1733356800500, 1733356800500)"
      and r = "JObj [(''leads'', JArr [])]"]
  by (simp add: initial_panel_def)

section \<open>Reconnection\<close>

lemma handleServerMessage_transport:
  "timers (handleServerMessage now f p) = timers p
   \<and> reconnectAttempts (handleServerMessage now f p) = reconnectAttempts p"
  by (cases f)
     (simp_all add: Let_def renderMessage_def hideThinkingIndicator_def updateStreamingMessage_def
        saveMessages_def finishStreamingMessage_def addMessage_def resolve_tool_def
        split: option.splits)

lemma handleFiles_transport:
  "timers (state_of (handleFiles fs p)) = timers p
   \<and> reconnectAttempts (state_of (handleFiles fs p)) = reconnectAttempts p"
  by (induction fs arbitrary: p) (simp_all split: option.splits)

lemma ws_send_transport:
  "timers (state_of (ws_send f p)) = timers p
   \<and> reconnectAttempts (state_of (ws_send f p)) = reconnectAttempts p"
  by (simp add: ws_send_def split: option.splits readyState.splits)

lemma addMessage_transport:
  "timers (addMessage now m p) = timers p
   \<and> reconnectAttempts (addMessage now m p) = reconnectAttempts p"
  by (simp add: addMessage_def Let_def renderMessage_def saveMessages_def)

lemma sendMessage_transport:
  "timers (state_of (sendMessage now c p)) = timers p
   \<and> reconnectAttempts (state_of (sendMessage now c p)) = reconnectAttempts p"
  by (simp add: sendMessage_def Let_def ws_send_transport addMessage_transport
        showThinkingIndicator_def clearPendingFiles_def)

lemma ws_onclose_budget: "budget (ws_onclose p) \<le> budget p"
  by (auto simp add: budget_def ws_onclose_def Let_def)

lemma step_budget:
  "e \<noteq> WsOpen \<Longrightarrow> budget (panel_step p e) \<le> budget p"
proof (cases e)
  case WsClose
  then show ?thesis by (simp add: ws_onclose_budget)
next
  case Connect
  then show ?thesis by (simp add: budget_def connectWebSocket_def)
next
  case (Frame now f)
  then show ?thesis by (simp add: budget_def handleServerMessage_transport)
next
  case (Attach fs)
  then show ?thesis by (simp add: budget_def handleFiles_transport)
next
  case (RemoveFile idx)
  then show ?thesis by (simp add: budget_def removePendingFile_def)
next
  case (Send now c)
  then show ?thesis by (simp add: budget_def sendMessage_transport)
next
  case (ActionDone a r)
  then show ?thesis by (simp add: budget_def browser_action_callback_def)
qed simp

lemma run_budget:
  "WsOpen \<notin> set evs \<Longrightarrow> budget (panel_run p evs) \<le> budget p"
  unfolding panel_run_def
proof (induction evs arbitrary: p)
  case Nil
  then show ?case by simp
next
  case (Cons e evs)
  have ne: "e \<noteq> WsOpen" using Cons.prems by auto
  have "budget (foldl panel_step (panel_step p e) evs) \<le> budget (panel_step p e)"
    using Cons by simp
  also have "\<dots> \<le> budget p"
    using step_budget[OF ne] .
  finally show ?case by simp
qed

lemma ws_onopen_effect:
  "ws_onopen p = Returned (p\<lparr>ws := Some OPEN, connected := True, reconnectAttempts := 0,
       outbox := outbox p @ (case currentTab p of Some t \<Rightarrow> [TabStateFrame t] | None \<Rightarrow> [])\<rparr>)"
  by (simp add: ws_onopen_def sendTabState_def ws_send_def split: option.splits)

text \<open>
  C8, as the code has it.  In the side panel, a close sets one reconnect timer with the
  fixed delay and counts the attempt while fewer than \<open>maxReconnectAttempts\<close> attempts
  were made, and sets none once the cap is reached; an open resets the counter to zero
  and sends the tab state at once when a current tab is known, and nothing otherwise;
  so after an open, whatever happens short of another open, at most
  \<open>maxReconnectAttempts\<close> further timers are set.  The legacy service worker transport
  sets a timer after every close and sends nothing on open.
\<close>

theorem reconnect_is_bounded_in_the_side_panel:
  "(reconnectAttempts p < maxReconnectAttempts \<longrightarrow>
       timers (ws_onclose p) = timers p @ [reconnectDelay]
       \<and> reconnectAttempts (ws_onclose p) = Suc (reconnectAttempts p))
   \<and> (\<not> reconnectAttempts p < maxReconnectAttempts \<longrightarrow>
       timers (ws_onclose p) = timers p \<and> reconnectAttempts (ws_onclose p) = reconnectAttempts p)
   \<and> ws_onopen p = Returned (p\<lparr>ws := Some OPEN, connected := True, reconnectAttempts := 0,
       outbox := outbox p @ (case currentTab p of Some t \<Rightarrow> [TabStateFrame t] | None \<Rightarrow> [])\<rparr>)
   \<and> (WsOpen \<notin> set evs \<longrightarrow>
       length (timers (panel_run (state_of (ws_onopen p)) evs))
         \<le> length (timers p) + maxReconnectAttempts)
   \<and> sw_timers (sw_onclose s) = sw_timers s @ [sw_reconnectDelay]
   \<and> sw_outbox (sw_onopen s) = sw_outbox s"
proof -
  have bounded: "length (timers (panel_run (state_of (ws_onopen p)) evs))
         \<le> length (timers p) + maxReconnectAttempts" if "WsOpen \<notin> set evs"
  proof -
    have "length (timers (panel_run (state_of (ws_onopen p)) evs))
            \<le> budget (panel_run (state_of (ws_onopen p)) evs)"
      by (simp add: budget_def)
    also have "\<dots> \<le> budget (state_of (ws_onopen p))"
      using run_budget[OF that] .
    also have "\<dots> = length (timers p) + maxReconnectAttempts"
      by (simp add: ws_onopen_effect budget_def)
    finally show ?thesis .
  qed
  show ?thesis
    using bounded
    by (simp add: ws_onopen_effect ws_onclose_def Let_def sw_onclose_def sw_onopen_def)
qed

theorem reconnect_is_bounded_in_the_side_panel_witness:
  "reconnectAttempts (initial_panel None) < maxReconnectAttempts
   \<and> timers (ws_onclose (initial_panel None)) = [3000]
   \<and> \<not> reconnectAttempts ((initial_panel None)\<lparr>reconnectAttempts := 5\<rparr>) < maxReconnectAttempts
   \<and> timers (ws_onclose ((initial_panel None)\<lparr>reconnectAttempts := 5\<rparr>)) = []
   \<and> WsOpen \<notin> set [WsClose, Connect, WsClose, Connect, WsClose, Connect, WsClose,
         Connect, WsClose, Connect, WsClose, Connect, WsClose]
   \<and> length (timers (panel_run (state_of (ws_onopen (initial_panel None)))
         [WsClose, Connect, WsClose, Connect, WsClose, Connect, WsClose,
          Connect, WsClose, Connect, WsClose, Connect, WsClose])) \<le> 5"
proof -
  let ?evs = "[WsClose, Connect, WsClose, Connect, WsClose, Connect, WsClose,
        Connect, WsClose, Connect, WsClose, Connect, WsClose]"
  let ?capped = "(initial_panel None)\<lparr>reconnectAttempts := 5\<rparr>"
  have below: "reconnectAttempts (initial_panel None) < maxReconnectAttempts"
    by (simp add: initial_panel_def maxReconnectAttempts_def)
  have at_cap: "\<not> reconnectAttempts ?capped < maxReconnectAttempts"
    by (simp add: maxReconnectAttempts_def)
  have no_open: "WsOpen \<notin> set ?evs"
    by simp
  have none_yet: "timers (initial_panel None) = []" "timers ?capped = []"
    by (simp_all add: initial_panel_def)
  note low = reconnect_is_bounded_in_the_side_panel [of "initial_panel None" ?evs]
  note high = reconnect_is_bounded_in_the_side_panel [of ?capped "[]"]
  have one_timer: "timers (ws_onclose (initial_panel None)) = [3000]"
    using low [THEN conjunct1] below none_yet by (simp add: reconnectDelay_def)
  have no_timer: "timers (ws_onclose ?capped) = []"
    using high [THEN conjunct2, THEN conjunct1] at_cap none_yet by simp
  have capped: "length (timers (panel_run (state_of (ws_onopen (initial_panel None))) ?evs)) \<le> 5"
    using low [THEN conjunct2, THEN conjunct2, THEN conjunct2, THEN conjunct1] no_open none_yet
    by (simp add: maxReconnectAttempts_def)
  show ?thesis
    using below at_cap no_open one_timer no_timer capped by blast
qed

text \<open>
  The claim as stated fails in two places: a connection opened while no current tab is
  known sends no tab-state frame, and the legacy service worker transport has set six
  reconnect timers after six closes with no open in between, one more than the cap.
\<close>

theorem reconnect_claim_counterexample:
  "outbox (state_of (ws_onopen (connectWebSocket (initial_panel None)))) = []
   \<and> connected (state_of (ws_onopen (connectWebSocket (initial_panel None))))
   \<and> length (sw_timers (sw_onclose (sw_connectWebSocket (sw_onclose (sw_connectWebSocket
        (sw_onclose (sw_connectWebSocket (sw_onclose (sw_connectWebSocket (sw_onclose
        (sw_connectWebSocket (sw_onclose (sw_connectWebSocket
          \<lparr>sw_ws = None, sw_timers = [], sw_broadcasts = [], sw_outbox = []\<rparr>))))))))))))) = 6
   \<and> maxReconnectAttempts < 6"
  by (simp add: ws_onopen_effect connectWebSocket_def initial_panel_def sw_onclose_def
      sw_connectWebSocket_def maxReconnectAttempts_def)

section \<open>File attachments\<close>

lemma handleServerMessage_files:
  "pendingFiles (handleServerMessage now f p) = pendingFiles p
   \<and> outbox (handleServerMessage now f p) = outbox p"
  by (cases f)
     (simp_all add: Let_def renderMessage_def hideThinkingIndicator_def updateStreamingMessage_def
        saveMessages_def finishStreamingMessage_def addMessage_def resolve_tool_def
        split: option.splits)

lemma handleFiles_files_ok:
  "files_ok p \<Longrightarrow> files_ok (state_of (handleFiles fs p))"
proof (induction fs arbitrary: p)
  case Nil
  then show ?case by simp
next
  case (Cons f fs)
  show ?case
  proof (cases "f_size f > maxSize")
    case True
    have "files_ok (p\<lparr>alerts := alerts p @ [too_large_alert f]\<rparr>)"
      using Cons.prems by (simp add: files_ok_def)
    then show ?thesis using True Cons.IH by simp
  next
    case small: False
    show ?thesis
    proof (cases "f_type f \<in> set allowedTypes")
      case False
      have "files_ok (p\<lparr>alerts := alerts p @ [unsupported_alert f]\<rparr>)"
        using Cons.prems by (simp add: files_ok_def)
      then show ?thesis using small False Cons.IH by simp
    next
      case True
      show ?thesis
      proof (cases "f_dataUrl f")
        case None
        then show ?thesis using small True Cons.prems by simp
      next
        case (Some b)
        have "files_ok (p\<lparr>pendingFiles := pendingFiles p @
            [\<lparr>att_name = f_name f, att_mimeType = f_type f, att_base64 = b, att_size = f_size f\<rparr>]\<rparr>)"
          using Cons.prems small True by (simp add: files_ok_def valid_attachment_def)
        then show ?thesis using small True Some Cons.IH by simp
      qed
    qed
  qed
qed

lemma addMessage_files:
  "pendingFiles (addMessage now m p) = pendingFiles p \<and> outbox (addMessage now m p) = outbox p
   \<and> connected (addMessage now m p) = connected p \<and> ws (addMessage now m p) = ws p
   \<and> currentTab (addMessage now m p) = currentTab p"
  by (simp add: addMessage_def Let_def renderMessage_def saveMessages_def)

lemma sendMessage_files_ok:
  "files_ok p \<Longrightarrow> files_ok (state_of (sendMessage now c p))"
  by (simp add: sendMessage_def Let_def files_ok_def ws_send_def addMessage_files
        showThinkingIndicator_def clearPendingFiles_def split: option.splits readyState.splits)

lemma list_all_take_drop:
  "list_all P xs \<Longrightarrow> list_all P (take i xs) \<and> list_all P (drop (Suc i) xs)"
  by (auto simp add: list_all_iff dest: in_set_takeD in_set_dropD)

lemma step_files_ok: "files_ok p \<Longrightarrow> files_ok (panel_step p e)"
proof (cases e)
  case WsOpen
  assume "files_ok p"
  then show ?thesis using WsOpen by (simp add: ws_onopen_effect files_ok_def split: option.splits)
next
  case WsClose
  assume "files_ok p"
  then show ?thesis using WsClose by (simp add: ws_onclose_def Let_def files_ok_def)
next
  case Connect
  assume "files_ok p"
  then show ?thesis using Connect by (simp add: connectWebSocket_def files_ok_def)
next
  case (Frame now f)
  assume "files_ok p"
  then show ?thesis using Frame by (simp add: files_ok_def handleServerMessage_files)
next
  case (Attach fs)
  assume "files_ok p"
  then show ?thesis using Attach by (simp add: handleFiles_files_ok)
next
  case (RemoveFile idx)
  assume "files_ok p"
  then show ?thesis using RemoveFile by (simp add: removePendingFile_def files_ok_def list_all_take_drop)
next
  case (Send now c)
  assume "files_ok p"
  then show ?thesis using Send by (simp add: sendMessage_files_ok)
next
  case (ActionDone a r)
  assume "files_ok p"
  then show ?thesis using ActionDone by (simp add: browser_action_callback_def files_ok_def)
qed

lemma run_files_ok: "files_ok p \<Longrightarrow> files_ok (panel_run p evs)"
  unfolding panel_run_def
  by (induction evs arbitrary: p) (simp_all add: step_files_ok)

lemma handleFiles_effect:
  "list_all readable (filter accepted fs) \<Longrightarrow>
   handleFiles fs p = Returned (p\<lparr>alerts := alerts p @ map reject_alert (filter (\<lambda>f. \<not> accepted f) fs),
       pendingFiles := pendingFiles p @ map to_attachment (filter accepted fs)\<rparr>)"
proof (induction fs arbitrary: p)
  case Nil
  then show ?case by simp
next
  case (Cons f fs)
  have rest: "list_all readable (filter accepted fs)"
    using Cons.prems by (simp split: if_splits)
  note IH = Cons.IH [OF rest]
  show ?case
  proof (cases "accepted f")
    case False
    then show ?thesis
      by (auto simp add: IH accepted_def reject_alert_def)
  next
    case True
    then obtain b where b: "f_dataUrl f = Some b"
      using Cons.prems by (auto simp add: readable_def)
    show ?thesis
      using True b by (simp add: IH accepted_def to_attachment_def)
  qed
qed

lemma handleFiles_reached:
  "state_of (handleFiles fs p)
     = p\<lparr>alerts := alerts p @ map reject_alert (filter (\<lambda>f. \<not> accepted f) (reached fs)),
         pendingFiles := pendingFiles p @ map to_attachment (filter accepted (reached fs))\<rparr>"
proof (induction fs arbitrary: p)
  case Nil
  then show ?case by (simp add: reached_def)
next
  case (Cons f fs)
  show ?case
  proof (cases "accepted f")
    case False
    then show ?thesis
      using Cons.IH by (auto simp add: reached_def accepted_def reject_alert_def)
  next
    case True
    show ?thesis
    proof (cases "f_dataUrl f")
      case None
      then show ?thesis using True by (simp add: reached_def accepted_def readable_def)
    next
      case (Some b)
      then show ?thesis
        using True Cons.IH by (simp add: reached_def accepted_def readable_def to_attachment_def)
    qed
  qed
qed

lemma reached_all:
  "list_all readable (filter accepted fs) \<Longrightarrow> reached fs = fs"
  unfolding reached_def
  by (induction fs) (simp_all split: if_splits)

lemma sendMessage_connected:
  "connected p \<Longrightarrow> ws p = Some OPEN \<Longrightarrow> pendingFiles p \<noteq> [] \<Longrightarrow>
   outbox (state_of (sendMessage now c p))
     = outbox p @ [MessageFrame (if c \<noteq> [] then c else ''Please analyze this file.'')
                     (currentTab p) (Some (pendingFiles p))]"
  by (simp add: sendMessage_def Let_def ws_send_def addMessage_files
        showThinkingIndicator_def clearPendingFiles_def)

lemma sendMessage_disconnected:
  "\<not> connected p \<Longrightarrow> outbox (state_of (sendMessage now c p)) = outbox p"
  by (simp add: sendMessage_def Let_def ws_send_def addMessage_files
        showThinkingIndicator_def clearPendingFiles_def)

lemma sendMessage_clears:
  "pendingFiles (state_of (sendMessage now c p)) = []"
  by (simp add: sendMessage_def Let_def ws_send_def addMessage_files
        showThinkingIndicator_def clearPendingFiles_def split: option.splits readyState.splits)

lemma initial_files_ok: "files_ok (initial_panel st)"
  by (simp add: files_ok_def initial_panel_def)

text \<open>
  C7, as the code has it.  \<open>handleFiles\<close> takes the files of a batch in order, and to
  every file it gets to it applies the two checks: a file larger than 10 MB or with a MIME
  type outside the allow-list is rejected with an alert naming it, and every other file is
  queued with its name, MIME type, data URL and size.  It gets to every file of the batch
  when the reader succeeds on the accepted ones, and then returns.  Whatever happens to
  the panel from script load on, every attachment of every frame handed to the socket
  passed both checks, so a rejected file never appears in an outbound frame.
  \<open>sendMessage\<close> on an open connection with pending files sends one \<open>message\<close> frame whose
  \<open>files\<close> array is the pending list; without a connection it sends nothing; and in both
  cases it clears the pending list.
\<close>

theorem attachments_checked_and_sent_when_connected:
  "state_of (handleFiles fs p)
     = p\<lparr>alerts := alerts p @ map reject_alert (filter (\<lambda>f. \<not> accepted f) (reached fs)),
         pendingFiles := pendingFiles p @ map to_attachment (filter accepted (reached fs))\<rparr>
   \<and> (list_all readable (filter accepted fs) \<longrightarrow>
        reached fs = fs
        \<and> handleFiles fs p
            = Returned (p\<lparr>alerts := alerts p @ map reject_alert (filter (\<lambda>f. \<not> accepted f) fs),
                 pendingFiles := pendingFiles p @ map to_attachment (filter accepted fs)\<rparr>))
   \<and> list_all (\<lambda>fr. list_all valid_attachment (frame_files fr))
        (outbox (panel_run (initial_panel st) evs))
   \<and> (connected p \<and> ws p = Some OPEN \<and> pendingFiles p \<noteq> [] \<longrightarrow>
        outbox (state_of (sendMessage now c p))
          = outbox p @ [MessageFrame (if c \<noteq> [] then c else ''Please analyze this file.'')
                          (currentTab p) (Some (pendingFiles p))])
   \<and> (\<not> connected p \<longrightarrow> outbox (state_of (sendMessage now c p)) = outbox p)
   \<and> pendingFiles (state_of (sendMessage now c p)) = []"
proof (intro conjI impI)
  show "state_of (handleFiles fs p)
     = p\<lparr>alerts := alerts p @ map reject_alert (filter (\<lambda>f. \<not> accepted f) (reached fs)),
         pendingFiles := pendingFiles p @ map to_attachment (filter accepted (reached fs))\<rparr>"
    by (rule handleFiles_reached)
next
  assume "list_all readable (filter accepted fs)"
  then show "reached fs = fs"
    by (rule reached_all)
next
  assume "list_all readable (filter accepted fs)"
  then show "handleFiles fs p
      = Returned (p\<lparr>alerts := alerts p @ map reject_alert (filter (\<lambda>f. \<not> accepted f) fs),
           pendingFiles := pendingFiles p @ map to_attachment (filter accepted fs)\<rparr>)"
    by (rule handleFiles_effect)
next
  show "list_all (\<lambda>fr. list_all valid_attachment (frame_files fr))
        (outbox (panel_run (initial_panel st) evs))"
    using run_files_ok [OF initial_files_ok, of st evs] by (simp add: files_ok_def)
next
  assume "connected p \<and> ws p = Some OPEN \<and> pendingFiles p \<noteq> []"
  then show "outbox (state_of (sendMessage now c p))
          = outbox p @ [MessageFrame (if c \<noteq> [] then c else ''Please analyze this file.'')
                          (currentTab p) (Some (pendingFiles p))]"
    using sendMessage_connected [of p now c] by blast
next
  assume "\<not> connected p"
  then show "outbox (state_of (sendMessage now c p)) = outbox p"
    by (rule sendMessage_disconnected)
next
  show "pendingFiles (state_of (sendMessage now c p)) = []"
    by (rule sendMessage_clears)
qed

theorem attachments_checked_and_sent_when_connected_witness:
  "state_of (handleFiles [pdf12, png2, scan_unreadable, pdf12] (initial_panel None))
       = (initial_panel None)\<lparr>alerts := [too_large_alert pdf12],
                     pendingFiles := [to_attachment png2]\<rparr>
   \<and> list_all readable (filter accepted [pdf12, png2])
   \<and> handleFiles [pdf12, png2] (initial_panel None)
       = Returned ((initial_panel None)\<lparr>alerts := [too_large_alert pdf12],
                     pendingFiles := [to_attachment png2]\<rparr>)
   \<and> connected ((initial_panel None)\<lparr>ws := Some OPEN, connected := True,
          pendingFiles := [to_attachment png2]\<rparr>)
   \<and> outbox (state_of (sendMessage 1733356800000 ''see attached''
          ((initial_panel None)\<lparr>ws := Some OPEN, connected := True,
             pendingFiles := [to_attachment png2]\<rparr>)))
       = [MessageFrame ''see attached'' None (Some [to_attachment png2])]
   \<and> \<not> connected (initial_panel None)
   \<and> outbox (state_of (sendMessage 1733356800000 ''see attached'' (initial_panel None))) = []"
proof -
  let ?open = "(initial_panel None)\<lparr>ws := Some OPEN, connected := True,
          pendingFiles := [to_attachment png2]\<rparr>"
  have which: "filter accepted [pdf12, png2] = [png2]"
      "filter (\<lambda>f. \<not> accepted f) [pdf12, png2] = [pdf12]"
    by (simp_all add: accepted_def pdf12_def png2_def maxSize_def allowedTypes_def)
  have upto: "reached [pdf12, png2, scan_unreadable, pdf12] = [pdf12, png2]"
    by (simp add: reached_def accepted_def readable_def pdf12_def png2_def scan_unreadable_def
        maxSize_def allowedTypes_def)
  have can_read: "list_all readable (filter accepted [pdf12, png2])"
    unfolding which by (simp add: readable_def png2_def)
  have alert: "reject_alert pdf12 = too_large_alert pdf12"
    by (simp add: reject_alert_def pdf12_def maxSize_def)
  have is_open: "connected ?open \<and> ws ?open = Some OPEN \<and> pendingFiles ?open \<noteq> []"
    by simp
  have is_closed: "\<not> connected (initial_panel None)"
    by (simp add: initial_panel_def)
  have empty: "alerts (initial_panel None) = []" "pendingFiles (initial_panel None) = []"
     "outbox (initial_panel None) = []" "currentTab (initial_panel None) = None"
    by (simp_all add: initial_panel_def)
  note stopped = attachments_checked_and_sent_when_connected
      [of "[pdf12, png2, scan_unreadable, pdf12]" "initial_panel None", THEN conjunct1]
  note attach = attachments_checked_and_sent_when_connected
      [of "[pdf12, png2]" "initial_panel None", THEN conjunct2, THEN conjunct1]
  note sent = attachments_checked_and_sent_when_connected
      [of "[]" ?open _ _ 1733356800000 "''see attached''",
       THEN conjunct2, THEN conjunct2, THEN conjunct2, THEN conjunct1]
  note dropped = attachments_checked_and_sent_when_connected
      [of "[]" "initial_panel None" _ _ 1733356800000 "''see attached''",
       THEN conjunct2, THEN conjunct2, THEN conjunct2, THEN conjunct2, THEN conjunct1]
  have z: "state_of (handleFiles [pdf12, png2, scan_unreadable, pdf12] (initial_panel None))
       = (initial_panel None)\<lparr>alerts := [too_large_alert pdf12],
                     pendingFiles := [to_attachment png2]\<rparr>"
    using stopped [unfolded upto which]
    by (simp add: alert empty del: handleFiles.simps)
  have a: "handleFiles [pdf12, png2] (initial_panel None)
       = Returned ((initial_panel None)\<lparr>alerts := [too_large_alert pdf12],
                     pendingFiles := [to_attachment png2]\<rparr>)"
    using attach [unfolded which] can_read [unfolded which]
    by (simp add: alert empty del: handleFiles.simps)
  have b: "outbox (state_of (sendMessage 1733356800000 ''see attached'' ?open))
       = [MessageFrame ''see attached'' None (Some [to_attachment png2])]"
    using sent is_open by (simp add: empty)
  have c: "outbox (state_of (sendMessage 1733356800000 ''see attached'' (initial_panel None))) = []"
    using dropped is_closed by (simp add: empty)
  show ?thesis
    using z can_read a b c is_open is_closed by blast
qed

text \<open>
  The claim as stated fails in two ways.  An accepted file is not sent when the panel is
  not connected at the next send: the 2 MB PNG attached before the socket opens is cleared
  by the first \<open>sendMessage\<close>, which sends nothing, and the frame of the next
  \<open>sendMessage\<close>, after the open, carries no files.  And a file is neither rejected nor
  queued when the reader fails on a file before it in the batch: attached after the
  unreadable JPEG, the 12 MB PDF raises no alert and the 2 MB PNG is not queued.
\<close>

theorem attached_files_lost_before_sending:
  "accepted png2
   \<and> outbox (panel_run (initial_panel None)
        [Connect, Attach [png2], Send 1733356800000 ''see attached'', WsOpen,
         Send 1733356860000 ''hello''])
      = [MessageFrame ''hello'' None None]
   \<and> \<not> accepted pdf12
   \<and> alerts (state_of (handleFiles [scan_unreadable, pdf12, png2] (initial_panel None))) = []
   \<and> pendingFiles (state_of (handleFiles [scan_unreadable, pdf12, png2] (initial_panel None))) = []"
  by (simp add: panel_run_def initial_panel_def connectWebSocket_def png2_def pdf12_def
      scan_unreadable_def accepted_def
      maxSize_def allowedTypes_def sendMessage_def Let_def ws_send_def addMessage_def
      renderMessage_def saveMessages_def showThinkingIndicator_def clearPendingFiles_def
      plain_message_def ws_onopen_effect trim_is_empty_def is_space_def)


section \<open>Context change suppression\<close>

lemma currentContext_after_send:
  "currentContext w \<noteq> None \<Longrightarrow> currentContext (sendContextUpdate c force w) \<noteq> None"
  by (simp add: sendContextUpdate_def Let_def)

lemma watcher_run_keeps_context:
  "currentContext w \<noteq> None \<Longrightarrow> currentContext (watcher_run w evs) \<noteq> None"
  unfolding watcher_run_def
proof (induction evs arbitrary: w)
  case Nil
  then show ?case by simp
next
  case (Cons e evs)
  have "currentContext (watcher_step w e) \<noteq> None"
    using Cons.prems by (cases e) (simp_all add: currentContext_after_send)
  then show ?case using Cons.IH by simp
qed

lemma unforced_emits_at_most_one:
  "same_identity c1 c2 \<Longrightarrow>
   length (emitted (sendContextUpdate c2 False (sendContextUpdate c1 False w)))
     \<le> Suc (length (emitted w))"
  by (auto simp add: sendContextUpdate_def hasContextChanged_def same_identity_def Let_def
        split: option.splits)

lemma ctx_get_opt_prop:
  "ctx_get (opt_prop k v) k' = (if k' = k then map_option PStr v else None)"
  by (simp add: ctx_get_def opt_prop_def split: option.splits)

lemma ctx_get_append:
  "ctx_get (a @ b) k = (case ctx_get a k of Some v \<Rightarrow> Some v | None \<Rightarrow> ctx_get b k)"
  by (simp add: ctx_get_def map_add_def split: option.splits)

lemma ctx_get_Cons: "ctx_get ((k, v) # c) k' = (if k' = k then Some v else ctx_get c k')"
  by (simp add: ctx_get_def)

lemma ctx_get_Nil: "ctx_get [] k = None"
  by (simp add: ctx_get_def)

lemma lead_identity:
  "ctx_get (extractCloseLeadContext m sc) ''leadId''
      = Some (case m of Some lead \<Rightarrow> PStr lead | None \<Rightarrow> PNull)
   \<and> ctx_get (extractCloseLeadContext m sc) ''companyName'' = map_option PStr (sc_companyName sc)"
  by (simp add: extractCloseLeadContext_def ctx_get_opt_prop ctx_get_append ctx_get_Cons ctx_get_Nil split: option.splits)

lemma dialer_identity:
  "ctx_get (extractCloseDialerContext sc) ''leadId'' = None
   \<and> ctx_get (extractCloseDialerContext sc) ''companyName'' = None"
  by (simp add: extractCloseDialerContext_def ctx_get_opt_prop ctx_get_append ctx_get_Cons ctx_get_Nil)

lemma carrier_identity:
  "ctx_get (extractCarrierContext site sc) ''leadId'' = None
   \<and> ctx_get (extractCarrierContext site sc) ''companyName'' = None"
  by (simp add: extractCarrierContext_def ctx_get_opt_prop ctx_get_append ctx_get_Cons ctx_get_Nil)

lemma base_identity:
  "ctx_get (base_context url now @ extra) ''site'' = Some (PStr (fst (detectSite url)))
   \<and> ctx_get (base_context url now @ extra) ''url'' = Some (PStr url)
   \<and> ctx_get (base_context url now @ extra) ''leadId'' = ctx_get extra ''leadId''
   \<and> ctx_get (base_context url now @ extra) ''companyName'' = ctx_get extra ''companyName''"
  by (simp add: base_context_def ctx_get_opt_prop ctx_get_append ctx_get_Cons ctx_get_Nil)

lemma extractContext_shape:
  "extractContext url now sc = Inr c \<Longrightarrow>
   c = base_context url now @
        (if fst (detectSite url) = ''close_lead'' then extractCloseLeadContext (snd (detectSite url)) sc
         else if fst (detectSite url) = ''close_dialer'' then extractCloseDialerContext sc
         else if fst (detectSite url) = ''progressive'' \<or> fst (detectSite url) = ''geico''
                 \<or> fst (detectSite url) = ''bhhc'' \<or> fst (detectSite url) = ''jmwilson''
         then extractCarrierContext (fst (detectSite url)) sc
         else [(''title'', PStr (sc_title sc))])"
  by (auto simp add: extractContext_def Let_def base_context_def split: if_splits)

lemma extract_identity:
  assumes "extractContext url now sc = Inr c"
  shows "ctx_get c ''site'' = Some (PStr (fst (detectSite url)))
     \<and> ctx_get c ''url'' = Some (PStr url)
     \<and> ctx_get c ''leadId''
         = (if fst (detectSite url) = ''close_lead''
            then Some (case snd (detectSite url) of Some lead \<Rightarrow> PStr lead | None \<Rightarrow> PNull) else None)
     \<and> ctx_get c ''companyName''
         = (if fst (detectSite url) = ''close_lead'' then map_option PStr (sc_companyName sc) else None)"
proof -
  define extra where "extra =
        (if fst (detectSite url) = ''close_lead'' then extractCloseLeadContext (snd (detectSite url)) sc
         else if fst (detectSite url) = ''close_dialer'' then extractCloseDialerContext sc
         else if fst (detectSite url) = ''progressive'' \<or> fst (detectSite url) = ''geico''
                 \<or> fst (detectSite url) = ''bhhc'' \<or> fst (detectSite url) = ''jmwilson''
         then extractCarrierContext (fst (detectSite url)) sc
         else [(''title'', PStr (sc_title sc))])"
  have c: "c = base_context url now @ extra"
    unfolding extra_def using extractContext_shape [OF assms] .
  have lead: "ctx_get extra ''leadId''
         = (if fst (detectSite url) = ''close_lead''
            then Some (case snd (detectSite url) of Some lead \<Rightarrow> PStr lead | None \<Rightarrow> PNull) else None)"
    unfolding extra_def
    by (simp add: lead_identity dialer_identity carrier_identity ctx_get_Cons ctx_get_Nil)
  have company: "ctx_get extra ''companyName''
         = (if fst (detectSite url) = ''close_lead'' then map_option PStr (sc_companyName sc) else None)"
    unfolding extra_def
    by (simp add: lead_identity dialer_identity carrier_identity ctx_get_Cons ctx_get_Nil)
  show ?thesis
    unfolding c using base_identity [of url now extra] lead company by simp
qed

lemma extract_same_url:
  assumes "extractContext url n1 s1 = Inr c1" "extractContext url n2 s2 = Inr c2"
    and "sc_companyName s1 = sc_companyName s2"
  shows "same_identity c1 c2"
  using extract_identity [OF assms(1)] extract_identity [OF assms(2)] assms(3)
  by (simp add: same_identity_def)

text \<open>
  C5.  With a previous context \<open>cur\<close> in place (as it is from \<open>startWatching\<close> on), an
  unforced update is emitted exactly when the site differs, the URL differs, or the new
  site is \<open>close_lead\<close> and the \<open>leadId\<close> or the \<open>companyName\<close> differs; it then emits exactly
  one message and otherwise none.  So two consecutive unforced updates whose contexts
  agree on site, URL, \<open>leadId\<close> and \<open>companyName\<close> emit at most one update between them;
  two contexts that \<open>extractContext\<close> builds from the same URL agree on the site and the
  \<open>leadId\<close>, both computed from the URL, so two consecutive extractions on the same URL
  that find the same company name emit at most one; and an extraction on the
  \<open>close_lead\<close> site whose \<open>leadId\<close> differs from the previous context's emits exactly one.
\<close>

theorem context_update_only_on_change:
  "(currentContext w = Some cur \<longrightarrow>
      (emitted (sendContextUpdate c False w) \<noteq> emitted w
         \<longleftrightarrow> (ctx_get cur ''site'' \<noteq> ctx_get c ''site'' \<or> ctx_get cur ''url'' \<noteq> ctx_get c ''url''
              \<or> (ctx_get c ''site'' = Some (PStr ''close_lead'')
                  \<and> (ctx_get cur ''leadId'' \<noteq> ctx_get c ''leadId''
                      \<or> ctx_get cur ''companyName'' \<noteq> ctx_get c ''companyName''))))
      \<and> length (emitted (sendContextUpdate c False w)) \<le> Suc (length (emitted w)))
   \<and> currentContext (watcher_run (startWatching c0 w0) evs) \<noteq> None
   \<and> (same_identity c1 c2 \<longrightarrow>
        length (emitted (sendContextUpdate c2 False (sendContextUpdate c1 False w)))
          \<le> Suc (length (emitted w)))
   \<and> (extractContext url n1 s1 = Inr x1 \<and> extractContext url n2 s2 = Inr x2
        \<and> sc_companyName s1 = sc_companyName s2 \<longrightarrow>
        length (emitted (sendContextUpdate x2 False (sendContextUpdate x1 False w)))
          \<le> Suc (length (emitted w)))
   \<and> (currentContext w = Some cur \<and> ctx_get c ''site'' = Some (PStr ''close_lead'')
        \<and> ctx_get cur ''leadId'' \<noteq> ctx_get c ''leadId'' \<longrightarrow>
        length (emitted (sendContextUpdate c False w)) = Suc (length (emitted w)))"
proof -
  have extracted: "length (emitted (sendContextUpdate x2 False (sendContextUpdate x1 False w)))
          \<le> Suc (length (emitted w))"
    if "extractContext url n1 s1 = Inr x1 \<and> extractContext url n2 s2 = Inr x2
        \<and> sc_companyName s1 = sc_companyName s2"
    using unforced_emits_at_most_one [of x1 x2 w] extract_same_url [of url n1 s1 x1 n2 s2 x2] that
    by blast
  have started: "currentContext (startWatching c0 w0) \<noteq> None"
    by (simp add: startWatching_def sendContextUpdate_def Let_def)
  have one: "currentContext w = Some cur \<longrightarrow>
      (emitted (sendContextUpdate c False w) \<noteq> emitted w
         \<longleftrightarrow> (ctx_get cur ''site'' \<noteq> ctx_get c ''site'' \<or> ctx_get cur ''url'' \<noteq> ctx_get c ''url''
              \<or> (ctx_get c ''site'' = Some (PStr ''close_lead'')
                  \<and> (ctx_get cur ''leadId'' \<noteq> ctx_get c ''leadId''
                      \<or> ctx_get cur ''companyName'' \<noteq> ctx_get c ''companyName''))))
      \<and> length (emitted (sendContextUpdate c False w)) \<le> Suc (length (emitted w))"
    by (auto simp add: sendContextUpdate_def hasContextChanged_def Let_def)
  have lead: "currentContext w = Some cur \<and> ctx_get c ''site'' = Some (PStr ''close_lead'')
        \<and> ctx_get cur ''leadId'' \<noteq> ctx_get c ''leadId'' \<longrightarrow>
        length (emitted (sendContextUpdate c False w)) = Suc (length (emitted w))"
    by (auto simp add: sendContextUpdate_def hasContextChanged_def Let_def)
  show ?thesis
    using one lead watcher_run_keeps_context [OF started, of evs]
      unforced_emits_at_most_one [of c1 c2 w] extracted
    by blast
qed

theorem context_update_only_on_change_witness:
  "currentContext (startWatching (lead_a 1) \<lparr>currentContext = None, emitted = []\<rparr>) = Some (lead_a 1)
   \<and> same_identity (lead_a 2) (lead_a 3)
   \<and> length (emitted (sendContextUpdate (lead_a 3) False (sendContextUpdate (lead_a 2) False
         (startWatching (lead_a 1) \<lparr>currentContext = None, emitted = []\<rparr>)))) \<le> Suc 1
   \<and> ctx_get (lead_b 4) ''site'' = Some (PStr ''close_lead'')
   \<and> ctx_get (lead_a 1) ''leadId'' \<noteq> ctx_get (lead_b 4) ''leadId''
   \<and> length (emitted (sendContextUpdate (lead_b 4) False
         (startWatching (lead_a 1) \<lparr>currentContext = None, emitted = []\<rparr>))) = Suc 1
   \<and> extractContext ''https://app.close.com/lead/lead_abc/'' 2 lead_scrape = Inr (lead_extracted 2)
   \<and> extractContext ''https://app.close.com/lead/lead_abc/'' 3 lead_scrape = Inr (lead_extracted 3)
   \<and> length (emitted (sendContextUpdate (lead_extracted 3) False
         (sendContextUpdate (lead_extracted 2) False
           (startWatching (lead_a 1) \<lparr>currentContext = None, emitted = []\<rparr>)))) \<le> Suc 1"
proof -
  have site_of: "detectSite ''https://app.close.com/lead/lead_abc/'' = (''close_lead'', Some ''lead_abc'')"
    by code_simp
  have x2: "extractContext ''https://app.close.com/lead/lead_abc/'' 2 lead_scrape = Inr (lead_extracted 2)"
    by (simp add: extractContext_def site_of Let_def extractCloseLeadContext_def opt_prop_def
        lead_scrape_def lead_extracted_def)
  have x3: "extractContext ''https://app.close.com/lead/lead_abc/'' 3 lead_scrape = Inr (lead_extracted 3)"
    by (simp add: extractContext_def site_of Let_def extractCloseLeadContext_def opt_prop_def
        lead_scrape_def lead_extracted_def)
  let ?w = "startWatching (lead_a 1) \<lparr>currentContext = None, emitted = []\<rparr>"
  have cur: "currentContext ?w = Some (lead_a 1)"
    by (simp add: startWatching_def sendContextUpdate_def Let_def)
  have len: "length (emitted ?w) = 1"
    by (simp add: startWatching_def sendContextUpdate_def Let_def)
  have same: "same_identity (lead_a 2) (lead_a 3)"
    by (simp add: same_identity_def ctx_get_def lead_a_def)
  have site: "ctx_get (lead_b 4) ''site'' = Some (PStr ''close_lead'')"
    by (simp add: ctx_get_def lead_b_def)
  have differs: "ctx_get (lead_a 1) ''leadId'' \<noteq> ctx_get (lead_b 4) ''leadId''"
    by (simp add: ctx_get_def lead_a_def lead_b_def)
  note dedup = context_update_only_on_change
      [of ?w "lead_a 1" "lead_a 2" _ _ _ "lead_a 2" "lead_a 3",
       THEN conjunct2, THEN conjunct2, THEN conjunct1]
  note changed = context_update_only_on_change
      [of ?w "lead_a 1" "lead_b 4", THEN conjunct2, THEN conjunct2, THEN conjunct2, THEN conjunct2]
  note extracted = context_update_only_on_change
      [where w = ?w and url = "''https://app.close.com/lead/lead_abc/''" and ?n1.0 = 2
         and ?s1.0 = lead_scrape and ?n2.0 = 3 and ?s2.0 = lead_scrape
         and ?x1.0 = "lead_extracted 2" and ?x2.0 = "lead_extracted 3",
       THEN conjunct2, THEN conjunct2, THEN conjunct2, THEN conjunct1]
  have a: "length (emitted (sendContextUpdate (lead_a 3) False (sendContextUpdate (lead_a 2) False ?w)))
        \<le> Suc 1"
    using dedup same len by simp
  have b: "length (emitted (sendContextUpdate (lead_b 4) False ?w)) = Suc 1"
    using changed cur site differs len by simp
  have c: "length (emitted (sendContextUpdate (lead_extracted 3) False
         (sendContextUpdate (lead_extracted 2) False ?w))) \<le> Suc 1"
    using extracted x2 x3 len by simp
  show ?thesis
    by (intro conjI) (fact cur same a site differs b x2 x3 c)+
qed

section \<open>Element resolution\<close>

lemma first_success_wins:
  "list_all (\<lambda>r. r = Inr None) pre \<Longrightarrow> foldr or_else (pre @ Inr (Some n) # post) z = Inr (Some n)"
  by (induction pre) (simp_all add: or_else_def)

lemma all_fail:
  "list_all (\<lambda>r. r = Inr None) rs \<Longrightarrow> foldr or_else rs (Inr None) = Inr None"
  by (induction rs) (simp_all add: or_else_def)

lemma findElement_selector:
  "hint (t_selector t) \<Longrightarrow> findElement d t = querySelector d (the (t_selector t))"
  by (simp add: findElement_def)

lemma findElement_fallbacks:
  "\<not> hint (t_selector t) \<Longrightarrow> findElement d t = foldr or_else (fallback_strategies d t) (Inr None)"
  by (simp add: findElement_def fallback_strategies_def)

lemma findElement_no_selector:
  "\<not> hint (t_selector t) \<Longrightarrow> findElement d t = resolve_first_match d t"
  by (simp add: findElement_fallbacks resolve_first_match_def by_selector_def or_else_def)

lemma toLower_email: "toLowerCase ''Email address'' = ''email address''"
  by code_simp

lemma toLower_email2: "toLowerCase ''Email'' = ''email''"
  by code_simp

lemma inc_email: "includes_str ''email address'' ''email''"
  by code_simp

lemma first_outcome_wins:
  "list_all (\<lambda>r. r = Inr None) pre \<Longrightarrow> r \<noteq> Inr None \<Longrightarrow> foldr or_else (pre @ r # post) z = r"
  by (induction pre) (auto simp add: or_else_def split: sum.splits option.splits)

text \<open>
  What \<open>findElement\<close> does.  A target with a selector hint is resolved by that selector
  alone: the result is what the query returns, found or not, and no other hint is tried.
  Without a selector hint the hints are tried in the fixed order id, name, fieldref,
  label, placeholder, button text: a strategy is tried exactly when every strategy before
  it found nothing, the first strategy that finds an element or throws decides the
  result (a throwing query ends the resolution, the later hints are not tried), and when
  all find nothing the result is not-found.  In particular a target whose id (and name
  and fieldref, if given) matches nothing and whose label matches an element is resolved
  to that element by the label strategy.
\<close>

lemma resolver_tries_hints_in_order:
  "(hint (t_selector t) \<longrightarrow> findElement d t = querySelector d (the (t_selector t)))
   \<and> (\<not> hint (t_selector t) \<longrightarrow> findElement d t = resolve_first_match d t)
   \<and> (\<not> hint (t_selector t) \<and> fallback_strategies d t = pre @ Inr (Some n) # post
        \<and> list_all (\<lambda>r. r = Inr None) pre \<longrightarrow> findElement d t = Inr (Some n))
   \<and> (\<not> hint (t_selector t) \<and> list_all (\<lambda>r. r = Inr None) (fallback_strategies d t)
        \<longrightarrow> findElement d t = Inr None)
   \<and> (\<not> hint (t_selector t) \<and> by_id d t = Inr None \<and> by_name d t = Inr None
        \<and> by_fieldref d t = Inr None \<and> by_label d t = Inr (Some n)
        \<longrightarrow> findElement d t = Inr (Some n))"
proof (intro conjI impI)
  assume "hint (t_selector t)"
  then show "findElement d t = querySelector d (the (t_selector t))"
    by (rule findElement_selector)
next
  assume "\<not> hint (t_selector t)"
  then show "findElement d t = resolve_first_match d t"
    by (rule findElement_no_selector)
next
  assume h: "\<not> hint (t_selector t) \<and> fallback_strategies d t = pre @ Inr (Some n) # post
        \<and> list_all (\<lambda>r. r = Inr None) pre"
  then have "findElement d t = foldr or_else (pre @ Inr (Some n) # post) (Inr None)"
    by (simp add: findElement_fallbacks)
  also have "\<dots> = Inr (Some n)"
    using h first_success_wins [of pre n post "Inr None"] by blast
  finally show "findElement d t = Inr (Some n)" .
next
  assume h: "\<not> hint (t_selector t) \<and> list_all (\<lambda>r. r = Inr None) (fallback_strategies d t)"
  then show "findElement d t = Inr None"
    by (simp add: findElement_fallbacks all_fail)
next
  assume "\<not> hint (t_selector t) \<and> by_id d t = Inr None \<and> by_name d t = Inr None
        \<and> by_fieldref d t = Inr None \<and> by_label d t = Inr (Some n)"
  then show "findElement d t = Inr (Some n)"
    by (simp add: findElement_def or_else_def)
qed

lemma throwing_query_ends_resolution:
  assumes "\<not> hint (t_selector t)" "fallback_strategies d t = pre @ Inl e # post"
    "list_all (\<lambda>r. r = Inr None) pre"
  shows "findElement d t = Inl e"
  using assms first_outcome_wins [of pre "Inl e" post "Inr None"]
  by (simp add: findElement_fallbacks)

lemma resolver_tries_hints_in_order_on_quote_form:
  "\<not> hint (t_selector (no_target\<lparr>t_id := Some ''fullName'', t_label := Some ''Email''\<rparr>))
   \<and> by_id quote_page (no_target\<lparr>t_id := Some ''fullName'', t_label := Some ''Email''\<rparr>) = Inr None
   \<and> by_name quote_page (no_target\<lparr>t_id := Some ''fullName'', t_label := Some ''Email''\<rparr>) = Inr None
   \<and> by_fieldref quote_page (no_target\<lparr>t_id := Some ''fullName'', t_label := Some ''Email''\<rparr>) = Inr None
   \<and> by_label quote_page (no_target\<lparr>t_id := Some ''fullName'', t_label := Some ''Email''\<rparr>) = Inr (Some 2)
   \<and> findElement quote_page (no_target\<lparr>t_id := Some ''fullName'', t_label := Some ''Email''\<rparr>) = Inr (Some 2)
   \<and> hint (t_selector (no_target\<lparr>t_selector := Some ''#email''\<rparr>))
   \<and> findElement quote_page (no_target\<lparr>t_selector := Some ''#email''\<rparr>) = Inr (Some 2)"
proof -
  let ?t = "no_target\<lparr>t_id := Some ''fullName'', t_label := Some ''Email''\<rparr>"
  let ?s = "no_target\<lparr>t_selector := Some ''#email''\<rparr>"
  have h: "\<not> hint (t_selector ?t)" "by_id quote_page ?t = Inr None" "by_name quote_page ?t = Inr None"
      "by_fieldref quote_page ?t = Inr None"
    by (simp_all add: no_target_def by_id_def by_name_def by_fieldref_def quote_page_def)
  have l: "by_label quote_page ?t = Inr (Some 2)"
    by (simp add: by_label_def findByLabel_def quote_page_def no_target_def blank_element_def
        toLower_email toLower_email2 inc_email Let_def)
  have hs: "hint (t_selector ?s)"
    by (simp add: no_target_def)
  have q: "querySelector quote_page (the (t_selector ?s)) = Inr (Some 2)"
    by (simp add: no_target_def quote_page_def)
  have a: "findElement quote_page ?t = Inr (Some 2)"
    using resolver_tries_hints_in_order [of ?t quote_page _ 2, THEN conjunct2, THEN conjunct2,
        THEN conjunct2, THEN conjunct2] h l by blast
  have b: "findElement quote_page ?s = Inr (Some 2)"
    using resolver_tries_hints_in_order [of ?s quote_page, THEN conjunct1] hs q by simp
  show ?thesis
    by (intro conjI) (fact h l a hs b)+
qed

text \<open>
  C3.  The claim asks that \<open>findElement\<close> try the hints of a target in a fixed priority
  order, selector first, a later strategy being attempted whenever every earlier one found
  nothing, as the function's own header comment announces and as the branches for id,
  name, fieldref, label, placeholder and button text do (\<open>if (el) return el\<close>).  The
  selector branch instead returns the result of its query as it is.  On the quote form
  the target \<open>{selector: '#missing', id: 'email'}\<close> has a selector that matches nothing
  and an id that is the id of the email input: \<open>findElement\<close> returns not-found, and the
  id is never looked up, where trying the strategies in order finds the input.
\<close>

theorem failing_selector_hides_matching_id:
  "hint (t_id (no_target\<lparr>t_selector := Some ''#missing'', t_id := Some ''email''\<rparr>))
   \<and> by_selector quote_page (no_target\<lparr>t_selector := Some ''#missing'', t_id := Some ''email''\<rparr>) = Inr None
   \<and> by_id quote_page (no_target\<lparr>t_selector := Some ''#missing'', t_id := Some ''email''\<rparr>) = Inr (Some 2)
   \<and> findElement quote_page (no_target\<lparr>t_selector := Some ''#missing'', t_id := Some ''email''\<rparr>) = Inr None
   \<and> resolve_first_match quote_page (no_target\<lparr>t_selector := Some ''#missing'', t_id := Some ''email''\<rparr>)
       = Inr (Some 2)"
  by (simp add: findElement_def resolve_first_match_def fallback_strategies_def by_selector_def
      by_id_def or_else_def quote_page_def no_target_def)


section \<open>Fill\<close>

lemma log_call_value: "e_value (elems (log_call n ev d) m) = e_value (elems d m)"
  by (simp add: log_call_def)

lemma log_call_tag: "tagName (elems (log_call n ev d) m) = tagName (elems d m)"
  by (simp add: log_call_def)

lemma log_call_log:
  "e_log (elems (log_call n ev d) m) = (if m = n then e_log (elems d m) @ [ev] else e_log (elems d m))"
  by (simp add: log_call_def)

lemma set_value_log: "e_log (elems (set_value n v d) m) = e_log (elems d m)"
  by (simp add: set_value_def)

lemma set_value_value: "e_value (elems (set_value n v d) n) = Some v"
  by (simp add: set_value_def)

lemma log_call_sanitize [simp]: "e_sanitize (elems (log_call n ev d) m) = e_sanitize (elems d m)"
  by (simp add: log_call_def)

lemma quote_page_email_stored:
  "e_sanitize (elems quote_page 2) ''ops@ldj.example'' = Inr ''ops@ldj.example''"
  by (simp add: quote_page_def blank_element_def text_input_def)

text \<open>
  The content script's \<open>fillField\<close> does what the claim says for a target that resolves to
  an input or a textarea whose native setter accepts the string: what the element's type
  makes of the string is stored (the string itself where the type leaves it as it is),
  then \<open>input\<close>, \<open>change\<close> and \<open>blur\<close> are dispatched in this order, and the result
  carries the element descriptor.
\<close>

lemma content_fill_sets_value_and_notifies:
  assumes found: "findElement d t = Inr (Some el)"
    and control: "tagName (elems d el) = ''INPUT'' \<or> tagName (elems d el) = ''TEXTAREA''"
    and stored: "e_sanitize (elems d el) v = Inr s"
  shows "\<exists>d'. fillField t v d = PReturned (success (describeElement d' el)) d'
           \<and> e_value (elems d' el) = Some s
           \<and> e_log (elems d' el) = e_log (elems d el) @ [''focus'', ''input'', ''change'', ''blur'']"
  using assms
  by (auto simp add: fillField_def Let_def nativeSetter_def log_call_tag log_call_value
        log_call_log set_value_log set_value_value)

text \<open>
  C4.  The claim asks of every code path that implements fill that the value be set,
  that \<open>input\<close>, \<open>change\<close> and \<open>blur\<close> be dispatched after the assignment, and that the
  success result report the element descriptor.  The service worker's \<open>fillField\<close>, the
  path a \<open>browser_action\<close> frame with action \<open>fill\<close> takes, sets the value and dispatches
  \<open>input\<close> and \<open>change\<close> only, and returns \<open>{success: true}\<close> with no descriptor; the
  content script's \<open>fillField\<close> on the same page and element dispatches \<open>blur\<close> as well and
  returns the descriptor.
\<close>

theorem service_worker_fill_skips_blur_and_descriptor:
  "fst (executeBrowserAction quote_env fill_action) = success NoPayload
   \<and> e_value (elems (snd (executeBrowserAction quote_env fill_action)) 2) = Some ''ops@ldj.example''
   \<and> e_log (elems (snd (executeBrowserAction quote_env fill_action)) 2) = [''input'', ''change'']
   \<and> fillField (no_target\<lparr>t_selector := Some ''#email''\<rparr>) ''ops@ldj.example'' quote_page
       = PReturned (success (ElementPayload ''input'' ''email'' (Some ''email'') []))
           (log_call 2 ''blur'' (log_call 2 ''change'' (log_call 2 ''input''
              (set_value 2 ''ops@ldj.example'' (log_call 2 ''focus'' quote_page)))))
   \<and> e_log (elems (log_call 2 ''blur'' (log_call 2 ''change'' (log_call 2 ''input''
              (set_value 2 ''ops@ldj.example'' (log_call 2 ''focus'' quote_page))))) 2)
       = [''focus'', ''input'', ''change'', ''blur'']"
proof -
  have q: "querySelector quote_page ''#email'' = Inr (Some 2)"
    by (simp add: quote_page_def)
  have tag: "tagName (elems quote_page 2) = ''INPUT''"
    by (simp add: quote_page_def blank_element_def)
  have lg: "e_log (elems quote_page 2) = []"
    by (simp add: quote_page_def blank_element_def)
  have sw: "executeBrowserAction quote_env fill_action
      = (success NoPayload, log_call 2 ''change'' (log_call 2 ''input''
           (set_value 2 ''ops@ldj.example'' quote_page)))"
    by (simp add: executeBrowserAction_def action_switch_def fill_action_def sw_fillField_def
        inject_in_active_tab_def executeScript_def quote_env_def sw_fill_func_def q
        nativeSetter_def tag quote_page_email_stored)
  have lower: "toLowerCase ''INPUT'' = ''input''"
    by code_simp
  have idn: "e_id (elems quote_page 2) = ''email''" "e_name (elems quote_page 2) = Some ''email''"
      "textContent (elems quote_page 2) = []"
    by (simp_all add: quote_page_def blank_element_def)
  have cs: "fillField (no_target\<lparr>t_selector := Some ''#email''\<rparr>) ''ops@ldj.example'' quote_page
       = PReturned (success (ElementPayload ''input'' ''email'' (Some ''email'') []))
           (log_call 2 ''blur'' (log_call 2 ''change'' (log_call 2 ''input''
              (set_value 2 ''ops@ldj.example'' (log_call 2 ''focus'' quote_page)))))"
    by (simp add: fillField_def findElement_def no_target_def q Let_def nativeSetter_def
        log_call_tag tag describeElement_def lower quote_page_email_stored)
       (simp add: log_call_def set_value_def idn tag lower)
  show ?thesis
    unfolding sw cs
    by (simp add: log_call_log set_value_log set_value_value log_call_value lg)
qed

section \<open>Radio selection\<close>

lemma group_loop_ignores_non_yes:
  "\<not> isYes v \<Longrightarrow> group_loop d v g = group_loop d (JBool False) g"
  by (induction g) (simp_all add: isYes_def split: sum.splits)

lemma radio_loop_ignores_non_yes:
  "\<not> isYes v \<Longrightarrow> radio_loop d st v rs = radio_loop d st (JBool False) rs"
  by (induction rs) (simp_all add: group_loop_ignores_non_yes split: sum.splits option.splits)

lemma group_loop_picks:
  "group_loop d v g = Inr (Some n) \<Longrightarrow>
   n \<in> set g \<and> (\<exists>rLabel. radio_label_text d n = Inr rLabel
       \<and> ((isYes v \<and> matchesYes rLabel (radio_parent_text d n))
            \<or> (\<not> isYes v \<and> matchesNo rLabel (radio_parent_text d n))))"
proof (induction g)
  case Nil
  then show ?case by simp
next
  case (Cons r rs)
  then show ?case
    by (cases "radio_label_text d r") (auto simp add: Let_def split: if_splits)
qed

lemma radio_loop_picks:
  "radio_loop d st v rs = Inr (Some n) \<Longrightarrow>
   \<exists>radio labelText g. radio \<in> set rs \<and> radio_label_text d radio = Inr labelText
      \<and> (includes_str labelText st \<or> includes_str (radio_parent_text d radio) st)
      \<and> group_of d radio = Inr g \<and> group_loop d v g = Inr (Some n)"
proof (induction rs)
  case Nil
  then show ?case by simp
next
  case (Cons r rs)
  show ?case
  proof (cases "radio_label_text d r")
    case (Inl e)
    then show ?thesis using Cons.prems by simp
  next
    case (Inr labelText)
    show ?thesis
    proof (cases "includes_str labelText st \<or> includes_str (radio_parent_text d r) st")
      case False
      then have "radio_loop d st v rs = Inr (Some n)"
        using Cons.prems Inr by simp
      then show ?thesis using Cons.IH by auto
    next
      case True
      show ?thesis
      proof (cases "group_of d r")
        case (Inl e)
        then show ?thesis using Cons.prems Inr True by (simp add: group_of_def)
      next
        case grp: (Inr g)
        show ?thesis
        proof (cases "group_loop d v g = Inr (Some n)")
          case True
          then show ?thesis using Inr \<open>includes_str labelText st \<or> _\<close> grp by auto
        next
          case False
          then have "radio_loop d st v rs = Inr (Some n)"
            using Cons.prems Inr True grp
            by (auto simp add: group_of_def split: sum.splits option.splits)
          then show ?thesis using Cons.IH by auto
        qed
      qed
    qed
  qed
qed

lemma names_group_code:
  "names_group d st r =
     (case radio_label_text d r of
        Inl e \<Rightarrow> False
      | Inr l \<Rightarrow> includes_str l st \<or> includes_str (radio_parent_text d r) st)"
  by (simp add: names_group_def text_holds_def radio_label_text_def radio_parent_text_def
      split: sum.splits option.splits)

lemma names_other_code:
  "names_other d st r =
     (case radio_label_text d r of
        Inl e \<Rightarrow> False
      | Inr l \<Rightarrow> \<not> (includes_str l st \<or> includes_str (radio_parent_text d r) st))"
  by (simp add: names_other_def text_lacks_def radio_label_text_def radio_parent_text_def
      split: sum.splits option.splits)

lemma says_no_code:
  "says_no d r =
     (case radio_label_text d r of Inl e \<Rightarrow> False | Inr l \<Rightarrow> matchesNo l (radio_parent_text d r))"
  by (simp add: says_no_def text_holds_def radio_label_text_def radio_parent_text_def matchesNo_def
      split: sum.splits option.splits)

lemma says_other_code:
  "says_other d r =
     (case radio_label_text d r of Inl e \<Rightarrow> False | Inr l \<Rightarrow> \<not> matchesNo l (radio_parent_text d r))"
  by (simp add: says_other_def text_lacks_def radio_label_text_def radio_parent_text_def matchesNo_def
      split: sum.splits option.splits)

lemma group_loop_first_no:
  "\<not> isYes v \<Longrightarrow> list_all (says_other d) gpre \<Longrightarrow> says_no d n \<Longrightarrow>
   group_loop d v (gpre @ n # gpost) = Inr (Some n)"
  by (induction gpre) (auto simp add: says_other_code says_no_code Let_def split: sum.splits)

lemma radio_loop_first_group:
  "list_all (names_other d st) pre \<Longrightarrow> names_group d st radio \<Longrightarrow> group_of d radio = Inr g \<Longrightarrow>
   group_loop d v g = Inr (Some n) \<Longrightarrow>
   radio_loop d st v (pre @ radio # post) = Inr (Some n)"
  by (induction pre)
     (auto simp add: names_other_code names_group_code group_of_def split: sum.splits)

text \<open>
  C9.  \<open>selectRadio\<close> takes the requested value as Yes exactly when it is the boolean
  \<open>true\<close> or one of the strings \<open>yes\<close> and \<open>true\<close> in lower case; \<open>Yes\<close>, \<open>True\<close>, the number 1
  and any other value are not Yes.  For every value that is not Yes the call behaves as
  for \<open>false\<close>: when it succeeds it reports \<open>No\<close> and has clicked (and dispatched \<open>change\<close>
  on) a member of the group of a radio whose texts hold the search text, a member whose
  own texts hold \<open>no\<close>; and when the first radio naming the group has a group whose first
  member saying \<open>no\<close> is \<open>n\<close>, it is \<open>n\<close> that is clicked.  The texts of a radio are the text
  of the label that \<open>label[for="<id>"]\<close> finds for it and the text of its parent, in lower
  case.
\<close>

theorem selectRadio_treats_other_values_as_no:
  "(isYes v \<longleftrightarrow> v = JBool True \<or> v = JStr ''yes'' \<or> v = JStr ''true'')
   \<and> \<not> isYes (JStr ''Yes'') \<and> \<not> isYes (JStr ''True'') \<and> \<not> isYes (JNum 1)
   \<and> \<not> isYes (JStr ''1'') \<and> \<not> isYes (JObj [])
   \<and> (\<not> isYes v \<longrightarrow> selectRadio t v d = selectRadio t (JBool False) d)
   \<and> (\<not> isYes v \<and> selectRadio t v d = PReturned r d' \<and> r_success r = Some True \<longrightarrow>
        r = success (SelectedPayload ''No'')
        \<and> (\<exists>st radios radio g n. radio_searchText t = Inr st
              \<and> querySelectorAll d ''input[type=\"radio\"]'' = Inr radios
              \<and> radio \<in> set radios \<and> names_group d st radio \<and> group_of d radio = Inr g
              \<and> n \<in> set g \<and> says_no d n
              \<and> d' = log_call n ''change'' (log_call n ''click'' d)))
   \<and> (\<not> isYes v \<and> radio_searchText t = Inr st
        \<and> querySelectorAll d ''input[type=\"radio\"]'' = Inr (pre @ radio # post)
        \<and> list_all (names_other d st) pre \<and> names_group d st radio
        \<and> group_of d radio = Inr (gpre @ n # gpost)
        \<and> list_all (says_other d) gpre \<and> says_no d n \<longrightarrow>
        selectRadio t v d = PReturned (success (SelectedPayload ''No''))
                              (log_call n ''change'' (log_call n ''click'' d)))"
proof (intro conjI impI)
  show "isYes v \<longleftrightarrow> v = JBool True \<or> v = JStr ''yes'' \<or> v = JStr ''true''"
    by (simp add: isYes_def)
  show "\<not> isYes (JStr ''Yes'')" "\<not> isYes (JStr ''True'')" "\<not> isYes (JNum 1)"
      "\<not> isYes (JStr ''1'')" "\<not> isYes (JObj [])"
    by (simp_all add: isYes_def)
next
  assume ny: "\<not> isYes v"
  have a: "radio_loop d st v rs = radio_loop d st (JBool False) rs" for st rs
    using radio_loop_ignores_non_yes [OF ny] .
  have b: "isYes v = isYes (JBool False)"
    using ny by (simp add: isYes_def)
  show "selectRadio t v d = selectRadio t (JBool False) d"
    by (simp only: selectRadio_def a b)
next
  assume h: "\<not> isYes v \<and> selectRadio t v d = PReturned r d' \<and> r_success r = Some True"
  then have ret: "selectRadio t v d = PReturned r d'" and ok: "r_success r = Some True"
      and ny: "\<not> isYes v"
    by simp_all
  obtain st where st: "radio_searchText t = Inr st"
    using ret by (cases "radio_searchText t") (simp_all add: selectRadio_def)
  obtain radios where radios: "querySelectorAll d ''input[type=\"radio\"]'' = Inr radios"
    using ret st by (cases "querySelectorAll d ''input[type=\"radio\"]''") (simp_all add: selectRadio_def)
  have fin: "selectRadio t v d =
      (case radio_loop d st v radios of
         Inl e \<Rightarrow> PThrew e d
       | Inr (Some r) \<Rightarrow>
           PReturned (success (SelectedPayload (if isYes v then ''Yes'' else ''No'')))
             (log_call r ''change'' (log_call r ''click'' d))
       | Inr None \<Rightarrow> PReturned (failure ''Radio button not found'') d)"
    by (simp add: selectRadio_def st radios)
  obtain n where loop: "radio_loop d st v radios = Inr (Some n)"
    using ret ok unfolding fin
    by (cases "radio_loop d st v radios") (auto simp add: failure_def split: option.splits)
  show "r = success (SelectedPayload ''No'')"
    using ret ny unfolding fin loop by simp
next
  assume h: "\<not> isYes v \<and> selectRadio t v d = PReturned r d' \<and> r_success r = Some True"
  then have ret: "selectRadio t v d = PReturned r d'" and ok: "r_success r = Some True"
      and ny: "\<not> isYes v"
    by simp_all
  obtain st where st: "radio_searchText t = Inr st"
    using ret by (cases "radio_searchText t") (simp_all add: selectRadio_def)
  obtain radios where radios: "querySelectorAll d ''input[type=\"radio\"]'' = Inr radios"
    using ret st by (cases "querySelectorAll d ''input[type=\"radio\"]''") (simp_all add: selectRadio_def)
  have fin: "selectRadio t v d =
      (case radio_loop d st v radios of
         Inl e \<Rightarrow> PThrew e d
       | Inr (Some r) \<Rightarrow>
           PReturned (success (SelectedPayload (if isYes v then ''Yes'' else ''No'')))
             (log_call r ''change'' (log_call r ''click'' d))
       | Inr None \<Rightarrow> PReturned (failure ''Radio button not found'') d)"
    by (simp add: selectRadio_def st radios)
  obtain n where loop: "radio_loop d st v radios = Inr (Some n)"
    using ret ok unfolding fin
    by (cases "radio_loop d st v radios") (auto simp add: failure_def split: option.splits)
  have d': "d' = log_call n ''change'' (log_call n ''click'' d)"
    using ret unfolding fin loop by simp
  from radio_loop_picks [OF loop] obtain radio labelText g
    where radio: "radio \<in> set radios" "radio_label_text d radio = Inr labelText"
      "includes_str labelText st \<or> includes_str (radio_parent_text d radio) st"
      "group_of d radio = Inr g" "group_loop d v g = Inr (Some n)"
    by blast
  from group_loop_picks [OF radio(5)] ny obtain rLabel
    where n: "n \<in> set g" "radio_label_text d n = Inr rLabel" "matchesNo rLabel (radio_parent_text d n)"
    by blast
  have "names_group d st radio"
    using radio(2,3) by (simp add: names_group_code)
  moreover have "says_no d n"
    using n(2,3) by (simp add: says_no_code)
  ultimately show "\<exists>st radios radio g n. radio_searchText t = Inr st
              \<and> querySelectorAll d ''input[type=\"radio\"]'' = Inr radios
              \<and> radio \<in> set radios \<and> names_group d st radio \<and> group_of d radio = Inr g
              \<and> n \<in> set g \<and> says_no d n
              \<and> d' = log_call n ''change'' (log_call n ''click'' d)"
    using st radios radio(1,4) n(1) d' by blast
next
  assume h: "\<not> isYes v \<and> radio_searchText t = Inr st
        \<and> querySelectorAll d ''input[type=\"radio\"]'' = Inr (pre @ radio # post)
        \<and> list_all (names_other d st) pre \<and> names_group d st radio
        \<and> group_of d radio = Inr (gpre @ n # gpost)
        \<and> list_all (says_other d) gpre \<and> says_no d n"
  then have ny: "\<not> isYes v" and st: "radio_searchText t = Inr st"
      and radios: "querySelectorAll d ''input[type=\"radio\"]'' = Inr (pre @ radio # post)"
      and pre: "list_all (names_other d st) pre" and radio: "names_group d st radio"
      and grp: "group_of d radio = Inr (gpre @ n # gpost)"
      and gpre: "list_all (says_other d) gpre" and n: "says_no d n"
    by simp_all
  have g: "group_loop d v (gpre @ n # gpost) = Inr (Some n)"
    using group_loop_first_no [OF ny gpre n] .
  have loop: "radio_loop d st v (pre @ radio # post) = Inr (Some n)"
    using radio_loop_first_group [OF pre radio grp g] .
  show "selectRadio t v d = PReturned (success (SelectedPayload ''No''))
                              (log_call n ''change'' (log_call n ''click'' d))"
    using ny by (simp add: selectRadio_def st radios loop)
qed

theorem selectRadio_treats_other_values_as_no_witness:
  "\<not> isYes (JStr ''Yes'')
   \<and> radio_searchText (RStr ''Hazmat'') = Inr ''hazmat''
   \<and> querySelector labelled_page ''label[for=\"hz_y\"]'' = Inr (Some 10)
   \<and> textContent (elems labelled_page 10) = ''Hazmat: Yes''
   \<and> querySelector labelled_page ''label[for=\"hz_n\"]'' = Inr (Some 12)
   \<and> textContent (elems labelled_page 12) = ''Hazmat: No''
   \<and> parentText (elems labelled_page 11) = Some []
   \<and> parentText (elems labelled_page 13) = Some []
   \<and> querySelectorAll labelled_page ''input[type=\"radio\"]'' = Inr ([] @ 11 # [13])
   \<and> list_all (names_other labelled_page ''hazmat'') []
   \<and> names_group labelled_page ''hazmat'' 11
   \<and> group_of labelled_page 11 = Inr ([11] @ 13 # [])
   \<and> list_all (says_other labelled_page) [11]
   \<and> says_no labelled_page 13
   \<and> selectRadio (RStr ''Hazmat'') (JStr ''Yes'') labelled_page
       = PReturned (success (SelectedPayload ''No''))
           (log_call 13 ''change'' (log_call 13 ''click'' labelled_page))
   \<and> querySelector quote_page ''label[for=\"hz_n\"]'' = Inr None
   \<and> parentText (elems quote_page 13) = Some ''Hazmat: No''
   \<and> querySelectorAll quote_page ''input[type=\"radio\"]'' = Inr ([] @ 11 # [13])
   \<and> list_all (names_other quote_page ''hazmat'') []
   \<and> names_group quote_page ''hazmat'' 11
   \<and> group_of quote_page 11 = Inr ([11] @ 13 # [])
   \<and> list_all (says_other quote_page) [11]
   \<and> says_no quote_page 13
   \<and> selectRadio (RStr ''Hazmat'') (JStr ''Yes'') quote_page
       = PReturned (success (SelectedPayload ''No''))
           (log_call 13 ''change'' (log_call 13 ''click'' quote_page))"
proof -
  have ny: "\<not> isYes (JStr ''Yes'')"
    by (simp add: isYes_def)
  have st: "radio_searchText (RStr ''Hazmat'') = Inr ''hazmat''"
    by code_simp
  have labels: "querySelector labelled_page ''label[for=\"hz_y\"]'' = Inr (Some 10)"
      "textContent (elems labelled_page 10) = ''Hazmat: Yes''"
      "querySelector labelled_page ''label[for=\"hz_n\"]'' = Inr (Some 12)"
      "textContent (elems labelled_page 12) = ''Hazmat: No''"
      "parentText (elems labelled_page 11) = Some []"
      "parentText (elems labelled_page 13) = Some []"
    by (simp_all add: labelled_page_def blank_element_def)
  have radios: "querySelectorAll labelled_page ''input[type=\"radio\"]'' = Inr ([] @ 11 # [13])"
    by (simp add: labelled_page_def)
  have pre: "list_all (names_other labelled_page ''hazmat'') []"
    by simp
  have radio: "names_group labelled_page ''hazmat'' 11"
    by code_simp
  have grp: "group_of labelled_page 11 = Inr ([11] @ 13 # [])"
    by code_simp
  have gpre: "list_all (says_other labelled_page) [11]"
    by code_simp
  have n: "says_no labelled_page 13"
    by code_simp
  have by_label: "selectRadio (RStr ''Hazmat'') (JStr ''Yes'') labelled_page
       = PReturned (success (SelectedPayload ''No''))
           (log_call 13 ''change'' (log_call 13 ''click'' labelled_page))"
    using selectRadio_treats_other_values_as_no
        [of "JStr ''Yes''" "RStr ''Hazmat''" labelled_page _ _ "''hazmat''" "[]" 11 "[13]" "[11]" 13 "[]",
         THEN conjunct2, THEN conjunct2, THEN conjunct2, THEN conjunct2, THEN conjunct2,
         THEN conjunct2, THEN conjunct2, THEN conjunct2]
      ny st radios pre radio grp gpre n
    by blast
  have parents: "querySelector quote_page ''label[for=\"hz_n\"]'' = Inr None"
      "parentText (elems quote_page 13) = Some ''Hazmat: No''"
    by (simp_all add: quote_page_def blank_element_def)
  have radios': "querySelectorAll quote_page ''input[type=\"radio\"]'' = Inr ([] @ 11 # [13])"
    by (simp add: quote_page_def)
  have pre': "list_all (names_other quote_page ''hazmat'') []"
    by simp
  have radio': "names_group quote_page ''hazmat'' 11"
    by code_simp
  have grp': "group_of quote_page 11 = Inr ([11] @ 13 # [])"
    by code_simp
  have gpre': "list_all (says_other quote_page) [11]"
    by code_simp
  have n': "says_no quote_page 13"
    by code_simp
  have by_parent: "selectRadio (RStr ''Hazmat'') (JStr ''Yes'') quote_page
       = PReturned (success (SelectedPayload ''No''))
           (log_call 13 ''change'' (log_call 13 ''click'' quote_page))"
    using selectRadio_treats_other_values_as_no
        [of "JStr ''Yes''" "RStr ''Hazmat''" quote_page _ _ "''hazmat''" "[]" 11 "[13]" "[11]" 13 "[]",
         THEN conjunct2, THEN conjunct2, THEN conjunct2, THEN conjunct2, THEN conjunct2,
         THEN conjunct2, THEN conjunct2, THEN conjunct2]
      ny st radios' pre' radio' grp' gpre' n'
    by blast
  show ?thesis
    by (intro conjI)
       (fact ny st labels radios pre radio grp gpre n by_label parents radios' pre' radio' grp'
          gpre' n' by_parent)+
qed

section \<open>Browser actions and their results\<close>

lemma is_failure_failure: "is_failure (failure msg)"
  by (simp add: is_failure_def failure_def)

lemma switch_injecting:
  "action_tag a \<in> set injecting_actions \<Longrightarrow>
   action_switch env a = inject_in_active_tab env (injected_func a)"
  by (auto simp add: injecting_actions_def action_switch_def injected_func_def sw_clickElement_def
        sw_fillField_def sw_selectOption_def clickRadio_def fillSearch_def)

lemma switch_unknown:
  "action_tag a \<notin> set known_actions \<Longrightarrow>
   action_switch env a = PReturned (failure (''Unknown action: '' @ action_tag a)) (page env)"
  by (simp add: known_actions_def action_switch_def)

lemma switch_no_tab:
  "action_tag a \<in> set tab_actions \<Longrightarrow> tabs_query env = Inr None \<Longrightarrow>
   action_switch env a = PReturned (failure ''No active tab'') (page env)"
  by (auto simp add: tab_actions_def action_switch_def navigateToUrl_def getTabState_def
        executeInTab_def sw_clickElement_def sw_fillField_def sw_getPageState_def
        sw_selectOption_def clickRadio_def fillSearch_def inject_in_active_tab_def)

lemma inject_result:
  "tabs_query env = Inr (Some tb) \<Longrightarrow> inject_in_active_tab env func = PReturned r d \<Longrightarrow>
   is_failure r \<or> (inject_error env = None \<and> \<not> inject_empty env \<and> func (page env) = PReturned r d)"
  by (auto simp add: inject_in_active_tab_def executeScript_def is_failure_failure
        split: option.splits page_outcome.splits if_splits)

lemma callback_open:
  "ws p = Some OPEN \<Longrightarrow>
   outbox (browser_action_callback a resp p)
     = outbox p @ [BrowserActionResult (actionId a) (case resp of Some r \<Rightarrow> r | None \<Rightarrow> no_response)]"
  by (simp add: browser_action_callback_def no_response_def split: option.splits)

lemma callback_not_open:
  "ws p \<noteq> Some OPEN \<Longrightarrow> outbox (browser_action_callback a resp p) = outbox p"
  by (simp add: browser_action_callback_def)

lemma not_found_click_fill:
  assumes "action_tag a = ''click'' \<or> action_tag a = ''fill''"
    and "tabs_query env = Inr (Some tb)" "inject_error env = None" "\<not> inject_empty env"
    and "querySelector (page env) (p_selector a) = Inr None"
  shows "action_switch env a = PReturned (failure ''Element not found'') (page env)"
  using assms
  by (auto simp add: action_switch_def sw_clickElement_def sw_fillField_def
        inject_in_active_tab_def executeScript_def sw_click_func_def sw_fill_func_def)

lemma quote_fill_runs:
  "executeBrowserAction quote_env fill_action
      = (success NoPayload, log_call 2 ''change'' (log_call 2 ''input''
           (set_value 2 ''ops@ldj.example'' quote_page)))"
  by (simp add: executeBrowserAction_def action_switch_def fill_action_def sw_fillField_def
      inject_in_active_tab_def executeScript_def quote_env_def sw_fill_func_def
      quote_page_def nativeSetter_def blank_element_def text_input_def)

text \<open>
  C2, as the code has it.  The callback of a forwarded \<open>browser_action\<close> sends exactly one
  \<open>browser_action_result\<close> frame carrying the action's id when the socket is open at that
  moment (with the service worker's result, or with \<open>{error: 'No response from service
  worker'}\<close> when no response arrived), and sends nothing when the socket is not open.
  \<open>executeBrowserAction\<close> itself never throws: an unknown action tag, a missing active
  tab, and whatever the switch throws each come back as \<open>{success: false, error}\<close>; a
  click or fill whose selector matches nothing comes back as \<open>Element not found\<close>; and for
  the actions that inject a function into the page, the result is either a failure
  envelope or exactly what the function returned after running to its end.
\<close>

theorem browser_action_answered_when_socket_open:
  "(ws p = Some OPEN \<longrightarrow>
      outbox (browser_action_roundtrip env True a p)
        = outbox p @ [BrowserActionResult (actionId a) (fst (executeBrowserAction env a))])
   \<and> (ws p = Some OPEN \<longrightarrow>
      outbox (browser_action_roundtrip env False a p)
        = outbox p @ [BrowserActionResult (actionId a) no_response])
   \<and> (ws p \<noteq> Some OPEN \<longrightarrow> outbox (browser_action_roundtrip env delivered a p) = outbox p)
   \<and> (action_tag a \<notin> set known_actions \<longrightarrow>
      fst (executeBrowserAction env a) = failure (''Unknown action: '' @ action_tag a))
   \<and> (action_tag a \<in> set tab_actions \<and> tabs_query env = Inr None \<longrightarrow>
      fst (executeBrowserAction env a) = failure ''No active tab'')
   \<and> (action_switch env a = PThrew e d \<longrightarrow> executeBrowserAction env a = (failure e, d))
   \<and> ((action_tag a = ''click'' \<or> action_tag a = ''fill'') \<and> tabs_query env = Inr (Some tb)
        \<and> inject_error env = None \<and> \<not> inject_empty env
        \<and> querySelector (page env) (p_selector a) = Inr None \<longrightarrow>
      fst (executeBrowserAction env a) = failure ''Element not found'')
   \<and> (action_tag a \<in> set injecting_actions \<and> tabs_query env = Inr (Some tb) \<longrightarrow>
      is_failure (fst (executeBrowserAction env a))
      \<or> (inject_error env = None \<and> \<not> inject_empty env
          \<and> injected_func a (page env)
               = PReturned (fst (executeBrowserAction env a)) (snd (executeBrowserAction env a))))"
proof (intro conjI impI)
  assume "ws p = Some OPEN"
  then show "outbox (browser_action_roundtrip env True a p)
        = outbox p @ [BrowserActionResult (actionId a) (fst (executeBrowserAction env a))]"
    by (simp add: browser_action_roundtrip_def callback_open)
next
  assume "ws p = Some OPEN"
  then show "outbox (browser_action_roundtrip env False a p)
        = outbox p @ [BrowserActionResult (actionId a) no_response]"
    by (simp add: browser_action_roundtrip_def callback_open)
next
  assume "ws p \<noteq> Some OPEN"
  then show "outbox (browser_action_roundtrip env delivered a p) = outbox p"
    by (simp add: browser_action_roundtrip_def callback_not_open)
next
  assume "action_tag a \<notin> set known_actions"
  then show "fst (executeBrowserAction env a) = failure (''Unknown action: '' @ action_tag a)"
    by (simp add: executeBrowserAction_def switch_unknown)
next
  assume "action_tag a \<in> set tab_actions \<and> tabs_query env = Inr None"
  then show "fst (executeBrowserAction env a) = failure ''No active tab''"
    by (simp add: executeBrowserAction_def switch_no_tab)
next
  assume "action_switch env a = PThrew e d"
  then show "executeBrowserAction env a = (failure e, d)"
    by (simp add: executeBrowserAction_def)
next
  assume "(action_tag a = ''click'' \<or> action_tag a = ''fill'') \<and> tabs_query env = Inr (Some tb)
        \<and> inject_error env = None \<and> \<not> inject_empty env
        \<and> querySelector (page env) (p_selector a) = Inr None"
  then have "action_switch env a = PReturned (failure ''Element not found'') (page env)"
    using not_found_click_fill [of a env tb] by blast
  then show "fst (executeBrowserAction env a) = failure ''Element not found''"
    by (simp add: executeBrowserAction_def)
next
  assume h: "action_tag a \<in> set injecting_actions \<and> tabs_query env = Inr (Some tb)"
  then have sw: "action_switch env a = inject_in_active_tab env (injected_func a)"
    by (simp add: switch_injecting)
  show "is_failure (fst (executeBrowserAction env a))
      \<or> (inject_error env = None \<and> \<not> inject_empty env
          \<and> injected_func a (page env)
               = PReturned (fst (executeBrowserAction env a)) (snd (executeBrowserAction env a)))"
  proof (cases "action_switch env a")
    case (PThrew e d)
    then show ?thesis
      by (simp add: executeBrowserAction_def is_failure_failure)
  next
    case (PReturned r d)
    then have "is_failure r
        \<or> (inject_error env = None \<and> \<not> inject_empty env \<and> injected_func a (page env) = PReturned r d)"
      using inject_result [of env tb "injected_func a" r d] h sw by simp
    then show ?thesis
      using PReturned by (simp add: executeBrowserAction_def)
  qed
qed

theorem browser_action_answered_when_socket_open_witness:
  "ws ((initial_panel None)\<lparr>ws := Some OPEN\<rparr>) = Some OPEN
   \<and> outbox (browser_action_roundtrip quote_env True fill_action ((initial_panel None)\<lparr>ws := Some OPEN\<rparr>))
       = [BrowserActionResult ''act-17'' (success NoPayload)]
   \<and> ws ((initial_panel None)\<lparr>ws := Some CLOSING\<rparr>) \<noteq> Some OPEN
   \<and> outbox (browser_action_roundtrip quote_env True fill_action ((initial_panel None)\<lparr>ws := Some CLOSING\<rparr>))
       = []
   \<and> action_tag (fill_action\<lparr>action_tag := ''hover''\<rparr>) \<notin> set known_actions
   \<and> fst (executeBrowserAction quote_env (fill_action\<lparr>action_tag := ''hover''\<rparr>))
       = failure ''Unknown action: hover''
   \<and> action_tag fill_action \<in> set tab_actions
   \<and> tabs_query (quote_env\<lparr>tabs_query := Inr None\<rparr>) = Inr None
   \<and> fst (executeBrowserAction (quote_env\<lparr>tabs_query := Inr None\<rparr>) fill_action)
       = failure ''No active tab''
   \<and> action_switch (quote_env\<lparr>tabs_query := Inl ''Tabs cannot be queried''\<rparr>) fill_action
       = PThrew ''Tabs cannot be queried'' quote_page
   \<and> executeBrowserAction (quote_env\<lparr>tabs_query := Inl ''Tabs cannot be queried''\<rparr>) fill_action
       = (failure ''Tabs cannot be queried'', quote_page)
   \<and> querySelector (page quote_env) (p_selector (fill_action\<lparr>p_selector := ''#phone''\<rparr>)) = Inr None
   \<and> fst (executeBrowserAction quote_env (fill_action\<lparr>p_selector := ''#phone''\<rparr>))
       = failure ''Element not found''
   \<and> action_tag fill_action \<in> set injecting_actions
   \<and> inject_empty (quote_env\<lparr>inject_empty := True\<rparr>)
   \<and> is_failure (fst (executeBrowserAction (quote_env\<lparr>inject_empty := True\<rparr>) fill_action))"
proof -
  let ?open = "(initial_panel None)\<lparr>ws := Some OPEN\<rparr>"
  let ?closing = "(initial_panel None)\<lparr>ws := Some CLOSING\<rparr>"
  let ?hover = "fill_action\<lparr>action_tag := ''hover''\<rparr>"
  let ?no_tab = "quote_env\<lparr>tabs_query := Inr None\<rparr>"
  let ?broken = "quote_env\<lparr>tabs_query := Inl ''Tabs cannot be queried''\<rparr>"
  let ?phone = "fill_action\<lparr>p_selector := ''#phone''\<rparr>"
  let ?empty = "quote_env\<lparr>inject_empty := True\<rparr>"
  have h1: "ws ?open = Some OPEN" by simp
  have h2: "ws ?closing \<noteq> Some OPEN" by simp
  have h3: "action_tag ?hover \<notin> set known_actions"
    by (simp add: known_actions_def)
  have h4: "action_tag fill_action \<in> set tab_actions" "tabs_query ?no_tab = Inr None"
    by (simp_all add: tab_actions_def fill_action_def)
  have h5: "action_switch ?broken fill_action = PThrew ''Tabs cannot be queried'' quote_page"
    by (simp add: action_switch_def fill_action_def sw_fillField_def inject_in_active_tab_def
        quote_env_def)
  have h6: "action_tag ?phone = ''click'' \<or> action_tag ?phone = ''fill''"
      "tabs_query quote_env = Inr (Some \<lparr>tab_id = 4, tab_url = ''https://quotes.example/new'',
                               tab_title = ''New quote''\<rparr>)"
      "inject_error quote_env = None" "\<not> inject_empty quote_env"
      "querySelector (page quote_env) (p_selector ?phone) = Inr None"
    by (simp_all add: fill_action_def quote_env_def quote_page_def)
  have h7: "action_tag fill_action \<in> set injecting_actions"
      "tabs_query ?empty = Inr (Some \<lparr>tab_id = 4, tab_url = ''https://quotes.example/new'',
                               tab_title = ''New quote''\<rparr>)"
      "inject_empty ?empty"
    by (simp_all add: injecting_actions_def fill_action_def quote_env_def)
  have empty: "outbox (initial_panel None) = []"
    by (simp add: initial_panel_def)
  have aid: "actionId fill_action = ''act-17''"
    by (simp add: fill_action_def)
  have c1: "outbox (browser_action_roundtrip quote_env True fill_action ?open)
       = [BrowserActionResult ''act-17'' (success NoPayload)]"
    using browser_action_answered_when_socket_open [of ?open quote_env fill_action, THEN conjunct1] h1
    by (simp add: empty aid quote_fill_runs)
  have c2: "outbox (browser_action_roundtrip quote_env True fill_action ?closing) = []"
    using browser_action_answered_when_socket_open [of ?closing quote_env fill_action True,
        THEN conjunct2, THEN conjunct2, THEN conjunct1] h2
    by (simp add: empty)
  have c3: "fst (executeBrowserAction quote_env ?hover) = failure ''Unknown action: hover''"
    using browser_action_answered_when_socket_open [of _ quote_env ?hover,
        THEN conjunct2, THEN conjunct2, THEN conjunct2, THEN conjunct1] h3
    by simp
  have c4: "fst (executeBrowserAction ?no_tab fill_action) = failure ''No active tab''"
    using browser_action_answered_when_socket_open [of _ ?no_tab fill_action,
        THEN conjunct2, THEN conjunct2, THEN conjunct2, THEN conjunct2, THEN conjunct1] h4
    by blast
  have c5: "executeBrowserAction ?broken fill_action = (failure ''Tabs cannot be queried'', quote_page)"
    using browser_action_answered_when_socket_open [of _ ?broken fill_action _
          "''Tabs cannot be queried''" quote_page,
        THEN conjunct2, THEN conjunct2, THEN conjunct2, THEN conjunct2, THEN conjunct2,
        THEN conjunct1] h5
    by blast
  have c6: "fst (executeBrowserAction quote_env ?phone) = failure ''Element not found''"
    using browser_action_answered_when_socket_open [of _ quote_env ?phone,
        THEN conjunct2, THEN conjunct2, THEN conjunct2, THEN conjunct2, THEN conjunct2,
        THEN conjunct2, THEN conjunct1] h6
    by blast
  have c7: "is_failure (fst (executeBrowserAction ?empty fill_action))"
    using browser_action_answered_when_socket_open [of _ ?empty fill_action,
        THEN conjunct2, THEN conjunct2, THEN conjunct2, THEN conjunct2, THEN conjunct2,
        THEN conjunct2, THEN conjunct2] h7
    by blast
  show ?thesis
    by (intro conjI) (fact h1 h2 h3 h4 h5 h6(5) h7(1,3) c1 c2 c3 c4 c5 c6 c7)+
qed

text \<open>
  The claim as stated fails when the socket is no longer open as the result arrives:
  the fill succeeds in the page, and no \<open>browser_action_result\<close> frame is sent.
\<close>

theorem result_frame_lost_when_socket_closed:
  "outbox (browser_action_roundtrip quote_env True fill_action
            ((initial_panel None)\<lparr>ws := Some CLOSED\<rparr>)) = []
   \<and> fst (executeBrowserAction quote_env fill_action) = success NoPayload"
  by (simp add: browser_action_roundtrip_def browser_action_callback_def initial_panel_def
      quote_fill_runs)

section \<open>Tool lifecycle in a running conversation\<close>

text \<open>
  The same scenario from any state of the panel in which the id \<open>'tool-' + Date.now()\<close>
  of the call is not yet the id of a message or of a card: the call appends one entry and
  the result completes that entry.
\<close>

lemma getElementById_append_last:
  "i \<noteq> [] \<Longrightarrow> \<forall>x\<in>set ds. div_id x \<noteq> i \<Longrightarrow> div_id c = i \<Longrightarrow>
   getElementById i (ds @ [c]) = Some c \<and> update_element i f (ds @ [c]) = ds @ [f c]"
  by (simp add: getElementById_def update_element_def find_append_last update_first_append_last)

lemma tool_call_then_result_when_id_fresh:
  assumes fresh_msg: "\<forall>x\<in>set (messages p). toolId x \<noteq> Some (tool_id (fst t1))"
    and fresh_dom: "\<forall>x\<in>set (dom p). div_id x \<noteq> tool_id (fst t1)"
  shows "messages (handle_all [(t1, ToolCall ''search_leads'' args),
            (t2, ToolResult (JObj [(''leads'', JArr [l])]))] p)
      = messages p @ [(toolMsg t1 ''search_leads'' args)\<lparr>toolStatus := Some ''complete'',
            toolSummary := Some ''Found 1 lead''\<rparr>]
    \<and> dom (handle_all [(t1, ToolCall ''search_leads'' args),
            (t2, ToolResult (JObj [(''leads'', JArr [l])]))] p)
      = dom p @ [\<lparr>div_id = tool_id (fst t1), classes = [''tool-card'', ''complete''],
          inner_html = ToolDone False ''Close CRM Search'' ''Found 1 lead''\<rparr>]"
proof -
  let ?m = "(toolMsg t1 ''search_leads'' args)\<lparr>timestamp := snd t1\<rparr>"
  let ?c = "\<lparr>div_id = tool_id (fst t1), classes = [''tool-card'', ''loading''],
          inner_html = ToolLoading ''Searching Close CRM...''\<rparr>"
  let ?p1 = "handleServerMessage t1 (ToolCall ''search_leads'' args) p"
  have m1: "messages ?p1 = messages p @ [?m]"
    by (simp add: messages_addMessage)
  have d1: "dom ?p1 = dom p @ [?c]"
    by (simp add: addMessage_def Let_def renderMessage_def saveMessages_def toolMsg_def
        toolInfo_search_leads)
  have c1: "currentToolId ?p1 = Some (tool_id (fst t1))"
    by simp
  have idm: "toolId ?m = Some (tool_id (fst t1))" "toolKey ?m = Some ''search_leads''"
    by (simp_all add: toolMsg_def)
  have fm: "find (\<lambda>m. toolId m = Some (tool_id (fst t1))) (messages ?p1) = Some ?m"
    unfolding m1 using find_append_last [of "messages p" "\<lambda>m. toolId m = Some (tool_id (fst t1))" ?m]
      fresh_msg idm by blast
  have um: "update_first (\<lambda>m. toolId m = Some (tool_id (fst t1))) f (messages ?p1) = messages p @ [f ?m]" for f
    unfolding m1 using update_first_append_last [of "messages p" "\<lambda>m. toolId m = Some (tool_id (fst t1))" ?m f]
      fresh_msg idm by blast
  have gd: "getElementById (tool_id (fst t1)) (dom ?p1) = Some ?c
      \<and> update_element (tool_id (fst t1)) f (dom ?p1) = dom p @ [f ?c]" for f
    unfolding d1 using getElementById_append_last [OF tool_id_nonempty fresh_dom, of ?c f] by simp
  have same: "?m = toolMsg t1 ''search_leads'' args"
    by (simp add: toolMsg_def)
  have key: "toolKey (toolMsg t1 ''search_leads'' args) = Some ''search_leads''"
    by (simp add: toolMsg_def)
  have "handle_all [(t1, ToolCall ''search_leads'' args),
            (t2, ToolResult (JObj [(''leads'', JArr [l])]))] p
      = (resolve_tool (tool_id (fst t1)) (JObj [(''leads'', JArr [l])]) ?p1)\<lparr>currentToolId := None\<rparr>"
    using c1 by (simp add: tool_id_nonempty del: handleServerMessage.simps(4))
  moreover have "resolve_tool (tool_id (fst t1)) (JObj [(''leads'', JArr [l])]) ?p1
      = ?p1\<lparr>messages := messages p @ [(toolMsg t1 ''search_leads'' args)\<lparr>toolStatus := Some ''complete'',
            toolSummary := Some ''Found 1 lead''\<rparr>],
          dom := dom p @ [\<lparr>div_id = tool_id (fst t1), classes = [''tool-card'', ''complete''],
          inner_html = ToolDone False ''Close CRM Search'' ''Found 1 lead''\<rparr>]\<rparr>"
    unfolding resolve_tool_def
    by (simp add: fm um gd Let_def same key summarize_one_lead one_lead_not_error
          toolInfo_search_leads del: handleServerMessage.simps)
  ultimately show ?thesis
    by (simp del: handleServerMessage.simps handle_all.simps)
qed

lemma summarize_get_lead_leads:
  "summarizeToolResult (Some ''get_lead'') (JObj [(''leads'', JArr [l])]) = ''Data retrieved''"
  by (simp add: summarizeToolResult_def summarize_switch_def)

lemma summarize_get_lead_name:
  "summarizeToolResult (Some ''get_lead'') (JObj [(''name'', JStr ''LDJ'')]) = ''Loaded: LDJ''"
  by (simp add: summarizeToolResult_def summarize_switch_def js_or_def)

lemma toolInfo_get_lead:
  "toolInfo ''get_lead'' = (''Close CRM Lookup'', ''Fetching lead details...'')"
  by (simp add: toolInfo_def TOOL_DISPLAY_def)

text \<open>
  C6.  The claim asks that a \<open>tool_call\<close> for \<open>search_leads\<close> followed by a \<open>tool_result\<close>
  with one lead yield exactly one tool-status entry that goes from loading to complete
  with the summary \<open>Found 1 lead\<close>.  The entry is found again by its id
  \<open>'tool-' + Date.now()\<close>, and both \<open>getElementById\<close> and \<open>find\<close> return the first entry with
  that id.  Here a \<open>get_lead\<close> call and its result are followed, within the same
  millisecond, by the \<open>search_leads\<close> call, so the two entries share the id; the result
  with one lead arrives a millisecond later.  It is written to the first entry, the
  finished \<open>get_lead\<close> one, whose summary \<open>Loaded: LDJ\<close> becomes \<open>Data retrieved\<close>; the
  \<open>search_leads\<close> entry stays in the loading state, message and card, and no entry shows
  \<open>Found 1 lead\<close>.
\<close>

theorem tool_id_collision_leaves_search_loading:
  "messages (handle_all
       [((1733356800000, 1733356800000), ToolCall ''get_lead'' (JObj [(''id'', JStr ''lead_abc'')])),
        ((1733356800000, 1733356800000), ToolResult (JObj [(''name'', JStr ''LDJ'')])),
        ((1733356800000, 1733356800000), ToolCall ''search_leads'' (JObj [(''query'', JStr ''LDJ'')])),
        ((1733356800001, 1733356800001),
           ToolResult (JObj [(''leads'', JArr [JObj [(''name'', JStr ''LDJ'')]])]))]
       (initial_panel None))
     = [(toolMsg (1733356800000, 1733356800000) ''get_lead'' (JObj [(''id'', JStr ''lead_abc'')]))
          \<lparr>toolStatus := Some ''complete'', toolSummary := Some ''Data retrieved''\<rparr>,
        toolMsg (1733356800000, 1733356800000) ''search_leads'' (JObj [(''query'', JStr ''LDJ'')])]
   \<and> toolStatus (toolMsg (1733356800000, 1733356800000) ''search_leads'' (JObj [(''query'', JStr ''LDJ'')]))
       = Some ''loading''
   \<and> dom (handle_all
       [((1733356800000, 1733356800000), ToolCall ''get_lead'' (JObj [(''id'', JStr ''lead_abc'')])),
        ((1733356800000, 1733356800000), ToolResult (JObj [(''name'', JStr ''LDJ'')])),
        ((1733356800000, 1733356800000), ToolCall ''search_leads'' (JObj [(''query'', JStr ''LDJ'')])),
        ((1733356800001, 1733356800001),
           ToolResult (JObj [(''leads'', JArr [JObj [(''name'', JStr ''LDJ'')]])]))]
       (initial_panel None))
     = [\<lparr>div_id = tool_id 1733356800000, classes = [''tool-card'', ''complete''],
          inner_html = ToolDone False ''Close CRM Lookup'' ''Data retrieved''\<rparr>,
        \<lparr>div_id = tool_id 1733356800000, classes = [''tool-card'', ''loading''],
          inner_html = ToolLoading ''Searching Close CRM...''\<rparr>]"
  by (simp add: initial_panel_def addMessage_def renderMessage_def Let_def toolMsg_def
      saveMessages_def tool_id_nonempty resolve_tool_def getElementById_def update_element_def
      summarize_get_lead_leads summarize_get_lead_name isError_def toolInfo_search_leads
      toolInfo_get_lead)

section \<open>The persisted history stays within the cap\<close>

lemma saveMessages_within_cap: "within_cap (storage (saveMessages p))"
  by (simp add: saveMessages_def within_cap_def)

lemma addMessage_within_cap: "within_cap (storage (addMessage now m p))"
  by (simp add: addMessage_def Let_def saveMessages_within_cap)

lemma handleServerMessage_within_cap:
  "within_cap (storage p) \<Longrightarrow> within_cap (storage (handleServerMessage now f p))"
  by (cases f)
     (simp_all add: Let_def storage_renderMessage hideThinkingIndicator_def
        updateStreamingMessage_def saveMessages_within_cap addMessage_within_cap resolve_tool_def
        split: option.splits)

lemma handleFiles_storage: "storage (state_of (handleFiles fs p)) = storage p"
  by (induction fs arbitrary: p) (simp_all split: option.splits)

lemma ws_send_storage: "storage (state_of (ws_send f p)) = storage p"
  by (simp add: ws_send_def split: option.splits readyState.splits)

lemma sendMessage_within_cap:
  "within_cap (storage p) \<Longrightarrow> within_cap (storage (state_of (sendMessage now c p)))"
  by (simp add: sendMessage_def Let_def ws_send_storage showThinkingIndicator_def
        clearPendingFiles_def addMessage_within_cap)

lemma step_within_cap:
  "within_cap (storage p) \<Longrightarrow> within_cap (storage (panel_step p e))"
proof (cases e)
  case WsOpen
  assume "within_cap (storage p)"
  then show ?thesis using WsOpen by (simp add: ws_onopen_effect)
next
  case WsClose
  assume "within_cap (storage p)"
  then show ?thesis using WsClose by (simp add: ws_onclose_def Let_def)
next
  case Connect
  assume "within_cap (storage p)"
  then show ?thesis using Connect by (simp add: connectWebSocket_def)
next
  case (Frame now f)
  assume "within_cap (storage p)"
  then show ?thesis using Frame by (simp add: handleServerMessage_within_cap)
next
  case (Attach fs)
  assume "within_cap (storage p)"
  then show ?thesis using Attach by (simp add: handleFiles_storage)
next
  case (RemoveFile idx)
  assume "within_cap (storage p)"
  then show ?thesis using RemoveFile by (simp add: removePendingFile_def)
next
  case (Send now c)
  assume "within_cap (storage p)"
  then show ?thesis using Send by (simp add: sendMessage_within_cap)
next
  case (ActionDone a r)
  assume "within_cap (storage p)"
  then show ?thesis using ActionDone by (simp add: browser_action_callback_def)
qed

lemma run_within_cap:
  "within_cap (storage p) \<Longrightarrow> within_cap (storage (panel_run p evs))"
  unfolding panel_run_def
  by (induction evs arbitrary: p) (simp_all add: step_within_cap)

lemma storage_loadMessages: "storage (loadMessages p) = storage p"
proof -
  have "storage (fold (\<lambda>msg q. renderMessage msg (q\<lparr>messages := messages q @ [msg]\<rparr>)) ms q) = storage q"
    for ms q
    by (induction ms arbitrary: q) (simp_all add: storage_renderMessage)
  then show ?thesis by (simp add: loadMessages_def)
qed

lemma session_within_cap: "within_cap st \<Longrightarrow> within_cap (session st evs)"
  by (simp add: session_def run_within_cap storage_loadMessages initial_panel_def)

lemma sessions_within_cap: "within_cap st \<Longrightarrow> within_cap (foldl session st evss)"
  by (induction evss arbitrary: st) (simp_all add: session_within_cap)

lemma restored_within_cap:
  "within_cap st \<Longrightarrow> length (messages (loadMessages (initial_panel st))) \<le> 100"
  by (simp add: messages_loadMessages initial_panel_def within_cap_def split: option.splits)

text \<open>
  C10.  The snapshot written by \<open>saveMessages\<close> is the suffix of the in-memory sequence
  holding its last 100 messages (all of them when there are fewer), and \<open>loadMessages\<close>
  on the state literal restores exactly that snapshot.  Over any number of sessions from
  an empty storage, each loading the history and then handling any events, the storage
  never holds more than 100 messages, so the history restored by the next load never
  exceeds 100 entries; while \<open>addMessage\<close> always lengthens the in-memory sequence by one,
  with no truncation.
\<close>

theorem persisted_history_at_most_100:
  "storage (saveMessages p) = Some (drop (length (messages p) - 100) (messages p))
   \<and> length (drop (length (messages p) - 100) (messages p)) = min 100 (length (messages p))
   \<and> messages (loadMessages (initial_panel (storage (saveMessages p))))
       = drop (length (messages p) - 100) (messages p)
   \<and> within_cap (foldl session None evss)
   \<and> length (messages (loadMessages (initial_panel (foldl session None evss)))) \<le> 100
   \<and> length (messages (addMessage now m p)) = Suc (length (messages p))"
proof -
  let ?n = "length (messages p)"
  have kept: "length (drop (?n - 100) (messages p)) = min 100 ?n"
    by (simp add: min_def)
  have restored: "messages (loadMessages (initial_panel (storage (saveMessages p))))
       = drop (?n - 100) (messages p)"
    by (simp add: messages_loadMessages saveMessages_def initial_panel_def)
  have fresh: "within_cap None"
    by (simp add: within_cap_def)
  have every: "within_cap (foldl session None evss)"
    using sessions_within_cap [OF fresh] .
  have bounded: "length (messages (loadMessages (initial_panel (foldl session None evss)))) \<le> 100"
    using restored_within_cap [OF every] .
  show ?thesis
    using kept restored every bounded by (simp add: messages_addMessage saveMessages_def)
qed

end
